theory Spec2Isabelle
  imports Complex_Main "HOL-Library.Sublist" "HOL-Library.List_Lexorder" "HOL-Library.AList"
    "HOL-Library.Multiset"
begin

section \<open>JavaScript strings\<close>

text \<open>
  A JavaScript string is a sequence of UTF-16 code units; a code unit is modelled by its
  number. Literals of the source are written \<open>js ''...''\<close> for their ASCII part and as
  explicit code units for everything else (\<open>[243]\<close> is o with acute).

  The case mappings, the canonical decomposition and the combining classes below are
  those of the Unicode character database for the code units U+0000 to U+00FF (Basic
  Latin and Latin-1 Supplement), U+0300 to U+036F (Combining Diacritical Marks) and the
  two Hebrew marks U+0591 and U+05B0. Every other code unit is treated as a character
  without case mapping, without decomposition and of combining class 0.
\<close>

type_synonym jsstring = "nat list"

definition js :: "string \<Rightarrow> jsstring" where
  "js s = map of_char s"

definition isWhiteSpace :: "nat \<Rightarrow> bool" where
  \<comment> \<open>the class \<open>\s\<close> of regular expressions, which is also what \<open>trim\<close> removes\<close>
  "isWhiteSpace c \<longleftrightarrow>
     c = 0x9 \<or> c = 0xA \<or> c = 0xB \<or> c = 0xC \<or> c = 0xD \<or> c = 0x20 \<or> c = 0xA0 \<or>
     c = 0x1680 \<or> (0x2000 \<le> c \<and> c \<le> 0x200A) \<or> c = 0x2028 \<or> c = 0x2029 \<or>
     c = 0x202F \<or> c = 0x205F \<or> c = 0x3000 \<or> c = 0xFEFF"

definition isLineTerminator :: "nat \<Rightarrow> bool" where
  \<comment> \<open>the code units that \<open>.\<close> of a regular expression does not match\<close>
  "isLineTerminator c \<longleftrightarrow> c = 0xA \<or> c = 0xD \<or> c = 0x2028 \<or> c = 0x2029"

definition trim :: "jsstring \<Rightarrow> jsstring" where
  "trim s = rev (dropWhile isWhiteSpace (rev (dropWhile isWhiteSpace s)))"

fun includesStr :: "jsstring \<Rightarrow> jsstring \<Rightarrow> bool" where
  "includesStr [] sub = (sub = [])"
| "includesStr (c # cs) sub = (prefix sub (c # cs) \<or> includesStr cs sub)"

definition upperUnits :: "nat \<Rightarrow> jsstring" where
  "upperUnits c =
     (if (0x61 \<le> c \<and> c \<le> 0x7A) \<or> (0xE0 \<le> c \<and> c \<le> 0xF6) \<or> (0xF8 \<le> c \<and> c \<le> 0xFE)
      then [c - 0x20]
      else if c = 0xB5 then [0x39C]
      else if c = 0xDF then [0x53, 0x53]
      else if c = 0xFF then [0x178]
      else if c = 0x345 then [0x399]
      else [c])"

definition toUpperCase :: "jsstring \<Rightarrow> jsstring" where
  "toUpperCase s = concat (map upperUnits s)"

definition lowerUnit :: "nat \<Rightarrow> nat" where
  "lowerUnit c =
     (if (0x41 \<le> c \<and> c \<le> 0x5A) \<or> (0xC0 \<le> c \<and> c \<le> 0xD6) \<or> (0xD8 \<le> c \<and> c \<le> 0xDE)
      then c + 0x20 else c)"

definition toLowerCase :: "jsstring \<Rightarrow> jsstring" where
  "toLowerCase s = map lowerUnit s"

function natToString :: "nat \<Rightarrow> jsstring" where
  "natToString n = (if n < 10 then [0x30 + n] else natToString (n div 10) @ [0x30 + n mod 10])"
  by pat_completeness auto
termination
  by (relation "measure id") auto

declare natToString.simps [simp del]

definition intToString :: "int \<Rightarrow> jsstring" where
  \<comment> \<open>\<open>String(n)\<close> for an integer \<open>n\<close>\<close>
  "intToString n = (if n < 0 then 0x2D # natToString (nat (- n)) else natToString (nat n))"

definition padStart2 :: "jsstring \<Rightarrow> jsstring" where
  \<comment> \<open>\<open>s.padStart(2, '0')\<close>\<close>
  "padStart2 s = replicate (2 - length s) 0x30 @ s"

subsection \<open>Canonical decomposition (NFD)\<close>

definition decompositionTable :: "(nat \<times> jsstring) list" where
  "decompositionTable =
    [(0xC0, [0x41, 0x300]), (0xC1, [0x41, 0x301]), (0xC2, [0x41, 0x302]), (0xC3, [0x41, 0x303]),
     (0xC4, [0x41, 0x308]), (0xC5, [0x41, 0x30A]), (0xC7, [0x43, 0x327]),
     (0xC8, [0x45, 0x300]), (0xC9, [0x45, 0x301]), (0xCA, [0x45, 0x302]), (0xCB, [0x45, 0x308]),
     (0xCC, [0x49, 0x300]), (0xCD, [0x49, 0x301]), (0xCE, [0x49, 0x302]), (0xCF, [0x49, 0x308]),
     (0xD1, [0x4E, 0x303]),
     (0xD2, [0x4F, 0x300]), (0xD3, [0x4F, 0x301]), (0xD4, [0x4F, 0x302]), (0xD5, [0x4F, 0x303]),
     (0xD6, [0x4F, 0x308]),
     (0xD9, [0x55, 0x300]), (0xDA, [0x55, 0x301]), (0xDB, [0x55, 0x302]), (0xDC, [0x55, 0x308]),
     (0xDD, [0x59, 0x301]),
     (0xE0, [0x61, 0x300]), (0xE1, [0x61, 0x301]), (0xE2, [0x61, 0x302]), (0xE3, [0x61, 0x303]),
     (0xE4, [0x61, 0x308]), (0xE5, [0x61, 0x30A]), (0xE7, [0x63, 0x327]),
     (0xE8, [0x65, 0x300]), (0xE9, [0x65, 0x301]), (0xEA, [0x65, 0x302]), (0xEB, [0x65, 0x308]),
     (0xEC, [0x69, 0x300]), (0xED, [0x69, 0x301]), (0xEE, [0x69, 0x302]), (0xEF, [0x69, 0x308]),
     (0xF1, [0x6E, 0x303]),
     (0xF2, [0x6F, 0x300]), (0xF3, [0x6F, 0x301]), (0xF4, [0x6F, 0x302]), (0xF5, [0x6F, 0x303]),
     (0xF6, [0x6F, 0x308]),
     (0xF9, [0x75, 0x300]), (0xFA, [0x75, 0x301]), (0xFB, [0x75, 0x302]), (0xFC, [0x75, 0x308]),
     (0xFD, [0x79, 0x301]), (0xFF, [0x79, 0x308]),
     (0x340, [0x300]), (0x341, [0x301]), (0x343, [0x313]), (0x344, [0x308, 0x301])]"

definition decomposition :: "nat \<Rightarrow> jsstring" where
  "decomposition c = (case map_of decompositionTable c of Some d \<Rightarrow> d | None \<Rightarrow> [c])"

definition combiningClass :: "nat \<Rightarrow> nat" where
  "combiningClass c =
     (if c < 0x300 then 0
      else if c \<le> 0x314 then 230 else if c = 0x315 then 232
      else if c \<le> 0x319 then 220 else if c = 0x31A then 232
      else if c = 0x31B then 216 else if c \<le> 0x320 then 220
      else if c \<le> 0x322 then 202 else if c \<le> 0x326 then 220
      else if c \<le> 0x328 then 202 else if c \<le> 0x333 then 220
      else if c \<le> 0x338 then 1 else if c \<le> 0x33C then 220
      else if c \<le> 0x344 then 230 else if c = 0x345 then 240
      else if c = 0x346 then 230 else if c \<le> 0x349 then 220
      else if c \<le> 0x34C then 230 else if c \<le> 0x34E then 220
      else if c = 0x34F then 0 else if c \<le> 0x352 then 230
      else if c \<le> 0x356 then 220 else if c = 0x357 then 230
      else if c = 0x358 then 232 else if c \<le> 0x35A then 220
      else if c = 0x35B then 230 else if c = 0x35C then 233
      else if c \<le> 0x35E then 234 else if c = 0x35F then 233
      else if c \<le> 0x361 then 234 else if c = 0x362 then 233
      else if c \<le> 0x36F then 230
      else if c = 0x591 then 220
      else if c = 0x5B0 then 10
      else 0)"

text \<open>
  Canonical ordering: within every run of characters of non-zero combining class the
  characters are sorted by class, stably. \<open>insertMark c s\<close> puts \<open>c\<close> in front of an
  ordered string \<open>s\<close> and moves it right, past the marks of a smaller non-zero class.
\<close>

fun insertMark :: "nat \<Rightarrow> jsstring \<Rightarrow> jsstring" where
  "insertMark c [] = [c]"
| "insertMark c (d # ds) =
     (if 0 < combiningClass d \<and> combiningClass d < combiningClass c
      then d # insertMark c ds else c # d # ds)"

definition canonicalOrder :: "jsstring \<Rightarrow> jsstring" where
  "canonicalOrder s = foldr insertMark s []"

definition normalizeNFD :: "jsstring \<Rightarrow> jsstring" where
  \<comment> \<open>\<open>s.normalize('NFD')\<close>\<close>
  "normalizeNFD s = canonicalOrder (concat (map decomposition s))"

section \<open>The criteria catalog (config/evaluation-criteria.ts)\<close>

datatype Criticality = Critico | NoCritico
  \<comment> \<open>the two values of \<open>criticality\<close>: the word Critico (written with an accent) and \<open>'-'\<close>\<close>

datatype Points = Pts int | NA
  \<comment> \<open>\<open>points: number | 'n/a'\<close>\<close>

record EvaluationTopic =
  topic :: jsstring
  criticality :: Criticality
  points :: Points
  applies :: bool
  whatToLookFor :: "jsstring option"

record EvaluationBlock =
  blockName :: jsstring
  topics :: "EvaluationTopic list"

definition FRAUD_CRITERIA :: "EvaluationBlock list" where
  "FRAUD_CRITERIA = [
    \<lparr>blockName = js ''Falcon'', topics = [
      \<lparr>topic = js ''Cierre correcto del caso'',
        criticality = Critico, points = Pts 5, applies = True,
        whatToLookFor = Some (js ''En transcripci'' @ [243] @ js ''n: agente cierra adecuadamente el caso informando pasos siguientes al cliente'')\<rparr>,
      \<lparr>topic = js ''Creaci'' @ [243] @ js ''n y llenado correcto del caso: (creaci'' @ [243] @ js ''n correcto del caso, selecci'' @ [243] @ js ''n de casillas, calificaci'' @ [243] @ js ''n de transacciones, comentarios correctos)'',
        criticality = NoCritico, points = Pts 10, applies = True,
        whatToLookFor = Some (js ''En capturas FALCON: caso creado correctamente, casillas marcadas, transacciones calificadas, comentarios completos'')\<rparr>,
      \<lparr>topic = js ''Ingresa a HOTLIST_APROBAR / Ingresa a HOTLIST_Rechazar'',
        criticality = NoCritico, points = NA, applies = False,
        whatToLookFor = Some (js ''No aplica para FRAUDE'')\<rparr>,
      \<lparr>topic = js ''Ingresa a HOTLIST_APROBAR'',
        criticality = NoCritico, points = NA, applies = False,
        whatToLookFor = Some (js ''No aplica para FRAUDE'')\<rparr>,
      \<lparr>topic = js ''Ingresa a HOTLIST_Rechazar'',
        criticality = NoCritico, points = NA, applies = False,
        whatToLookFor = Some (js ''No aplica para FRAUDE'')\<rparr>,
      \<lparr>topic = js ''Ingreso a HOTLIST_AVISO DE VIAJE'',
        criticality = NoCritico, points = NA, applies = False,
        whatToLookFor = Some (js ''No aplica para FRAUDE'')\<rparr>,
      \<lparr>topic = js ''Califica correctamente la llamada'',
        criticality = NoCritico, points = NA, applies = False,
        whatToLookFor = Some (js ''No aplica para FRAUDE'')\<rparr>]\<rparr>,
    \<lparr>blockName = js ''Front'', topics = [
      \<lparr>topic = js ''Codificaci'' @ [243] @ js ''n correcta del caso'',
        criticality = Critico, points = Pts 5, applies = True,
        whatToLookFor = Some (js ''En capturas FRONT: caso codificado correctamente con el c'' @ [243] @ js ''digo apropiado para fraude'')\<rparr>,
      \<lparr>topic = js ''Llenado correcto del front (caso correcto, comentarios acorde a la gesti'' @ [243] @ js ''n)'',
        criticality = NoCritico, points = NA, applies = False,
        whatToLookFor = Some (js ''No aplica para FRAUDE (se usa otra versi'' @ [243] @ js ''n del t'' @ [243] @ js ''pico)'')\<rparr>,
      \<lparr>topic = js ''Llenado correcto del front (caso correcto, comentarios acorde a la gesti'' @ [243] @ js ''n, tienen afectaci'' @ [243] @ js ''n/ sin afectaci'' @ [243] @ js ''n)'',
        criticality = NoCritico, points = Pts 5, applies = True,
        whatToLookFor = Some (js ''En capturas FRONT: comentarios detallados con indicaci'' @ [243] @ js ''n clara de si hay afectaci'' @ [243] @ js ''n o no'')\<rparr>,
      \<lparr>topic = js ''Sube capturas completas'',
        criticality = NoCritico, points = NA, applies = False,
        whatToLookFor = Some (js ''No aplica directamente'')\<rparr>,
      \<lparr>topic = js ''Colocar capturas completas y correctas'',
        criticality = NoCritico, points = Pts 5, applies = True,
        whatToLookFor = Some (js ''Verificar que existen capturas de FALCON, VCAS, VISION, VRM, BI - todas completas y legibles'')\<rparr>,
      \<lparr>topic = js ''Subir Excel'',
        criticality = NoCritico, points = Pts 5, applies = True,
        whatToLookFor = Some (js ''En capturas o transcripci'' @ [243] @ js ''n: evidencia de Excel con movimientos subido al sistema'')\<rparr>,
      \<lparr>topic = js ''Califica correctamente la llamada'',
        criticality = NoCritico, points = NA, applies = False,
        whatToLookFor = Some (js ''No aplica en esta secci'' @ [243] @ js ''n para FRAUDE'')\<rparr>]\<rparr>,
    \<lparr>blockName = js ''Vcas'', topics = [
      \<lparr>topic = js ''Calificaci'' @ [243] @ js ''n de transacciones'',
        criticality = NoCritico, points = NA, applies = False,
        whatToLookFor = Some (js ''No aplica (se usa '' @ [34] @ js ''Califica transacciones'' @ [34] @ js '')'')\<rparr>,
      \<lparr>topic = js ''Aplica Bypass'',
        criticality = NoCritico, points = NA, applies = False,
        whatToLookFor = Some (js ''No aplica para FRAUDE'')\<rparr>,
      \<lparr>topic = js ''Bloquea tarjeta'',
        criticality = Critico, points = Pts 5, applies = True,
        whatToLookFor = Some (js ''En transcripci'' @ [243] @ js ''n: agente menciona bloqueo de tarjeta. En capturas VCAS: status BLKI o bloqueo aplicado'')\<rparr>,
      \<lparr>topic = js ''Califica transacciones'',
        criticality = NoCritico, points = Pts 5, applies = True,
        whatToLookFor = Some (js ''En capturas VCAS: transacciones marcadas correctamente como fraude o leg'' @ [237] @ js ''timas seg'' @ [250] @ js ''n corresponda'')\<rparr>,
      \<lparr>topic = js ''Calificaci'' @ [243] @ js ''n de transacciones'',
        criticality = NoCritico, points = NA, applies = False,
        whatToLookFor = Some (js ''Duplicado, no aplica'')\<rparr>,
      \<lparr>topic = js ''Valida compras por facturar y cortes para identificar la compra para aclaraci'' @ [243] @ js ''n.'' @ [10] @ js ''Valida que las compras no tengan una reversa'',
        criticality = NoCritico, points = NA, applies = False,
        whatToLookFor = Some (js ''No aplica para FRAUDE'')\<rparr>]\<rparr>,
    \<lparr>blockName = js ''Vision'', topics = [
      \<lparr>topic = js ''Valida pantalla OFAA y CRESP (CVV2 incorrecto, Tarjeta vencida, Fecha de vencimiento incorrecta, TJ Cancelada, etc)'',
        criticality = NoCritico, points = NA, applies = False,
        whatToLookFor = Some (js ''No aplica para FRAUDE'')\<rparr>,
      \<lparr>topic = js ''Comentarios correctos en ASHI'',
        criticality = NoCritico, points = Pts 5, applies = True,
        whatToLookFor = Some (js ''En capturas VISION/ASHI: comentarios claros y completos sobre la gesti'' @ [243] @ js ''n realizada'')\<rparr>,
      \<lparr>topic = js ''Desbloquea tarjeta BLKI, BLKT, BPT0, BNFC'',
        criticality = NoCritico, points = NA, applies = False,
        whatToLookFor = Some (js ''No aplica para FRAUDE (en fraude se BLOQUEA, no se desbloquea)'')\<rparr>,
      \<lparr>topic = js ''Bloqueo correcto'',
        criticality = Critico, points = Pts 7, applies = True,
        whatToLookFor = Some (js ''En capturas VISION: tipo de bloqueo correcto aplicado (BLKI para fraude)'')\<rparr>]\<rparr>,
    \<lparr>blockName = js ''VRM'', topics = [
      \<lparr>topic = js ''Valida compras en ARTD y ARSD'',
        criticality = NoCritico, points = Pts 5, applies = True,
        whatToLookFor = Some (js ''En capturas VRM: transacciones validadas en pantallas ARTD y ARSD'')\<rparr>,
      \<lparr>topic = js ''Calificaci'' @ [243] @ js ''n de transacciones, comentarios y aplica mantenimiento'',
        criticality = Critico, points = Pts 10, applies = True,
        whatToLookFor = Some (js ''En VRM: transacciones calificadas correctamente, comentarios agregados, y mantenimiento aplicado'')\<rparr>]\<rparr>,
    \<lparr>blockName = js ''B.I'', topics = [
      \<lparr>topic = js ''Crea el Folio Correctamente'',
        criticality = NoCritico, points = Pts 10, applies = True,
        whatToLookFor = Some (js ''En capturas BI: folio creado con todos los datos completos y correctos'')\<rparr>]\<rparr>,
    \<lparr>blockName = js ''Manejo de llamada'', topics = [
      \<lparr>topic = js ''Cumple con el script'',
        criticality = NoCritico, points = Pts 17, applies = True,
        whatToLookFor = Some (js ''En transcripci'' @ [243] @ js ''n: sigue el script completo (saludo, validaci'' @ [243] @ js ''n, explicaci'' @ [243] @ js ''n del proceso, preguntas de seguridad, cierre)'')\<rparr>,
      \<lparr>topic = js ''Educaci'' @ [243] @ js ''n, frases de conexi'' @ [243] @ js ''n, comunicaci'' @ [243] @ js ''n efectiva y escucha activa'',
        criticality = NoCritico, points = Pts 5, applies = True,
        whatToLookFor = Some (js ''En transcripci'' @ [243] @ js ''n: usa frases de empat'' @ [237] @ js ''a, responde adecuadamente a las inquietudes del cliente, escucha activamente'')\<rparr>,
      \<lparr>topic = js ''Control de llamada y Puntualidad'',
        criticality = NoCritico, points = Pts 6, applies = True,
        whatToLookFor = Some (js ''En transcripci'' @ [243] @ js ''n: mantiene control de la conversaci'' @ [243] @ js ''n, no se desv'' @ [237] @ js ''a del tema, maneja objeciones adecuadamente'')\<rparr>,
      \<lparr>topic = js ''Autentica correctamente'',
        criticality = NoCritico, points = Pts 11, applies = True,
        whatToLookFor = Some (js ''En transcripci'' @ [243] @ js ''n: realiza autenticaci'' @ [243] @ js ''n completa al inicio de la llamada (CallerID, OTP, o preguntas de seguridad seg'' @ [250] @ js ''n protocolo)'')\<rparr>]\<rparr>]"

definition TH_CONFIRMA_CRITERIA :: "EvaluationBlock list" where
  "TH_CONFIRMA_CRITERIA = [
    \<lparr>blockName = js ''Falcon'', topics = [
      \<lparr>topic = js ''Cierre correcto del caso'',
        criticality = Critico, points = Pts 5, applies = True,
        whatToLookFor = Some (js ''Cierre adecuado del caso'')\<rparr>,
      \<lparr>topic = js ''Creaci'' @ [243] @ js ''n y llenado correcto del caso: (creaci'' @ [243] @ js ''n correcto del caso, selecci'' @ [243] @ js ''n de casillas, calificaci'' @ [243] @ js ''n de transacciones, comentarios correctos)'',
        criticality = NoCritico, points = Pts 10, applies = True,
        whatToLookFor = Some (js ''Caso creado correctamente en Falcon'')\<rparr>,
      \<lparr>topic = js ''Ingresa a HOTLIST_APROBAR / Ingresa a HOTLIST_Rechazar'',
        criticality = NoCritico, points = NA, applies = False,
        whatToLookFor = Some (js ''No aplica'')\<rparr>,
      \<lparr>topic = js ''Ingresa a HOTLIST_APROBAR'',
        criticality = NoCritico, points = Pts 12, applies = True,
        whatToLookFor = Some (js ''En capturas Falcon: ingres'' @ [243] @ js '' a HOTLIST para aprobar'')\<rparr>,
      \<lparr>topic = js ''Ingresa a HOTLIST_Rechazar'',
        criticality = NoCritico, points = NA, applies = False,
        whatToLookFor = Some (js ''No aplica si aprob'' @ [243])\<rparr>,
      \<lparr>topic = js ''Ingreso a HOTLIST_AVISO DE VIAJE'',
        criticality = NoCritico, points = NA, applies = False,
        whatToLookFor = Some (js ''No aplica'')\<rparr>,
      \<lparr>topic = js ''Califica correctamente la llamada'',
        criticality = NoCritico, points = NA, applies = False,
        whatToLookFor = Some (js ''No aplica'')\<rparr>]\<rparr>,
    \<lparr>blockName = js ''Front'', topics = [
      \<lparr>topic = js ''Codificaci'' @ [243] @ js ''n correcta del caso'',
        criticality = Critico, points = Pts 5, applies = True,
        whatToLookFor = Some (js ''Codificaci'' @ [243] @ js ''n correcta en FRONT'')\<rparr>,
      \<lparr>topic = js ''Llenado correcto del front (caso correcto, comentarios acorde a la gesti'' @ [243] @ js ''n)'',
        criticality = NoCritico, points = Pts 5, applies = True,
        whatToLookFor = Some (js ''FRONT con comentarios completos'')\<rparr>,
      \<lparr>topic = js ''Llenado correcto del front (caso correcto, comentarios acorde a la gesti'' @ [243] @ js ''n, tienen afectaci'' @ [243] @ js ''n/ sin afectaci'' @ [243] @ js ''n)'',
        criticality = NoCritico, points = NA, applies = False,
        whatToLookFor = Some (js ''No aplica'')\<rparr>,
      \<lparr>topic = js ''Sube capturas completas'',
        criticality = NoCritico, points = NA, applies = False,
        whatToLookFor = Some (js ''No aplica'')\<rparr>,
      \<lparr>topic = js ''Colocar capturas completas y correctas'',
        criticality = NoCritico, points = Pts 5, applies = True,
        whatToLookFor = Some (js ''Capturas necesarias'')\<rparr>,
      \<lparr>topic = js ''Subir Excel'',
        criticality = NoCritico, points = Pts 5, applies = True,
        whatToLookFor = Some (js ''Excel con movimientos'')\<rparr>,
      \<lparr>topic = js ''Califica correctamente la llamada'',
        criticality = NoCritico, points = Pts 5, applies = True,
        whatToLookFor = Some (js ''Llamada calificada'')\<rparr>]\<rparr>,
    \<lparr>blockName = js ''Vcas'', topics = [
      \<lparr>topic = js ''Calificaci'' @ [243] @ js ''n de transacciones'',
        criticality = NoCritico, points = Pts 10, applies = True,
        whatToLookFor = Some (js ''Transacciones calificadas'')\<rparr>,
      \<lparr>topic = js ''Aplica Bypass'',
        criticality = NoCritico, points = NA, applies = False,
        whatToLookFor = Some (js ''No genera si es menos de 24hrs'')\<rparr>,
      \<lparr>topic = js ''Bloquea tarjeta'',
        criticality = Critico, points = Pts 5, applies = True,
        whatToLookFor = Some (js ''Desbloquea tarjeta despu'' @ [233] @ js ''s de confirmar'')\<rparr>,
      \<lparr>topic = js ''Califica transacciones'',
        criticality = NoCritico, points = NA, applies = False,
        whatToLookFor = Some (js ''No aplica'')\<rparr>,
      \<lparr>topic = js ''Calificaci'' @ [243] @ js ''n de transacciones'',
        criticality = NoCritico, points = NA, applies = False,
        whatToLookFor = Some (js ''Duplicado'')\<rparr>,
      \<lparr>topic = js ''Valida compras por facturar y cortes para identificar la compra para aclaraci'' @ [243] @ js ''n.'' @ [10] @ js ''Valida que las compras no tengan una reversa'',
        criticality = NoCritico, points = NA, applies = False,
        whatToLookFor = Some (js ''No aplica'')\<rparr>]\<rparr>,
    \<lparr>blockName = js ''Vision'', topics = [
      \<lparr>topic = js ''Valida pantalla OFAA y CRESP (CVV2 incorrecto, Tarjeta vencida, Fecha de vencimiento incorrecta, TJ Cancelada, etc)'',
        criticality = NoCritico, points = NA, applies = False,
        whatToLookFor = Some (js ''No aplica'')\<rparr>,
      \<lparr>topic = js ''Comentarios correctos en ASHI'',
        criticality = NoCritico, points = Pts 5, applies = True,
        whatToLookFor = Some (js ''Comentarios en ASHI'')\<rparr>,
      \<lparr>topic = js ''Desbloquea tarjeta BLKI, BLKT, BPT0, BNFC'',
        criticality = NoCritico, points = Pts 5, applies = True,
        whatToLookFor = Some (js ''Desbloqueo correcto'')\<rparr>,
      \<lparr>topic = js ''Bloqueo correcto'',
        criticality = Critico, points = NA, applies = False,
        whatToLookFor = Some (js ''No aplica (se desbloquea)'')\<rparr>]\<rparr>,
    \<lparr>blockName = js ''VRM'', topics = [
      \<lparr>topic = js ''Valida compras en ARTD y ARSD'',
        criticality = NoCritico, points = NA, applies = False,
        whatToLookFor = Some (js ''No aplica'')\<rparr>,
      \<lparr>topic = js ''Calificaci'' @ [243] @ js ''n de transacciones, comentarios y aplica mantenimiento'',
        criticality = Critico, points = Pts 10, applies = True,
        whatToLookFor = Some (js ''Mantenimiento aplicado'')\<rparr>]\<rparr>,
    \<lparr>blockName = js ''B.I'', topics = [
      \<lparr>topic = js ''Crea el Folio Correctamente'',
        criticality = NoCritico, points = NA, applies = False,
        whatToLookFor = Some (js ''No aplica para TH CONFIRMA'')\<rparr>]\<rparr>,
    \<lparr>blockName = js ''Manejo de llamada'', topics = [
      \<lparr>topic = js ''Cumple con el script'',
        criticality = NoCritico, points = Pts 17, applies = True,
        whatToLookFor = Some (js ''Script de TH CONFIRMA'')\<rparr>,
      \<lparr>topic = js ''Educaci'' @ [243] @ js ''n, frases de conexi'' @ [243] @ js ''n, comunicaci'' @ [243] @ js ''n efectiva y escucha activa'',
        criticality = NoCritico, points = Pts 5, applies = True,
        whatToLookFor = Some (js ''Comunicaci'' @ [243] @ js ''n efectiva'')\<rparr>,
      \<lparr>topic = js ''Control de llamada y Puntualidad'',
        criticality = NoCritico, points = Pts 6, applies = True,
        whatToLookFor = Some (js ''Control adecuado'')\<rparr>,
      \<lparr>topic = js ''Autentica correctamente'',
        criticality = NoCritico, points = Pts 11, applies = True,
        whatToLookFor = Some (js ''Autenticaci'' @ [243] @ js ''n al inicio'')\<rparr>]\<rparr>]"

definition MONITOREO_CRITERIA :: "EvaluationBlock list" where
  "MONITOREO_CRITERIA = [
    \<lparr>blockName = js ''Falcon'', topics = [
      \<lparr>topic = js ''Califica transacciones, Cierre de caso, Selecciona casillas de acci'' @ [243] @ js ''n'',
        criticality = NoCritico, points = Pts 20, applies = True,
        whatToLookFor = Some (js ''En capturas FALCON: transacciones calificadas correctamente, caso cerrado adecuadamente, casillas de acci'' @ [243] @ js ''n seleccionadas'')\<rparr>]\<rparr>,
    \<lparr>blockName = js ''VRM'', topics = [
      \<lparr>topic = js ''Califica transacciones/Mantenimiento/Comentario'',
        criticality = NoCritico, points = Pts 8, applies = True,
        whatToLookFor = Some (js ''En capturas VRM: transacciones calificadas, mantenimiento aplicado y comentarios correctos'')\<rparr>]\<rparr>,
    \<lparr>blockName = js ''Front'', topics = [
      \<lparr>topic = js ''Ingresa correctamente los datos del front: Calificaci'' @ [243] @ js ''n, Subcalificaci'' @ [243] @ js ''n de llamada, Socio, Correo del cliente, N'' @ [250] @ js ''mero de caso, 4 d'' @ [237] @ js ''gitos de la tarjeta, Capturas, Comentario, Subir Excel'',
        criticality = NoCritico, points = Pts 15, applies = True,
        whatToLookFor = Some (js ''En capturas FRONT: verificar que todos los campos est'' @ [233] @ js ''n correctamente llenados (calificaci'' @ [243] @ js ''n, subcalificaci'' @ [243] @ js ''n, socio, correo, n'' @ [250] @ js ''mero de caso, 4 d'' @ [237] @ js ''gitos, capturas, comentario, Excel)'')\<rparr>]\<rparr>,
    \<lparr>blockName = js ''Vcas'', topics = [
      \<lparr>topic = js ''Califica transacciones / Bloqueo'',
        criticality = NoCritico, points = Pts 7, applies = True,
        whatToLookFor = Some (js ''En capturas VCAS: transacciones calificadas correctamente y bloqueo aplicado si corresponde'')\<rparr>]\<rparr>,
    \<lparr>blockName = js ''Vision+'', topics = [
      \<lparr>topic = js ''Comentario en ASHI'',
        criticality = NoCritico, points = Pts 3, applies = True,
        whatToLookFor = Some (js ''En capturas VISION/ASHI: comentarios claros y completos sobre la gesti'' @ [243] @ js ''n realizada'')\<rparr>,
      \<lparr>topic = js ''Bloqueo correcto de la tarjeta'',
        criticality = NoCritico, points = Pts 7, applies = True,
        whatToLookFor = Some (js ''En capturas VISION: tipo de bloqueo correcto aplicado seg'' @ [250] @ js ''n corresponda'')\<rparr>]\<rparr>,
    \<lparr>blockName = js ''BI'', topics = [
      \<lparr>topic = js ''Levantamiento correcto de ticket'',
        criticality = NoCritico, points = Pts 10, applies = True,
        whatToLookFor = Some (js ''En capturas BI: ticket levantado correctamente con todos los datos completos'')\<rparr>]\<rparr>,
    \<lparr>blockName = js ''Manejo de llamada'', topics = [
      \<lparr>topic = js ''Cumple con el script de llamada'',
        criticality = NoCritico, points = Pts 5, applies = True,
        whatToLookFor = Some (js ''En transcripci'' @ [243] @ js ''n: sigue el script completo (saludo, validaci'' @ [243] @ js ''n, explicaci'' @ [243] @ js ''n del proceso, cierre)'')\<rparr>,
      \<lparr>topic = js ''Control de llamada, empat'' @ [237] @ js ''a y frases de conexi'' @ [243] @ js ''n'',
        criticality = NoCritico, points = Pts 10, applies = True,
        whatToLookFor = Some (js ''En transcripci'' @ [243] @ js ''n: mantiene control de la conversaci'' @ [243] @ js ''n, usa frases de empat'' @ [237] @ js ''a y conexi'' @ [243] @ js ''n con el cliente'')\<rparr>,
      \<lparr>topic = js ''Cordialidad/Comunicaci'' @ [243] @ js ''n efectiva'',
        criticality = NoCritico, points = Pts 5, applies = True,
        whatToLookFor = Some (js ''En transcripci'' @ [243] @ js ''n: tono cordial, comunicaci'' @ [243] @ js ''n clara y efectiva durante toda la llamada'')\<rparr>,
      \<lparr>topic = js ''Escucha activa'',
        criticality = NoCritico, points = Pts 10, applies = True,
        whatToLookFor = Some (js ''En transcripci'' @ [243] @ js ''n: demuestra escucha activa, responde adecuadamente a las inquietudes del cliente sin interrumpir'')\<rparr>,
      \<lparr>topic = js ''Soluci'' @ [243] @ js ''n al contacto'',
        criticality = NoCritico, points = Pts 5, applies = True,
        whatToLookFor = Some (js ''En transcripci'' @ [243] @ js ''n: ofrece soluci'' @ [243] @ js ''n efectiva al motivo de contacto del cliente'')\<rparr>]\<rparr>,
    \<lparr>blockName = js ''Casos cr'' @ [237] @ js ''ticos'', topics = [
      \<lparr>topic = js ''Calificaci'' @ [243] @ js ''n de caso (cierre de caso en falcon)'',
        criticality = Critico, points = NA, applies = True,
        whatToLookFor = Some (js ''En capturas FALCON: caso calificado y cerrado correctamente. Error cr'' @ [237] @ js ''tico si no se cumple.'')\<rparr>,
      \<lparr>topic = js ''Califica tipo de llamada correctamente (calificaci'' @ [243] @ js ''n a nivel front)'',
        criticality = Critico, points = NA, applies = True,
        whatToLookFor = Some (js ''En capturas FRONT: tipo de llamada calificado correctamente. Error cr'' @ [237] @ js ''tico si no se cumple.'')\<rparr>,
      \<lparr>topic = js ''Bloquea tarjeta en V+ correctamente'',
        criticality = Critico, points = NA, applies = True,
        whatToLookFor = Some (js ''En capturas VISION+: tarjeta bloqueada correctamente cuando corresponde. Error cr'' @ [237] @ js ''tico si no se cumple.'')\<rparr>]\<rparr>]"

definition getCriteriaForCallType :: "jsstring \<Rightarrow> EvaluationBlock list" where
  "getCriteriaForCallType callType =
     (let normalizedType = trim (toUpperCase callType) in
      if includesStr normalizedType (js ''MONITOREO'') then MONITOREO_CRITERIA
      else if includesStr normalizedType (js ''FRAUDE'') then FRAUD_CRITERIA
      else if includesStr normalizedType (js ''TH CONFIRMA'') \<or>
              includesStr normalizedType (js ''TH_CONFIRMA'') then TH_CONFIRMA_CRITERIA
      else FRAUD_CRITERIA)"

section \<open>The verbal evidence extractor (services/evaluator.service.ts)\<close>

record Utterance =
  utt_start :: nat
  utt_end :: nat
  utt_text :: jsstring
  utt_speaker :: jsstring

record TranscriptResult =
  transcript_text :: jsstring
  utterances :: "Utterance list"
  duration :: "nat option"

definition formatTime :: "nat \<Rightarrow> jsstring" where
  "formatTime timeValue =
     (let totalSeconds = (if timeValue \<ge> 1000 then timeValue div 1000 else timeValue);
          mins = totalSeconds div 60;
          secs = totalSeconds mod 60
      in padStart2 (natToString mins) @ js '':'' @ padStart2 (natToString secs))"

definition evidenceKeywords :: "jsstring list" where
  "evidenceKeywords =
    [js ''bloque'', js ''bloqu'', js ''tarjeta'',
     js ''folio'', js ''caso'', js ''n'' @ [250] @ js ''mero'',
     js ''transacci'' @ [243] @ js ''n'', js ''compra'', js ''cargo'',
     js ''confirmo'', js ''confirm'' @ [243], js ''reconoce'', js ''reconozco'',
     js ''fraude'', js ''fraudulent'',
     js ''excel'', js ''archivo'', js ''documento'',
     js ''autenticaci'' @ [243] @ js ''n'', js ''autentica'', js ''verifico'', js ''valido'',
     js ''sistema'', js ''vcas'', js ''falcon'', js ''vision'',
     js ''reposici'' @ [243] @ js ''n'', js ''pasos a seguir'', js ''pl'' @ [225] @ js ''stico'',
     js ''sucursal'', js ''d'' @ [237] @ js ''as'', js ''nueva'',
     js ''callerid'', js ''caller id'', js ''identificador de llamada'',
     js ''otp'', js ''c'' @ [243] @ js ''digo'', js ''clave'', js ''pin'', js ''token'',
     js ''verificar'', js ''validar'', js ''corroborar'',
     js ''identidad'', js ''identificaci'' @ [243] @ js ''n'',
     js ''preguntas de seguridad'',
     [250] @ js ''ltimo cargo'', [250] @ js ''ltimos movimientos'', js ''saldo'',
     js ''c'' @ [243] @ js ''digo de seguridad'']"

definition evidenceLine :: "Utterance \<Rightarrow> jsstring" where
  \<comment> \<open>the template \<open>[timestamp] speaker: "text"\<close>\<close>
  "evidenceLine utt =
     [0x5B] @ formatTime (utt_start utt) @ [0x5D] @ js '' '' @ utt_speaker utt @ js '': '' @
     [0x22] @ utt_text utt @ [0x22]"

definition extractVerbalEvidence :: "TranscriptResult \<Rightarrow> jsstring list" where
  "extractVerbalEvidence transcript =
     foldl (\<lambda>evidence utt.
        let lowerText = toLowerCase (utt_text utt);
            hasKeyword = list_ex (\<lambda>kw. includesStr lowerText kw) evidenceKeywords
        in if hasKeyword \<and> length (utt_text utt) > 15
           then evidence @ [evidenceLine utt] else evidence)
       [] (utterances transcript)"

section \<open>Text normalisation (services/excel.service.ts)\<close>

definition isCombiningDiacritic :: "nat \<Rightarrow> bool" where
  \<comment> \<open>the character class from U+0300 to U+036F of the regular expression\<close>
  "isCombiningDiacritic c \<longleftrightarrow> 0x300 \<le> c \<and> c \<le> 0x36F"

function replaceWhitespaceRuns :: "jsstring \<Rightarrow> jsstring" where
  \<comment> \<open>\<open>s.replace(/\s+/g, ' ')\<close>\<close>
  "replaceWhitespaceRuns [] = []"
| "replaceWhitespaceRuns (c # cs) =
     (if isWhiteSpace c then 0x20 # replaceWhitespaceRuns (dropWhile isWhiteSpace cs)
      else c # replaceWhitespaceRuns cs)"
  by pat_completeness auto
termination
  by (relation "measure length") (auto simp: length_dropWhile_le less_Suc_eq_le)

definition normalizeText :: "jsstring \<Rightarrow> jsstring" where
  "normalizeText text =
     trim (replaceWhitespaceRuns (filter (\<lambda>c. \<not> isCombiningDiacritic c)
       (normalizeNFD (toLowerCase text))))"

section \<open>The result cache (services/cache.service.ts)\<close>

text \<open>
  The file system is a partial map from paths to contents: \<open>readFileSync\<close> throws where it
  is undefined, \<open>existsSync\<close> tests its domain. SHA-256 (\<open>crypto.createHash('sha256')\<close> with
  \<open>digest('hex')\<close>) is a parameter \<open>H\<close> of the functions that hash; successive \<open>update\<close>
  calls hash the concatenation of their arguments. Numbers are integers, except the age of
  an entry in hours, which is the exact quotient.
\<close>

type_synonym path = jsstring
type_synonym bytes = "nat list"

datatype error = ReadError path | RemoteError | NoResponse
  \<comment> \<open>\<open>readFileSync\<close> threw; the remote call threw; the remote answer had no content\<close>

record World =
  files :: "path \<rightharpoonup> bytes"
  RESULTS_DIR :: "jsstring option"
  CACHE_MAX_AGE_HOURS :: "jsstring option"
  now :: int

record 'r CacheEntry =
  cacheKey :: jsstring
  timestamp :: int
  entry_result :: 'r
  excelFilename :: jsstring
  audioHash :: jsstring
  imageHashes :: "jsstring list"
  entry_executiveId :: jsstring
  entry_callType :: jsstring

text \<open>
  \<open>cacheIndex\<close> is the \<open>Map\<close> of the service, an association list in insertion order
  (\<open>AList.update\<close> replaces in place or appends, as \<open>Map.set\<close> does); \<open>indexFile\<close> is what
  \<open>saveCacheIndex\<close> last wrote to \<open>index.json\<close>.
\<close>

record 'r CacheService =
  cacheIndex :: "(jsstring \<times> 'r CacheEntry) list"
  indexFile :: "'r CacheEntry list option"

definition calculateFileHash :: "(bytes \<Rightarrow> jsstring) \<Rightarrow> (path \<rightharpoonup> bytes) \<Rightarrow> path \<Rightarrow> error + jsstring" where
  "calculateFileHash H fs filePath =
     (case fs filePath of None \<Rightarrow> Inl (ReadError filePath) | Some fileBuffer \<Rightarrow> Inr (H fileBuffer))"

fun calculateFileHashes :: "(bytes \<Rightarrow> jsstring) \<Rightarrow> (path \<rightharpoonup> bytes) \<Rightarrow> path list \<Rightarrow> error + jsstring list" where
  \<comment> \<open>\<open>paths.map(p => this.calculateFileHash(p))\<close>: the first unreadable file throws\<close>
  "calculateFileHashes H fs [] = Inr []"
| "calculateFileHashes H fs (p # ps) =
     (case calculateFileHash H fs p of
        Inl e \<Rightarrow> Inl e
      | Inr h \<Rightarrow> (case calculateFileHashes H fs ps of Inl e \<Rightarrow> Inl e | Inr hs \<Rightarrow> Inr (h # hs)))"

definition generateCacheKey :: "(bytes \<Rightarrow> jsstring) \<Rightarrow> (path \<rightharpoonup> bytes) \<Rightarrow> path \<Rightarrow> path list \<Rightarrow> error + jsstring" where
  "generateCacheKey H fs audioPath imagePaths =
     (case calculateFileHash H fs audioPath of
        Inl e \<Rightarrow> Inl e
      | Inr audioHash' \<Rightarrow>
          (case calculateFileHashes H fs imagePaths of
             Inl e \<Rightarrow> Inl e
           | Inr hashes \<Rightarrow>
               let imageHashes' = sort hashes
               in Inr (H (audioHash' @ concat imageHashes'))))"

subsection \<open>\<open>parseInt\<close> and the environment\<close>

datatype jsnumber = NaN | Num int

definition digitValue :: "nat \<Rightarrow> nat option" where
  "digitValue c =
     (if 0x30 \<le> c \<and> c \<le> 0x39 then Some (c - 0x30)
      else if 0x61 \<le> c \<and> c \<le> 0x66 then Some (c - 0x61 + 10)
      else if 0x41 \<le> c \<and> c \<le> 0x46 then Some (c - 0x41 + 10)
      else None)"

definition isDigitOf :: "nat \<Rightarrow> nat \<Rightarrow> bool" where
  "isDigitOf radix c = (case digitValue c of None \<Rightarrow> False | Some v \<Rightarrow> v < radix)"

definition digitsValue :: "nat \<Rightarrow> jsstring \<Rightarrow> nat" where
  "digitsValue radix ds = foldl (\<lambda>acc c. acc * radix + the (digitValue c)) 0 ds"

definition parseInt :: "jsstring \<Rightarrow> jsnumber" where
  \<comment> \<open>\<open>parseInt(s)\<close> without a radix argument\<close>
  "parseInt s =
     (let t = dropWhile isWhiteSpace s;
          negative = (t \<noteq> [] \<and> hd t = 0x2D);
          t1 = (if t \<noteq> [] \<and> (hd t = 0x2D \<or> hd t = 0x2B) then tl t else t);
          hex = (prefix [0x30, 0x78] t1 \<or> prefix [0x30, 0x58] t1);
          radix = (if hex then 16 else 10);
          t2 = (if hex then drop 2 t1 else t1);
          ds = takeWhile (isDigitOf radix) t2
      in if ds = [] then NaN
         else Num (if negative then - int (digitsValue radix ds) else int (digitsValue radix ds)))"

definition envOr :: "jsstring option \<Rightarrow> jsstring \<Rightarrow> jsstring" where
  \<comment> \<open>\<open>process.env.X || d\<close>: an unset or empty variable gives the default\<close>
  "envOr v d = (case v of None \<Rightarrow> d | Some s \<Rightarrow> if s = [] then d else s)"

definition path_join :: "path \<Rightarrow> path \<Rightarrow> path" where
  \<comment> \<open>\<open>path.join(dir, name)\<close>, without the normalisation of the result\<close>
  "path_join dir name = dir @ js ''/'' @ name"

definition existsSync :: "(path \<rightharpoonup> bytes) \<Rightarrow> path \<Rightarrow> bool" where
  "existsSync fs p \<longleftrightarrow> fs p \<noteq> None"

definition jsGreaterThan :: "rat \<Rightarrow> jsnumber \<Rightarrow> bool" where
  \<comment> \<open>\<open>a > b\<close>: a comparison with \<open>NaN\<close> is false\<close>
  "jsGreaterThan a b = (case b of NaN \<Rightarrow> False | Num n \<Rightarrow> a > of_int n)"

subsection \<open>\<open>get\<close> and \<open>set\<close>\<close>

definition saveCacheIndex :: "'r CacheService \<Rightarrow> 'r CacheService" where
  "saveCacheIndex st = st\<lparr>indexFile := Some (map snd (cacheIndex st))\<rparr>"

definition ageInHours :: "World \<Rightarrow> 'r CacheEntry \<Rightarrow> rat" where
  "ageInHours w entry = of_int (now w - timestamp entry) / (1000 * 60 * 60)"

definition maxAgeHours :: "World \<Rightarrow> jsnumber" where
  "maxAgeHours w = parseInt (envOr (CACHE_MAX_AGE_HOURS w) (js ''168''))"

definition cacheGet ::
  "(bytes \<Rightarrow> jsstring) \<Rightarrow> World \<Rightarrow> 'r CacheService \<Rightarrow> path \<Rightarrow> path list
     \<Rightarrow> ('r \<times> jsstring) option \<times> 'r CacheService" where
  "cacheGet H w st audioPath imagePaths =
     (case generateCacheKey H (files w) audioPath imagePaths of
        Inl e \<Rightarrow> (None, st)
      | Inr key \<Rightarrow>
          (case map_of (cacheIndex st) key of
             None \<Rightarrow> (None, st)
           | Some entry \<Rightarrow>
               let resultsDir = envOr (RESULTS_DIR w) (js ''./results'');
                   excelPath = path_join resultsDir (excelFilename entry)
               in if \<not> existsSync (files w) excelPath
                  then (None, saveCacheIndex (st\<lparr>cacheIndex := AList.delete key (cacheIndex st)\<rparr>))
                  else if jsGreaterThan (ageInHours w entry) (maxAgeHours w)
                  then (None, saveCacheIndex (st\<lparr>cacheIndex := AList.delete key (cacheIndex st)\<rparr>))
                  else (Some (entry_result entry, excelFilename entry), st)))"

definition cacheSet ::
  "(bytes \<Rightarrow> jsstring) \<Rightarrow> World \<Rightarrow> 'r CacheService \<Rightarrow> path \<Rightarrow> path list \<Rightarrow> 'r \<Rightarrow> jsstring
     \<Rightarrow> jsstring \<Rightarrow> jsstring \<Rightarrow> 'r CacheService" where
  "cacheSet H w st audioPath imagePaths result excelFilename' executiveId callType =
     (case generateCacheKey H (files w) audioPath imagePaths of
        Inl e \<Rightarrow> st
      | Inr key \<Rightarrow>
          (case calculateFileHash H (files w) audioPath of
             Inl e \<Rightarrow> st
           | Inr audioHash' \<Rightarrow>
               (case calculateFileHashes H (files w) imagePaths of
                  Inl e \<Rightarrow> st
                | Inr imageHashes' \<Rightarrow>
                    let entry = \<lparr>cacheKey = key, timestamp = now w, entry_result = result,
                                 excelFilename = excelFilename', audioHash = audioHash',
                                 imageHashes = imageHashes', entry_executiveId = executiveId,
                                 entry_callType = callType\<rparr>
                    in saveCacheIndex (st\<lparr>cacheIndex := AList.update key entry (cacheIndex st)\<rparr>))))"

definition hashedInputs :: "(bytes \<Rightarrow> jsstring) \<Rightarrow> (path \<rightharpoonup> bytes) \<Rightarrow> path \<Rightarrow> path list \<Rightarrow> bytes set" where
  \<comment> \<open>the byte strings that \<open>generateCacheKey\<close> hashes on readable files\<close>
  "hashedInputs H fs audioPath imagePaths =
     {the (fs audioPath)} \<union> (\<lambda>p. the (fs p)) ` set imagePaths \<union>
     {H (the (fs audioPath)) @ concat (sort (map (\<lambda>p. H (the (fs p))) imagePaths))}"

text \<open>
  A stand-in for the digest with digests of length 1, injective on byte strings; it only
  serves to instantiate the statements about \<open>generateCacheKey\<close> at a concrete input.
\<close>

definition toyDigest :: "bytes \<Rightarrow> jsstring" where
  "toyDigest x = [foldl (\<lambda>acc c. acc * 256 + c + 1) 0 x]"

definition exampleFiles :: "path \<rightharpoonup> bytes" where
  "exampleFiles = [js ''a.mp3'' \<mapsto> [7, 2], js ''1.png'' \<mapsto> [3], js ''2.png'' \<mapsto> [4]]"

definition exampleWorld :: World where
  "exampleWorld =
     \<lparr>files = exampleFiles(js ''./results/r.xlsx'' \<mapsto> [0]),
      RESULTS_DIR = None, CACHE_MAX_AGE_HOURS = None, now = 1000\<rparr>"

section \<open>The visual evidence extractor (services/evaluator.service.ts)\<close>

text \<open>
  A parsed JSON value. JSON numbers are modelled by integers; an object is the list of
  its properties, with distinct keys.
\<close>

datatype json =
  JNull | JBool bool | JNumber int | JString jsstring | JArray "json list"
  | JObject "(jsstring \<times> json) list"

fun truthy :: "json \<Rightarrow> bool" where
  "truthy JNull = False"
| "truthy (JBool b) = b"
| "truthy (JNumber n) = (n \<noteq> 0)"
| "truthy (JString s) = (s \<noteq> [])"
| "truthy (JArray xs) = True"
| "truthy (JObject kvs) = True"

fun getProp :: "json \<Rightarrow> jsstring \<Rightarrow> json option" where
  \<comment> \<open>\<open>v.name\<close> for a value \<open>v\<close> other than \<open>null\<close>; \<open>None\<close> is \<open>undefined\<close>\<close>
  "getProp (JObject kvs) name = map_of kvs name"
| "getProp v name = None"

definition truthyProp :: "json option \<Rightarrow> bool" where
  "truthyProp v = (case v of None \<Rightarrow> False | Some j \<Rightarrow> truthy j)"

fun joinWith :: "jsstring \<Rightarrow> jsstring list \<Rightarrow> jsstring" where
  "joinWith sep [] = []"
| "joinWith sep [s] = s"
| "joinWith sep (s # t # ss) = s @ sep @ joinWith sep (t # ss)"

fun propertyKey :: "json \<Rightarrow> jsstring" where
  \<comment> \<open>the property name that a value used as a key is converted to\<close>
  "propertyKey JNull = js ''null''"
| "propertyKey (JBool b) = (if b then js ''true'' else js ''false'')"
| "propertyKey (JNumber n) = intToString n"
| "propertyKey (JString s) = s"
| "propertyKey (JArray xs) =
     joinWith (js '','') (map (\<lambda>x. if x = JNull then [] else propertyKey x) xs)"
| "propertyKey (JObject kvs) = js ''[object Object]''"

definition objectPrototypeKeys :: "jsstring list" where
  \<comment> \<open>the names that every plain object inherits; \<open>evidence[name]\<close> is then not an array\<close>
  "objectPrototypeKeys =
    [js ''__proto__'', js ''constructor'', js ''hasOwnProperty'', js ''isPrototypeOf'',
     js ''propertyIsEnumerable'', js ''toLocaleString'', js ''toString'', js ''valueOf'',
     js ''__defineGetter__'', js ''__defineSetter__'', js ''__lookupGetter__'',
     js ''__lookupSetter__'']"

datatype Confidence = Confidence json | DefaultConfidence
  \<comment> \<open>\<open>parsed.confidence || 0.9\<close>: the parsed value, or the constant 0.9\<close>

record EvidenceItem =
  imagePath :: path
  data :: json
  findings :: json
  confidence :: Confidence
  critical_fields :: json

text \<open>
  One call of the vision service: it throws, or answers with an optional \<open>usage\<close> (prompt
  and completion tokens) and an optional \<open>content\<close>. The service is a function of the
  position of the image and of the number of the attempt. \<open>parseContent\<close> stands for the
  clean-up of the content (\<open>trim\<close> and the four \<open>replace\<close> calls) followed by
  \<open>JSON.parse\<close>, and is \<open>None\<close> where \<open>JSON.parse\<close> throws.
\<close>

datatype ApiResult = ApiError | ApiResponse "(nat \<times> nat) option" "jsstring option"

record Vision =
  imageFiles :: "path \<rightharpoonup> bytes"
  service :: "nat \<Rightarrow> nat \<Rightarrow> ApiResult"
  parseContent :: "jsstring \<Rightarrow> json option"

datatype Event = Attempt nat nat | Wait nat | GaveUp nat | Analyzed nat nat

record ExtractState =
  evidence :: "jsstring \<rightharpoonup> EvidenceItem list"
  totalInputTokens :: nat
  totalOutputTokens :: nat
  trace :: "Event list"

definition maxAttempts :: nat where
  "maxAttempts = 3"

definition orDefault :: "json option \<Rightarrow> json \<Rightarrow> json" where
  \<comment> \<open>\<open>v || d\<close>\<close>
  "orDefault v d = (case v of None \<Rightarrow> d | Some j \<Rightarrow> if truthy j then j else d)"

definition evidenceItem :: "path \<Rightarrow> json \<Rightarrow> EvidenceItem" where
  "evidenceItem p parsed =
     \<lparr>imagePath = p,
      data = the (getProp parsed (js ''data'')),
      findings = orDefault (getProp parsed (js ''findings'')) (JArray []),
      confidence = (if truthyProp (getProp parsed (js ''confidence''))
                    then Confidence (the (getProp parsed (js ''confidence'')))
                    else DefaultConfidence),
      critical_fields = orDefault (getProp parsed (js ''critical_fields'')) (JObject [])\<rparr>"

definition validResponse :: "json \<Rightarrow> bool" where
  \<comment> \<open>the parsed answer passes \<open>!parsed.system || !parsed.data\<close> and can be stored\<close>
  "validResponse parsed \<longleftrightarrow>
     parsed \<noteq> JNull \<and>
     truthyProp (getProp parsed (js ''system'')) \<and> truthyProp (getProp parsed (js ''data'')) \<and>
     propertyKey (the (getProp parsed (js ''system''))) \<notin> set objectPrototypeKeys"

definition countUsage :: "(nat \<times> nat) option \<Rightarrow> ExtractState \<Rightarrow> ExtractState" where
  "countUsage usage st =
     (case usage of
        None \<Rightarrow> st
      | Some (prompt_tokens, completion_tokens) \<Rightarrow>
          st\<lparr>totalInputTokens := totalInputTokens st + prompt_tokens,
             totalOutputTokens := totalOutputTokens st + completion_tokens\<rparr>)"

definition pushEvidence :: "jsstring \<Rightarrow> EvidenceItem \<Rightarrow> ExtractState \<Rightarrow> ExtractState" where
  "pushEvidence system item st =
     st\<lparr>evidence := (evidence st)(system \<mapsto>
           (case evidence st system of None \<Rightarrow> [] | Some items \<Rightarrow> items) @ [item])\<rparr>"

definition analyzeOnce :: "Vision \<Rightarrow> nat \<Rightarrow> path \<Rightarrow> nat \<Rightarrow> ExtractState \<Rightarrow> bool \<times> ExtractState" where
  \<comment> \<open>the body of the \<open>try\<close> block: the flag tells whether it reached \<open>success = true\<close>\<close>
  "analyzeOnce v i p attempts st =
     (case imageFiles v p of
        None \<Rightarrow> (False, st)
      | Some imageBuffer \<Rightarrow>
          (case service v i attempts of
             ApiError \<Rightarrow> (False, st)
           | ApiResponse usage content \<Rightarrow>
               let st1 = countUsage usage st in
               (case content of
                  None \<Rightarrow> (False, st1)
                | Some c \<Rightarrow>
                    if c = [] then (False, st1)
                    else (case parseContent v c of
                            None \<Rightarrow> (False, st1)
                          | Some parsed \<Rightarrow>
                              if \<not> validResponse parsed then (False, st1)
                              else (True,
                                    pushEvidence (propertyKey (the (getProp parsed (js ''system''))))
                                      (evidenceItem p parsed) st1)))))"

definition logEvent :: "Event \<Rightarrow> ExtractState \<Rightarrow> ExtractState" where
  "logEvent e st = st\<lparr>trace := trace st @ [e]\<rparr>"

function attemptLoop :: "Vision \<Rightarrow> nat \<Rightarrow> path \<Rightarrow> nat \<Rightarrow> ExtractState \<Rightarrow> ExtractState" where
  \<comment> \<open>\<open>while (attempts < maxAttempts && !success)\<close>, entered with \<open>success = false\<close>\<close>
  "attemptLoop v i p attempts st =
     (if attempts < maxAttempts then
        (case analyzeOnce v i p (attempts + 1) (logEvent (Attempt i (attempts + 1)) st) of
           (True, st') \<Rightarrow> logEvent (Analyzed i (attempts + 1)) st'
         | (False, st') \<Rightarrow>
             if attempts + 1 \<ge> maxAttempts
             then attemptLoop v i p (attempts + 1) (logEvent (GaveUp i) st')
             else attemptLoop v i p (attempts + 1) (logEvent (Wait 1000) st'))
      else st)"
  by pat_completeness auto
termination
  by (relation "measure (\<lambda>(v, i, p, attempts, st). maxAttempts - attempts)") auto

declare attemptLoop.simps [simp del]

definition initialState :: ExtractState where
  "initialState = \<lparr>evidence = Map.empty, totalInputTokens = 0, totalOutputTokens = 0, trace = []\<rparr>"

definition extractVisualEvidenceEnhanced :: "Vision \<Rightarrow> path list \<Rightarrow> ExtractState" where
  "extractVisualEvidenceEnhanced v imagePaths =
     foldl (\<lambda>st (i, p). attemptLoop v i p 0 st) initialState
       (zip [0..<length imagePaths] imagePaths)"

text \<open>
  An example service: the first image is analysed at once, the second never gives a
  content that parses, the third is analysed at the second attempt.
\<close>

definition exampleVision :: Vision where
  "exampleVision =
     \<lparr>imageFiles = [js ''0.png'' \<mapsto> [1], js ''1.png'' \<mapsto> [2], js ''2.png'' \<mapsto> [3]],
      service = (\<lambda>i attempt.
         if i = 0 then ApiResponse (Some (10, 5)) (Some (js ''ok''))
         else if i = 1 then ApiResponse (Some (10, 5)) (Some (js ''garbage''))
         else if attempt = 1 then ApiError
         else ApiResponse None (Some (js ''ok''))),
      parseContent = (\<lambda>c.
         if c = js ''ok''
         then Some (JObject [(js ''system'', JString (js ''FALCON'')),
                             (js ''data'', JObject [(js ''case_number'', JNumber 7)])])
         else None)\<rparr>"

section \<open>The scoring orchestrator (services/evaluator.service.ts)\<close>

record AuditInput =
  executiveName :: jsstring
  executiveId :: jsstring
  callType :: jsstring
  clientId :: jsstring
  callDate :: jsstring
  callDuration :: "jsstring option"
  audioPath :: "jsstring option"
  imagePaths :: "jsstring list option"

record DetailedScore =
  criterion :: jsstring
  score :: int
  maxScore :: int
  score_observations :: jsstring

record KeyMoment =
  moment_timestamp :: jsstring
  moment_type :: jsstring
  moment_description :: jsstring

record Usage =
  inputTokens :: nat
  outputTokens :: nat
  totalTokens :: nat

record EvaluationResult =
  totalScore :: int
  maxPossibleScore :: int
  percentage :: rat
  detailedScores :: "DetailedScore list"
  observations :: jsstring
  recommendations :: "jsstring list"
  keyMoments :: "KeyMoment list"
  usage :: "Usage option"

text \<open>
  A value that the source types as a number and that is a string at run time where
  \<open>topic.points\<close> is \<open>'n/a'\<close> (\<open>topic.points as number\<close>), with the \<open>+\<close> of JavaScript.
\<close>

datatype jsvalue = NumV int | StrV jsstring

definition pointsValue :: "Points \<Rightarrow> jsvalue" where
  "pointsValue pts = (case pts of Pts n \<Rightarrow> NumV n | NA \<Rightarrow> StrV (js ''n/a''))"

definition valueToString :: "jsvalue \<Rightarrow> jsstring" where
  "valueToString x = (case x of NumV n \<Rightarrow> intToString n | StrV s \<Rightarrow> s)"

definition jsAdd :: "jsvalue \<Rightarrow> jsvalue \<Rightarrow> jsvalue" where
  "jsAdd a b =
     (case (a, b) of
        (NumV m, NumV n) \<Rightarrow> NumV (m + n)
      | _ \<Rightarrow> StrV (valueToString a @ valueToString b))"

record TopicToEvaluate =
  t_block :: jsstring
  t_topic :: jsstring
  t_criticality :: Criticality
  t_maxScore :: jsvalue
  t_whatToLookFor :: jsstring
  t_system :: jsstring

definition getSystemFromBlock :: "jsstring \<Rightarrow> jsstring" where
  \<comment> \<open>\<open>mapping[blockName] || blockName\<close>\<close>
  "getSystemFromBlock name =
     (case map_of
        [(js ''Falcon'', js ''FALCON''), (js ''Front'', js ''FRONT''), (js ''Vcas'', js ''VCAS''),
         (js ''Vision'', js ''VISION''), (js ''VRM'', js ''VRM''), (js ''B.I'', js ''BI''),
         (js ''Manejo de llamada'', js ''TRANSCRIPCI'' @ [0xD3] @ js ''N'')] name of
        Some s \<Rightarrow> s
      | None \<Rightarrow> name)"

definition topicsToEvaluate :: "EvaluationBlock list \<Rightarrow> TopicToEvaluate list" where
  "topicsToEvaluate criteria =
     concat (map (\<lambda>block.
        map (\<lambda>tp. \<lparr>t_block = blockName block, t_topic = topic tp,
                    t_criticality = criticality tp, t_maxScore = pointsValue (points tp),
                    t_whatToLookFor = (case whatToLookFor tp of None \<Rightarrow> [] | Some w \<Rightarrow> w),
                    t_system = getSystemFromBlock (blockName block)\<rparr>)
          (filter applies (topics block))) criteria)"

definition computedMaxPossibleScore :: "EvaluationBlock list \<Rightarrow> jsvalue" where
  \<comment> \<open>\<open>topicsToEvaluate.reduce((sum, t) => sum + t.maxScore, 0)\<close>\<close>
  "computedMaxPossibleScore criteria =
     foldl (\<lambda>sum t. jsAdd sum (t_maxScore t)) (NumV 0) (topicsToEvaluate criteria)"

text \<open>
  What \<open>buildEnhancedMatchingPrompt\<close> puts into the prompt. The remote scorer is a function
  of it: it throws, or answers with an optional \<open>usage\<close> and an optional content, here
  already parsed into the documented response format.
\<close>

record ScoringRequest =
  req_input :: AuditInput
  req_visualEvidence :: "jsstring \<rightharpoonup> EvidenceItem list"
  req_verbalEvidence :: "jsstring list"
  req_topics :: "TopicToEvaluate list"
  req_maxScore :: jsvalue

record ScoredEntry =
  ev_block :: jsstring
  ev_topic :: jsstring
  ev_score :: int
  ev_max_score :: int
  ev_justification :: jsstring

record ScoredMoment =
  km_timestamp :: jsstring
  km_event :: jsstring
  km_description :: jsstring

record Evaluation =
  evaluations :: "ScoredEntry list"
  total_score :: int
  max_possible_score :: int
  ev_percentage :: rat
  ev_observations :: jsstring
  ev_recommendations :: "jsstring list option"
  key_moments :: "ScoredMoment list option"

datatype ScorerReply = ScorerError | ScorerReply "(nat \<times> nat) option" "Evaluation option"

definition evaluateWithEnhancedMatching ::
  "(ScoringRequest \<Rightarrow> ScorerReply) \<Rightarrow> EvaluationBlock list \<Rightarrow> (jsstring \<rightharpoonup> EvidenceItem list)
     \<Rightarrow> jsstring list \<Rightarrow> AuditInput \<Rightarrow> error + (Evaluation \<times> nat \<times> nat)" where
  "evaluateWithEnhancedMatching scorer criteria visualEvidence verbalEvidence auditInput =
     (let request = \<lparr>req_input = auditInput, req_visualEvidence = visualEvidence,
                      req_verbalEvidence = take 40 verbalEvidence,
                      req_topics = topicsToEvaluate criteria,
                      req_maxScore = computedMaxPossibleScore criteria\<rparr>
      in case scorer request of
           ScorerError \<Rightarrow> Inl RemoteError
         | ScorerReply tokens content \<Rightarrow>
             (case content of
                None \<Rightarrow> Inl NoResponse
              | Some evaluation \<Rightarrow>
                  Inr (evaluation,
                       (case tokens of None \<Rightarrow> 0 | Some (i, out) \<Rightarrow> i),
                       (case tokens of None \<Rightarrow> 0 | Some (i, out) \<Rightarrow> out))))"

definition evaluate ::
  "Vision \<Rightarrow> (ScoringRequest \<Rightarrow> ScorerReply) \<Rightarrow> AuditInput \<Rightarrow> TranscriptResult
     \<Rightarrow> error + EvaluationResult" where
  "evaluate v scorer auditInput transcript =
     (let st = extractVisualEvidenceEnhanced v
                 (case imagePaths auditInput of None \<Rightarrow> [] | Some ps \<Rightarrow> ps);
          verbalEvidence = extractVerbalEvidence transcript;
          criteria = getCriteriaForCallType (callType auditInput)
      in case evaluateWithEnhancedMatching scorer criteria (evidence st) verbalEvidence auditInput of
           Inl e \<Rightarrow> Inl e
         | Inr (evaluation, evalIn, evalOut) \<Rightarrow>
             Inr \<lparr>totalScore = total_score evaluation,
                  maxPossibleScore = max_possible_score evaluation,
                  percentage = ev_percentage evaluation,
                  detailedScores =
                    map (\<lambda>ev. \<lparr>criterion = [0x5B] @ ev_block ev @ [0x5D] @ js '' '' @ ev_topic ev,
                                score = ev_score ev, maxScore = ev_max_score ev,
                                score_observations = ev_justification ev\<rparr>)
                      (evaluations evaluation),
                  observations = ev_observations evaluation,
                  recommendations =
                    (case ev_recommendations evaluation of None \<Rightarrow> [] | Some rs \<Rightarrow> rs),
                  keyMoments =
                    (case key_moments evaluation of
                       None \<Rightarrow> []
                     | Some ms \<Rightarrow>
                         map (\<lambda>m. \<lparr>moment_timestamp = km_timestamp m, moment_type = km_event m,
                                     moment_description = km_description m\<rparr>) ms),
                  usage = Some \<lparr>inputTokens = totalInputTokens st + evalIn,
                                 outputTokens = totalOutputTokens st + evalOut,
                                 totalTokens = totalInputTokens st + evalIn
                                               + (totalOutputTokens st + evalOut)\<rparr>\<rparr>)"

text \<open>
  The denominator as the specification words it: the sum of the points of the applicable
  topics of a catalog (a topic without numeric points adds nothing).
\<close>

definition specMaxPossibleScore :: "EvaluationBlock list \<Rightarrow> int" where
  "specMaxPossibleScore criteria =
     sum_list (map (\<lambda>tp. case points tp of Pts n \<Rightarrow> n | NA \<Rightarrow> 0)
       (filter applies (concat (map topics criteria))))"

definition zeroScorer :: "ScoringRequest \<Rightarrow> ScorerReply" where
  \<comment> \<open>an example answer of the remote scorer: nothing scored, denominator 0\<close>
  "zeroScorer request =
     ScorerReply None
       (Some \<lparr>evaluations = [], total_score = 0, max_possible_score = 0, ev_percentage = 0,
              ev_observations = [], ev_recommendations = None, key_moments = None\<rparr>)"

definition exampleInput :: AuditInput where
  "exampleInput =
     \<lparr>executiveName = js ''Ana'', executiveId = js ''E1'', callType = js ''FRAUDE'',
      clientId = js ''6786724'', callDate = js ''2025-01-15'', callDuration = None,
      audioPath = None, imagePaths = None\<rparr>"

definition exampleTranscript :: TranscriptResult where
  "exampleTranscript = \<lparr>transcript_text = [], utterances = [], duration = None\<rparr>"

section \<open>The report serializer (services/excel.service.ts)\<close>

text \<open>
  The workbook is modelled as the data that the service hands to the spreadsheet library:
  for every cell address (row, column) its value, font, fill, alignment, border and note,
  and for the sheet its merged ranges, row heights and column widths. Writing the workbook
  into bytes is the library's work. A merge is recorded as a range and leaves the cells as
  they are.
\<close>

record Font =
  font_bold :: bool
  font_italic :: bool
  font_size :: "nat option"
  font_color :: "jsstring option"
  font_name :: "jsstring option"

datatype Horizontal = HLeft | HCenter | HRight
datatype Vertical = VTop | VMiddle

record Alignment =
  horizontal :: Horizontal
  vertical :: Vertical
  wrapText :: bool

record Note =
  note_texts :: "(Font \<times> jsstring) list"

record Cell =
  cell_value :: "jsvalue option"
  cell_font :: "Font option"
  cell_fill :: "jsstring option"
  cell_alignment :: "Alignment option"
  cell_border :: bool
  cell_note :: "Note option"

record Sheet =
  sheet_name :: jsstring
  cells :: "nat \<times> nat \<Rightarrow> Cell"
  merges :: "((nat \<times> nat) \<times> (nat \<times> nat)) list"
  rowHeights :: "nat \<rightharpoonup> nat"
  colWidths :: "nat \<rightharpoonup> nat"

record Workbook =
  creator :: jsstring
  created :: int
  sheets :: "Sheet list"

definition emptyCell :: Cell where
  "emptyCell = \<lparr>cell_value = None, cell_font = None, cell_fill = None, cell_alignment = None,
                 cell_border = False, cell_note = None\<rparr>"

definition addWorksheet :: "jsstring \<Rightarrow> Sheet" where
  "addWorksheet name =
     \<lparr>sheet_name = name, cells = (\<lambda>a. emptyCell), merges = [],
      rowHeights = Map.empty, colWidths = Map.empty\<rparr>"

definition font :: "bool \<Rightarrow> bool \<Rightarrow> nat option \<Rightarrow> jsstring option \<Rightarrow> Font" where
  "font b i sz col =
     \<lparr>font_bold = b, font_italic = i, font_size = sz, font_color = col, font_name = None\<rparr>"

definition align :: "Horizontal \<Rightarrow> Vertical \<Rightarrow> bool \<Rightarrow> Alignment" where
  "align h v w = \<lparr>horizontal = h, vertical = v, wrapText = w\<rparr>"

definition setValue :: "nat \<times> nat \<Rightarrow> jsvalue \<Rightarrow> Sheet \<Rightarrow> Sheet" where
  "setValue a v s = s\<lparr>cells := (cells s)(a := (cells s a)\<lparr>cell_value := Some v\<rparr>)\<rparr>"

definition setFont :: "nat \<times> nat \<Rightarrow> Font \<Rightarrow> Sheet \<Rightarrow> Sheet" where
  "setFont a f s = s\<lparr>cells := (cells s)(a := (cells s a)\<lparr>cell_font := Some f\<rparr>)\<rparr>"

definition setFill :: "nat \<times> nat \<Rightarrow> jsstring \<Rightarrow> Sheet \<Rightarrow> Sheet" where
  \<comment> \<open>a solid pattern fill with the given foreground colour\<close>
  "setFill a argb s = s\<lparr>cells := (cells s)(a := (cells s a)\<lparr>cell_fill := Some argb\<rparr>)\<rparr>"

definition setAlignment :: "nat \<times> nat \<Rightarrow> Alignment \<Rightarrow> Sheet \<Rightarrow> Sheet" where
  "setAlignment a al s =
     s\<lparr>cells := (cells s)(a := (cells s a)\<lparr>cell_alignment := Some al\<rparr>)\<rparr>"

definition setBorder :: "nat \<times> nat \<Rightarrow> Sheet \<Rightarrow> Sheet" where
  \<comment> \<open>\<open>cell.border = this.getAllBorders()\<close>\<close>
  "setBorder a s = s\<lparr>cells := (cells s)(a := (cells s a)\<lparr>cell_border := True\<rparr>)\<rparr>"

definition setNote :: "nat \<times> nat \<Rightarrow> Note \<Rightarrow> Sheet \<Rightarrow> Sheet" where
  "setNote a n s = s\<lparr>cells := (cells s)(a := (cells s a)\<lparr>cell_note := Some n\<rparr>)\<rparr>"

definition mergeCells :: "nat \<times> nat \<Rightarrow> nat \<times> nat \<Rightarrow> Sheet \<Rightarrow> Sheet" where
  "mergeCells a b s = s\<lparr>merges := merges s @ [(a, b)]\<rparr>"

definition setRowHeight :: "nat \<Rightarrow> nat \<Rightarrow> Sheet \<Rightarrow> Sheet" where
  "setRowHeight r h s = s\<lparr>rowHeights := (rowHeights s)(r \<mapsto> h)\<rparr>"

definition setColWidth :: "nat \<Rightarrow> nat \<Rightarrow> Sheet \<Rightarrow> Sheet" where
  "setColWidth c w s = s\<lparr>colWidths := (colWidths s)(c \<mapsto> w)\<rparr>"

definition applyAll :: "('s \<Rightarrow> 's) list \<Rightarrow> 's \<Rightarrow> 's" where
  \<comment> \<open>the statements of a block, in their order\<close>
  "applyAll fs s = foldl (\<lambda>s f. f s) s fs"

definition headerStyle :: "nat \<Rightarrow> jsstring \<Rightarrow> nat \<times> nat \<Rightarrow> Sheet \<Rightarrow> Sheet" where
  \<comment> \<open>\<open>Object.assign(cell, headerStyle)\<close>, for the font size and header colour of the sheet\<close>
  "headerStyle sz color a =
     applyAll [setFont a (font True False (Some sz) (Some (js ''FFFFFFFF''))), setFill a color,
               setAlignment a (align HCenter VMiddle True), setBorder a]"

definition dataStyle :: "nat \<times> nat \<Rightarrow> Sheet \<Rightarrow> Sheet" where
  \<comment> \<open>\<open>Object.assign(cell, dataStyle)\<close>\<close>
  "dataStyle a =
     applyAll [setFont a (font False False (Some 9) None),
               setAlignment a (align HLeft VMiddle True), setBorder a]"

definition noteOf :: "jsstring \<Rightarrow> Note" where
  \<comment> \<open>a note with the one text \<open>reason\<close>, in Calibri 10\<close>
  "noteOf reason =
     \<lparr>note_texts = [(\<lparr>font_bold = False, font_italic = False, font_size = Some 10,
                         font_color = None, font_name = Some (js ''Calibri'')\<rparr>, reason)]\<rparr>"

subsection \<open>Helpers\<close>

function replaceWhitespaceRunsBy :: "nat \<Rightarrow> jsstring \<Rightarrow> jsstring" where
  \<comment> \<open>\<open>s.replace(/\s+/g, r)\<close> for a replacement \<open>r\<close> of one character\<close>
  "replaceWhitespaceRunsBy r [] = []"
| "replaceWhitespaceRunsBy r (c # cs) =
     (if isWhiteSpace c then r # replaceWhitespaceRunsBy r (dropWhile isWhiteSpace cs)
      else c # replaceWhitespaceRunsBy r cs)"
  by pat_completeness auto
termination
  by (relation "measure (\<lambda>(r, s). length s)") (auto simp: length_dropWhile_le less_Suc_eq_le)

definition isDigit :: "nat \<Rightarrow> bool" where
  "isDigit c \<longleftrightarrow> 0x30 \<le> c \<and> c \<le> 0x39"

definition isWordChar :: "nat \<Rightarrow> bool" where
  \<comment> \<open>the class \<open>\w\<close>\<close>
  "isWordChar c \<longleftrightarrow>
     (0x41 \<le> c \<and> c \<le> 0x5A) \<or> (0x61 \<le> c \<and> c \<le> 0x7A) \<or> isDigit c \<or> c = 0x5F"

definition sanitizeFilename :: "jsstring \<Rightarrow> jsstring" where
  "sanitizeFilename text =
     take 100
       (filter (\<lambda>c. isWordChar c \<or> c = 0x2D \<or> c = 0x5F \<or> c = 0x2E)
          (map (\<lambda>c. if c = 0x9 then 0x5F else c) (replaceWhitespaceRunsBy 0x5F text)))"

fun findTime :: "jsstring \<Rightarrow> (jsstring \<times> jsstring) option" where
  \<comment> \<open>\<open>timestamp.match(/(\d+):(\d+)/)\<close>: the two groups of the leftmost match\<close>
  "findTime [] = None"
| "findTime (c # cs) =
     (let rest = dropWhile isDigit (c # cs) in
      if isDigit c \<and> rest \<noteq> [] \<and> hd rest = 0x3A \<and> tl rest \<noteq> [] \<and> isDigit (hd (tl rest))
      then Some (takeWhile isDigit (c # cs), takeWhile isDigit (tl rest))
      else findTime cs)"

definition formatTimestamp :: "jsstring \<Rightarrow> jsstring" where
  "formatTimestamp ts =
     (if ts = [] then js ''00:00''
      else case findTime ts of
             None \<Rightarrow> ts
           | Some (mins, secs) \<Rightarrow> padStart2 mins @ js '':'' @ padStart2 secs)"

definition toFixed1 :: "rat \<Rightarrow> jsstring" where
  \<comment> \<open>\<open>x.toFixed(1)\<close>: the nearest tenth, the larger one of two\<close>
  "toFixed1 x =
     (let n = nat \<lfloor>\<bar>x\<bar> * 10 + 1 / 2\<rfloor>
      in (if x < 0 then js ''-'' else []) @ natToString (n div 10) @ js ''.'' @ natToString (n mod 10))"

definition orText :: "jsstring \<Rightarrow> jsstring \<Rightarrow> jsstring" where
  \<comment> \<open>\<open>s || d\<close> for strings\<close>
  "orText s d = (if s = [] then d else s)"

fun criterionMatch :: "jsstring \<Rightarrow> (jsstring \<times> jsstring) option" where
  \<comment> \<open>\<open>criterion.match(/\[(.*?)\]\s*(.*)/)\<close>: the two groups of the leftmost match\<close>
  "criterionMatch [] = None"
| "criterionMatch (c # cs) =
     (let g = takeWhile (\<lambda>d. d \<noteq> 0x5D \<and> \<not> isLineTerminator d) cs;
          after = drop (length g) cs
      in if c = 0x5B \<and> after \<noteq> [] \<and> hd after = 0x5D
         then Some (g, takeWhile (\<lambda>d. \<not> isLineTerminator d) (dropWhile isWhiteSpace (tl after)))
         else criterionMatch cs)"

subsection \<open>The lookup maps and the five strategies\<close>

text \<open>
  The three \<open>Map\<close>s that both sheet builders fill from \<open>detailedScores\<close>, as association
  lists in insertion order.
\<close>

record EvaluationMaps =
  evaluationMap :: "(jsstring \<times> DetailedScore) list"
  evaluationByTopicOnly :: "(jsstring \<times> DetailedScore) list"
  evaluationByBlockOnly :: "(jsstring \<times> DetailedScore) list"

definition pairKey :: "jsstring \<Rightarrow> jsstring \<Rightarrow> jsstring" where
  \<comment> \<open>the template \<open>block|topic\<close>\<close>
  "pairKey block tp = block @ [124] @ tp"

definition addScore :: "EvaluationMaps \<Rightarrow> DetailedScore \<Rightarrow> EvaluationMaps" where
  "addScore m sc =
     (case criterionMatch (criterion sc) of
        None \<Rightarrow> m
      | Some (g1, g2) \<Rightarrow>
          let block = trim g1; tp = trim g2;
              key = pairKey block tp;
              normalizedKey = pairKey (normalizeText block) (normalizeText tp)
          in \<lparr>evaluationMap =
                 AList.update normalizedKey sc (AList.update key sc (evaluationMap m)),
               evaluationByTopicOnly = AList.update tp sc (evaluationByTopicOnly m),
               evaluationByBlockOnly = AList.update block sc (evaluationByBlockOnly m)\<rparr>)"

definition buildMaps :: "DetailedScore list \<Rightarrow> EvaluationMaps" where
  "buildMaps scores =
     foldl addScore
       \<lparr>evaluationMap = [], evaluationByTopicOnly = [], evaluationByBlockOnly = []\<rparr> scores"

definition strategy1 :: "EvaluationMaps \<Rightarrow> jsstring \<Rightarrow> jsstring \<Rightarrow> DetailedScore option" where
  "strategy1 m bName tName = map_of (evaluationMap m) (pairKey bName tName)"

definition strategy2 :: "EvaluationMaps \<Rightarrow> jsstring \<Rightarrow> jsstring \<Rightarrow> DetailedScore option" where
  "strategy2 m bName tName =
     map_of (evaluationMap m) (pairKey (normalizeText bName) (normalizeText tName))"

definition strategy3 :: "EvaluationMaps \<Rightarrow> jsstring \<Rightarrow> jsstring \<Rightarrow> DetailedScore option" where
  "strategy3 m bName tName = map_of (evaluationByTopicOnly m) tName"

definition strategy4 :: "EvaluationMaps \<Rightarrow> jsstring \<Rightarrow> jsstring \<Rightarrow> DetailedScore option" where
  "strategy4 m bName tName = map_of (evaluationByBlockOnly m) bName"

definition strategy5 :: "EvaluationMaps \<Rightarrow> jsstring \<Rightarrow> jsstring \<Rightarrow> DetailedScore option" where
  \<comment> \<open>the first entry of the map, in insertion order, that contains or is contained\<close>
  "strategy5 m bName tName =
     (let normalizedTopic = normalizeText tName
      in map_option snd
           (find (\<lambda>(mapKey, mapScore).
                    includesStr (normalizeText mapKey) normalizedTopic \<or>
                    includesStr normalizedTopic (normalizeText mapKey))
              (evaluationMap m)))"

definition findScore :: "EvaluationMaps \<Rightarrow> jsstring \<Rightarrow> jsstring \<Rightarrow> DetailedScore option" where
  \<comment> \<open>the chain of \<open>if (!score)\<close> of \<open>getTopicValueWithReason\<close> and of \<open>getTopicResult\<close>\<close>
  "findScore m bName tName =
     (case strategy1 m bName tName of
        Some sc \<Rightarrow> Some sc
      | None \<Rightarrow>
          (case strategy2 m bName tName of
             Some sc \<Rightarrow> Some sc
           | None \<Rightarrow>
               (case strategy3 m bName tName of
                  Some sc \<Rightarrow> Some sc
                | None \<Rightarrow>
                    (case strategy4 m bName tName of
                       Some sc \<Rightarrow> Some sc
                     | None \<Rightarrow> strategy5 m bName tName))))"

record TopicValue =
  tv_value :: jsvalue
  tv_reason :: jsstring
  tv_shouldHighlight :: bool

definition getTopicValueWithReason ::
  "EvaluationMaps \<Rightarrow> jsstring \<Rightarrow> jsstring \<Rightarrow> EvaluationTopic \<Rightarrow> TopicValue" where
  "getTopicValueWithReason m bName tName tp =
     (if \<not> applies tp
      then \<lparr>tv_value = StrV (js ''n/a''),
            tv_reason = (js ''No aplica seg'' @ [250] @ js ''n el contexto de la llamada''),
            tv_shouldHighlight = False\<rparr>
      else case findScore m bName tName of
             None \<Rightarrow>
               \<lparr>tv_value = StrV (js ''Sin evaluar''),
                tv_reason = (js ''No se encontr'' @ [243] @ js '' evidencia suficiente en transcripci'' @ [243] @ js ''n ni en capturas para evaluar este criterio''),
                tv_shouldHighlight = False\<rparr>
           | Some sc \<Rightarrow>
               let justification = score_observations sc
               in if score sc = 0
                  then \<lparr>tv_value = NumV 0,
                        tv_reason = orText justification ((js ''No cumpli'' @ [243] @ js '' con el criterio'')),
                        tv_shouldHighlight = True\<rparr>
                  else \<lparr>tv_value = NumV (score sc),
                        tv_reason = orText justification ((js ''Cumpli'' @ [243] @ js '' correctamente'')),
                        tv_shouldHighlight = True\<rparr>)"

record TopicResult =
  tr_value :: jsvalue
  tr_reason :: jsstring
  tr_isCritical :: bool

definition getTopicResult ::
  "EvaluationMaps \<Rightarrow> jsstring \<Rightarrow> jsstring \<Rightarrow> EvaluationTopic \<Rightarrow> TopicResult" where
  "getTopicResult m bName tName tp =
     (if \<not> applies tp
      then \<lparr>tr_value = StrV (js ''n/a''), tr_reason = js ''No aplica'', tr_isCritical = False\<rparr>
      else case findScore m bName tName of
             None \<Rightarrow>
               \<lparr>tr_value = StrV (js ''Sin evaluar''),
                tr_reason = (js ''No se encontr'' @ [243] @ js '' evidencia suficiente''),
                tr_isCritical = (criticality tp = Critico)\<rparr>
           | Some sc \<Rightarrow>
               let justification = score_observations sc
               in if criticality tp = Critico
                  then (let cumple = (score sc > 0)
                        in \<lparr>tr_value = StrV (if cumple then js ''Cumple'' else js ''No Cumple''),
                             tr_reason = orText justification
                               (if cumple then (js ''Cumpli'' @ [243] @ js '' correctamente'')
                                else (js ''No cumpli'' @ [243] @ js '' - Error Cr'' @ [237] @ js ''tico'')),
                             tr_isCritical = True\<rparr>)
                  else \<lparr>tr_value = NumV (score sc),
                        tr_reason = orText justification (js ''Evaluado''),
                        tr_isCritical = False\<rparr>)"

definition criticalityText :: "Criticality \<Rightarrow> jsstring" where
  "criticalityText c = (case c of Critico \<Rightarrow> (js ''Cr'' @ [237] @ js ''tico'') | NoCritico \<Rightarrow> js ''-'')"

definition momentLine :: "KeyMoment \<Rightarrow> jsstring" where
  \<comment> \<open>the template \<open>[timestamp] type: description\<close> and a line feed\<close>
  "momentLine moment =
     [0x5B] @ formatTimestamp (moment_timestamp moment) @ [0x5D] @ js '' '' @ moment_type moment @
     js '': '' @ moment_description moment @ [0xA]"

subsection \<open>The horizontal sheet (createAnalysisSheet)\<close>

definition forEachTopic ::
  "(EvaluationBlock \<Rightarrow> EvaluationTopic \<Rightarrow> 'st \<Rightarrow> 'st) \<Rightarrow> EvaluationBlock list \<Rightarrow> 'st \<Rightarrow> 'st" where
  \<comment> \<open>\<open>criteria.forEach(block => block.topics.forEach(topic => ...))\<close>\<close>
  "forEachTopic f criteria st =
     foldl (\<lambda>st blk. foldl (\<lambda>st tp. f blk tp st) st (topics blk)) st criteria"

definition HEADER_COLOR :: jsstring where
  "HEADER_COLOR = js ''FF2563EB''"

definition labelCell :: "nat \<times> nat \<Rightarrow> jsstring \<Rightarrow> Sheet \<Rightarrow> Sheet" where
  \<comment> \<open>a caption of rows 2 and 3: bold, size 10, to the right\<close>
  "labelCell a txt =
     applyAll [setValue a (StrV txt), setFont a (font True False (Some 10) None),
               setAlignment a (align HRight VMiddle False)]"

definition fieldCell :: "nat \<times> nat \<Rightarrow> jsstring \<Rightarrow> Sheet \<Rightarrow> Sheet" where
  \<comment> \<open>a value of rows 2 and 3: size 10, to the left\<close>
  "fieldCell a txt =
     applyAll [setValue a (StrV txt), setFont a (font False False (Some 10) None),
               setAlignment a (align HLeft VMiddle False)]"

definition totalCell :: "nat \<times> nat \<Rightarrow> jsstring \<Rightarrow> Sheet \<Rightarrow> Sheet" where
  \<comment> \<open>the two results of row 3: bold, size 11, green\<close>
  "totalCell a txt =
     applyAll [setValue a (StrV txt), setFont a (font True False (Some 11) (Some (js ''FF10B981''))),
               setAlignment a (align HLeft VMiddle False)]"

definition scoreOutOf :: "EvaluationResult \<Rightarrow> jsstring" where
  \<comment> \<open>the template \<open>totalScore / maxPossibleScore\<close>\<close>
  "scoreOutOf e = intToString (totalScore e) @ js '' / '' @ intToString (maxPossibleScore e)"

definition analysisHeading :: "AuditInput \<Rightarrow> EvaluationResult \<Rightarrow> Sheet \<Rightarrow> Sheet" where
  \<comment> \<open>rows 1 to 3\<close>
  "analysisHeading a e =
     applyAll
       [setRowHeight 1 35,
        setValue (1, 1) (StrV ((js ''Auditor'' @ [237] @ js ''a de Llamada - An'' @ [225] @ js ''lisis Detallado''))),
        setFont (1, 1) (font True False (Some 16) (Some HEADER_COLOR)),
        setAlignment (1, 1) (align HLeft VMiddle False),
        mergeCells (1, 1) (1, 8),
        setRowHeight 2 25,
        labelCell (2, 1) (js ''Ejecutivo:''),
        fieldCell (2, 2) (executiveName a),
        mergeCells (2, 2) (2, 3),
        labelCell (2, 4) (js ''ID:''),
        fieldCell (2, 5) (executiveId a),
        labelCell (2, 6) (js ''Tipo de Llamada:''),
        fieldCell (2, 7) (callType a),
        mergeCells (2, 7) (2, 8),
        setRowHeight 3 25,
        labelCell (3, 1) ((js ''Puntuaci'' @ [243] @ js ''n Total:'')),
        totalCell (3, 2) (scoreOutOf e),
        labelCell (3, 4) (js ''Porcentaje:''),
        totalCell (3, 5) (toFixed1 (percentage e) @ [37]),
        labelCell (3, 6) (js ''Cliente:''),
        fieldCell (3, 7) (orText (clientId a) (js ''N/A'')),
        mergeCells (3, 7) (3, 8)]"

definition headers :: "(nat \<times> jsstring \<times> nat) list" where
  \<comment> \<open>column, label and width\<close>
  "headers =
     [(1, [35], 8), (2, js ''Bloque'', 30), (3, js ''Criticidad'', 12), (4, js ''Criterio'', 25),
      (5, (js ''Puntaje M'' @ [225] @ js ''ximo''), 18), (6, js ''Puntaje Obtenido'', 18), (7, js ''Aplica'', 12),
      (8, js ''Observaciones'', 40)]"

definition analysisHeaderRow :: "Sheet \<Rightarrow> Sheet" where
  "analysisHeaderRow =
     applyAll
       (setRowHeight 4 30 #
        map (\<lambda>(c, label, w).
               applyAll [setValue (4, c) (StrV label), headerStyle 10 HEADER_COLOR (4, c),
                         setColWidth c w])
          headers)"

definition topicHeader ::
  "EvaluationBlock \<Rightarrow> EvaluationTopic \<Rightarrow> Sheet \<times> nat \<Rightarrow> Sheet \<times> nat" where
  \<comment> \<open>the body of the loop of the topic headers, on the sheet and \<open>colNum\<close>\<close>
  "topicHeader blk tp st =
     (case st of (s, colNum) \<Rightarrow>
        (applyAll [setValue (4, colNum) (StrV (blockName blk @ js '': '' @ topic tp)),
                   headerStyle 10 HEADER_COLOR (4, colNum)] s,
         colNum + 1))"

definition scoreHighlight :: "int \<Rightarrow> Points \<Rightarrow> nat \<times> nat \<Rightarrow> Sheet \<Rightarrow> Sheet" where
  \<comment> \<open>the colours of a number against \<open>maxPoints\<close>: all of it, nothing, a part\<close>
  "scoreHighlight v pts a =
     (let maxPoints = (case pts of Pts n \<Rightarrow> n | NA \<Rightarrow> 0)
      in if v = maxPoints
         then applyAll [setFill a (js ''FFD4EDDA''),
                        setFont a (font True False (Some 10) (Some (js ''FF155724'')))]
         else if v = 0
         then applyAll [setFill a (js ''FFF8D7DA''),
                        setFont a (font True False (Some 10) (Some (js ''FF721C24'')))]
         else applyAll [setFill a (js ''FFFFF3CD''),
                        setFont a (font True False (Some 10) (Some (js ''FF856404'')))])"

definition topicRow ::
  "EvaluationMaps \<Rightarrow> EvaluationBlock \<Rightarrow> EvaluationTopic \<Rightarrow> Sheet \<times> nat \<times> nat \<Rightarrow>
   Sheet \<times> nat \<times> nat" where
  \<comment> \<open>the body of the loop of the data rows, on the sheet, \<open>rowNum\<close> and \<open>topicIndex\<close>\<close>
  "topicRow m blk tp st =
     (case st of (s, rowNum, topicIndex) \<Rightarrow>
        let result = getTopicValueWithReason m (blockName blk) (topic tp) tp
        in (applyAll
              [setRowHeight rowNum 25,
               setValue (rowNum, 1) (NumV (int topicIndex)),
               setAlignment (rowNum, 1) (align HCenter VMiddle False),
               setBorder (rowNum, 1),
               setValue (rowNum, 2) (StrV (blockName blk)),
               setFont (rowNum, 2) (font True False (Some 9) None),
               dataStyle (rowNum, 2),
               setValue (rowNum, 3) (StrV (criticalityText (criticality tp))),
               setAlignment (rowNum, 3) (align HCenter VMiddle False),
               setBorder (rowNum, 3),
               (if criticality tp = Critico
                then applyAll [setFill (rowNum, 3) (js ''FFFECACA''),
                               setFont (rowNum, 3)
                                 (font True False (Some 9) (Some (js ''FFDC2626'')))]
                else id),
               setValue (rowNum, 4) (StrV (topic tp)),
               dataStyle (rowNum, 4),
               setValue (rowNum, 5) (pointsValue (points tp)),
               setAlignment (rowNum, 5) (align HCenter VMiddle False),
               setBorder (rowNum, 5),
               setValue (rowNum, 6) (tv_value result),
               setAlignment (rowNum, 6) (align HCenter VMiddle False),
               setBorder (rowNum, 6),
               (if tv_shouldHighlight result
                then (case tv_value result of
                        NumV v \<Rightarrow> scoreHighlight v (points tp) (rowNum, 6)
                      | StrV t \<Rightarrow> id)
                else if tv_value result = StrV (js ''n/a'')
                then applyAll [setFill (rowNum, 6) (js ''FFE0E0E0''),
                               setFont (rowNum, 6)
                                 (font False False (Some 9) (Some (js ''FF666666'')))]
                else id),
               setValue (rowNum, 7) (StrV (if applies tp then (js ''S'' @ [237]) else js ''No'')),
               setAlignment (rowNum, 7) (align HCenter VMiddle False),
               setBorder (rowNum, 7),
               setValue (rowNum, 8) (StrV (tv_reason result)),
               dataStyle (rowNum, 8)] s,
            rowNum + 1, topicIndex + 1))"

definition matrixCell ::
  "EvaluationMaps \<Rightarrow> EvaluationBlock \<Rightarrow> EvaluationTopic \<Rightarrow> Sheet \<times> nat \<Rightarrow> Sheet \<times> nat" where
  \<comment> \<open>the body of the loop of the matrix view, on the sheet and \<open>colNum\<close>\<close>
  "matrixCell m blk tp st =
     (case st of (s, colNum) \<Rightarrow>
        let result = getTopicValueWithReason m (blockName blk) (topic tp) tp
        in (applyAll
              [setValue (5, colNum) (tv_value result),
               setAlignment (5, colNum) (align HCenter VMiddle True),
               setBorder (5, colNum),
               (if tv_shouldHighlight result
                then applyAll [setFill (5, colNum) (js ''FF000000''),
                               setFont (5, colNum)
                                 (font True False (Some 10) (Some (js ''FFFFFFFF''))),
                               setNote (5, colNum) (noteOf (tv_reason result))]
                else if tv_value result = StrV (js ''n/a'')
                then applyAll [setFill (5, colNum) (js ''FFE0E0E0''),
                               setFont (5, colNum)
                                 (font False False (Some 10) (Some (js ''FF666666'')))]
                else applyAll [setFill (5, colNum) (js ''FFF2F2F2''),
                               setFont (5, colNum)
                                 (font False True (Some 9) (Some (js ''FF666666''))),
                               setNote (5, colNum) (noteOf (tv_reason result))])] s,
            colNum + 1))"

definition analysisObservations :: "EvaluationResult \<Rightarrow> jsstring" where
  "analysisObservations e =
     observations e @
     (if keyMoments e \<noteq> []
      then [0xA, 0xA] @ js ''Momentos clave de la llamada:'' @ [0xA] @
           concat (map momentLine (keyMoments e))
      else [])"

definition createAnalysisSheet :: "Sheet \<Rightarrow> AuditInput \<Rightarrow> EvaluationResult \<Rightarrow> Sheet" where
  "createAnalysisSheet sheet a e =
     (let criteria = getCriteriaForCallType (callType a);
          m = buildMaps (detailedScores e);
          s1 = analysisHeaderRow (analysisHeading a e sheet);
          s2 = fst (forEachTopic topicHeader criteria (s1, 9));
          s3 = applyAll [setValue (4, 40) (StrV (js ''Observaciones Generales'')),
                         headerStyle 10 HEADER_COLOR (4, 40)] s2;
          s4 = fst (forEachTopic (topicRow m) criteria (s3, 5, 1));
          s5 = fst (forEachTopic (matrixCell m) criteria (s4, 9));
          s6 = applyAll [setValue (5, 40) (StrV (analysisObservations e)),
                         setFont (5, 40) (font False False (Some 9) None),
                         setAlignment (5, 40) (align HLeft VTop True),
                         setBorder (5, 40),
                         setColWidth 40 50] s5
      in applyAll (map (\<lambda>i. setColWidth i 15) [9..<40]) s6)"

subsection \<open>The vertical sheet (createMonitoreoSheet)\<close>

definition MONITOREO_COLOR :: jsstring where
  "MONITOREO_COLOR = js ''FFB42648''"

definition WHITE_FONT :: jsstring where
  "WHITE_FONT = js ''FFFFFFFF''"

definition ponderacion :: "EvaluationTopic \<Rightarrow> jsstring" where
  \<comment> \<open>the first text of the note of column D\<close>
  "ponderacion tp =
     (js ''Ponderaci'' @ [243] @ js ''n: '') @
     (if criticality tp = Critico then (js ''Cr'' @ [237] @ js ''tico'') else valueToString (pointsValue (points tp))) @
     (case points tp of Pts n \<Rightarrow> js ''/'' @ intToString n | NA \<Rightarrow> []) @ [0xA]"

definition monitoreoNote :: "EvaluationTopic \<Rightarrow> jsstring \<Rightarrow> Note" where
  "monitoreoNote tp reason =
     \<lparr>note_texts =
        [(\<lparr>font_bold = True, font_italic = False, font_size = Some 10, font_color = None,
            font_name = Some (js ''Calibri'')\<rparr>, ponderacion tp),
         (\<lparr>font_bold = False, font_italic = False, font_size = Some 10, font_color = None,
            font_name = Some (js ''Calibri'')\<rparr>, reason)]\<rparr>"

definition monitoreoRow ::
  "EvaluationMaps \<Rightarrow> EvaluationBlock \<Rightarrow> nat \<times> EvaluationTopic \<Rightarrow> Sheet \<times> nat \<Rightarrow> Sheet \<times> nat" where
  \<comment> \<open>the body of the loop over the topics of a block, on the sheet and \<open>currentRow\<close>\<close>
  "monitoreoRow m blk it st =
     (case (it, st) of ((topicIdx, tp), (s, currentRow)) \<Rightarrow>
        let topicCount = length (topics blk);
            result = getTopicResult m (blockName blk) (topic tp) tp;
            cellB = (currentRow, 2); cellC = (currentRow, 3); cellD = (currentRow, 4)
        in (applyAll
              [setRowHeight currentRow (if topicIdx = 0 \<and> topicCount = 1 then 40 else 30),
               (if topicIdx = 0
                then applyAll [setValue cellB (StrV (blockName blk)),
                               setFont cellB (font True False (Some 11) (Some WHITE_FONT)),
                               setFill cellB MONITOREO_COLOR,
                               setAlignment cellB (align HCenter VMiddle True),
                               setBorder cellB]
                else id),
               setValue cellC (StrV (topic tp)),
               setFont cellC (font False False (Some 10) None),
               setAlignment cellC (align HLeft VMiddle True),
               setBorder cellC,
               (if criticality tp = Critico
                then applyAll
                       [setValue cellD (tr_value result),
                        setFont cellD (font True False (Some 10) None),
                        setAlignment cellD (align HCenter VMiddle True),
                        setBorder cellD,
                        (if tr_value result = StrV (js ''No Cumple'')
                         then applyAll [setFill cellD (js ''FFFF0000''),
                                        setFont cellD
                                          (font True False (Some 10) (Some WHITE_FONT))]
                         else if tr_value result = StrV (js ''Cumple'')
                         then applyAll [setFill cellD (js ''FF10B981''),
                                        setFont cellD
                                          (font True False (Some 10) (Some WHITE_FONT))]
                         else if tr_value result = StrV (js ''Sin evaluar'')
                         then applyAll [setFill cellD (js ''FFF2F2F2''),
                                        setFont cellD
                                          (font False True (Some 9) (Some (js ''FF666666'')))]
                         else id)]
                else if \<not> applies tp
                then applyAll
                       [setValue cellD (StrV (js ''n/a'')),
                        setFont cellD (font False False (Some 10) (Some (js ''FF666666''))),
                        setFill cellD (js ''FFE0E0E0''),
                        setAlignment cellD (align HCenter VMiddle False),
                        setBorder cellD]
                else applyAll
                       [setValue cellD (tr_value result),
                        setAlignment cellD (align HCenter VMiddle True),
                        setBorder cellD,
                        (case tr_value result of
                           NumV v \<Rightarrow> scoreHighlight v (points tp) cellD
                         | StrV t \<Rightarrow>
                             if t = js ''Sin evaluar''
                             then applyAll
                                    [setFill cellD (js ''FFF2F2F2''),
                                     setFont cellD
                                       (font False True (Some 9) (Some (js ''FF666666'')))]
                             else id)]),
               (if tr_reason result \<noteq> [] \<and> tr_reason result \<noteq> js ''No aplica''
                then setNote cellD (monitoreoNote tp (tr_reason result))
                else id)] s,
            currentRow + 1))"

definition monitoreoBlock ::
  "EvaluationMaps \<Rightarrow> Sheet \<times> nat \<Rightarrow> EvaluationBlock \<Rightarrow> Sheet \<times> nat" where
  \<comment> \<open>the body of the loop over the blocks\<close>
  "monitoreoBlock m st blk =
     (case st of (s, currentRow) \<Rightarrow>
        let blockStartRow = currentRow;
            topicCount = length (topics blk);
            st' = foldl (\<lambda>st it. monitoreoRow m blk it st) (s, currentRow)
                    (List.enumerate 0 (topics blk))
        in (if topicCount > 1
            then mergeCells (blockStartRow, 2) (blockStartRow + topicCount - 1, 2) (fst st')
            else fst st',
            snd st'))"

definition recommendationLine :: "nat \<times> jsstring \<Rightarrow> jsstring" where
  \<comment> \<open>the template \<open>idx + 1. rec\<close> and a line feed\<close>
  "recommendationLine it = (case it of (idx, rec) \<Rightarrow> natToString (idx + 1) @ js ''. '' @ rec @ [0xA])"

definition monitoreoObservations :: "EvaluationResult \<Rightarrow> jsstring" where
  "monitoreoObservations e =
     observations e @
     (if recommendations e \<noteq> []
      then [0xA, 0xA] @ js ''Recomendaciones:'' @ [0xA] @
           concat (map recommendationLine (List.enumerate 0 (recommendations e)))
      else []) @
     (if keyMoments e \<noteq> []
      then [0xA] @ js ''Momentos clave:'' @ [0xA] @ concat (map momentLine (keyMoments e))
      else [])"

definition monitoreoHeading :: "AuditInput \<Rightarrow> Sheet \<Rightarrow> Sheet" where
  \<comment> \<open>the column widths and rows 2 and 3\<close>
  "monitoreoHeading a =
     applyAll
       [setColWidth 1 3, setColWidth 2 22, setColWidth 3 55, setColWidth 4 18,
        setRowHeight 2 30,
        setValue (2, 2) (StrV (js ''Monitoreo'')), headerStyle 11 MONITOREO_COLOR (2, 2),
        setValue (2, 3) (StrV (executiveName a)), headerStyle 11 MONITOREO_COLOR (2, 3),
        setValue (2, 4) (StrV (orText (clientId a) (executiveId a))),
        headerStyle 11 MONITOREO_COLOR (2, 4),
        setRowHeight 3 25,
        setValue (3, 2) (StrV (js ''Bloques'')), headerStyle 11 MONITOREO_COLOR (3, 2),
        setValue (3, 3) (StrV (js ''Rubros'')), headerStyle 11 MONITOREO_COLOR (3, 3),
        setValue (3, 4) (StrV ((js ''Ponderaci'' @ [243] @ js ''n''))), headerStyle 11 MONITOREO_COLOR (3, 4)]"

definition monitoreoTotal :: "EvaluationResult \<Rightarrow> nat \<Rightarrow> Sheet \<Rightarrow> Sheet" where
  \<comment> \<open>the two rows of the total, from \<open>totalStartRow\<close>\<close>
  "monitoreoTotal e totalStartRow =
     applyAll
       [mergeCells (totalStartRow, 3) (totalStartRow + 1, 3),
        setValue (totalStartRow, 3) (StrV (js ''Total'')),
        setFont (totalStartRow, 3) (font True False (Some 12) (Some WHITE_FONT)),
        setFill (totalStartRow, 3) MONITOREO_COLOR,
        setAlignment (totalStartRow, 3) (align HCenter VMiddle False),
        setBorder (totalStartRow, 3),
        mergeCells (totalStartRow, 4) (totalStartRow + 1, 4),
        setValue (totalStartRow, 4) (StrV (scoreOutOf e)),
        setFont (totalStartRow, 4) (font True False (Some 12) (Some WHITE_FONT)),
        setFill (totalStartRow, 4) MONITOREO_COLOR,
        setAlignment (totalStartRow, 4) (align HCenter VMiddle False),
        setBorder (totalStartRow, 4),
        setBorder (totalStartRow, 2), setBorder (totalStartRow + 1, 2),
        setBorder (totalStartRow + 1, 3), setBorder (totalStartRow + 1, 4),
        setRowHeight totalStartRow 20, setRowHeight (totalStartRow + 1) 20]"

definition monitoreoClosing :: "EvaluationResult \<Rightarrow> nat \<Rightarrow> Sheet \<Rightarrow> Sheet" where
  \<comment> \<open>the three rows of the observations, from \<open>obsStartRow\<close>\<close>
  "monitoreoClosing e obsStartRow =
     applyAll
       ([mergeCells (obsStartRow, 2) (obsStartRow + 2, 2),
         setValue (obsStartRow, 2) (StrV (js ''Observaciones'')),
         setFont (obsStartRow, 2) (font True False (Some 11) (Some WHITE_FONT)),
         setFill (obsStartRow, 2) MONITOREO_COLOR,
         setAlignment (obsStartRow, 2) (align HCenter VMiddle True),
         setBorder (obsStartRow, 2),
         mergeCells (obsStartRow, 3) (obsStartRow + 2, 4),
         setValue (obsStartRow, 3) (StrV (monitoreoObservations e)),
         setFont (obsStartRow, 3) (font False False (Some 10) None),
         setAlignment (obsStartRow, 3) (align HLeft VTop True),
         setBorder (obsStartRow, 3),
         setRowHeight obsStartRow 25, setRowHeight (obsStartRow + 1) 25,
         setRowHeight (obsStartRow + 2) 25] @
        concat (map (\<lambda>r. [setBorder (r, 2), setBorder (r, 3), setBorder (r, 4)])
                  [obsStartRow..<obsStartRow + 3]))"

definition createMonitoreoSheet :: "Sheet \<Rightarrow> AuditInput \<Rightarrow> EvaluationResult \<Rightarrow> Sheet" where
  "createMonitoreoSheet sheet a e =
     (let criteria = getCriteriaForCallType (callType a);
          m = buildMaps (detailedScores e);
          st = foldl (monitoreoBlock m) (monitoreoHeading a sheet, 4) criteria;
          totalStartRow = snd st
      in monitoreoClosing e (totalStartRow + 2) (monitoreoTotal e totalStartRow (fst st)))"

subsection \<open>The report\<close>

text \<open>
  \<open>generateExcelReport\<close> reads the clock twice, for \<open>workbook.created\<close> and for the file
  name; both readings are parameters. The encoder of the library
  (\<open>workbook.xlsx.writeBuffer\<close>) is the parameter \<open>writeBuffer\<close>.
\<close>

definition generateExcelReport ::
  "(Workbook \<Rightarrow> bytes) \<Rightarrow> int \<Rightarrow> int \<Rightarrow> AuditInput \<Rightarrow> EvaluationResult \<Rightarrow> jsstring \<times> bytes" where
  "generateExcelReport writeBuffer newDate dateNow a e =
     (let callTypeUpper = trim (toUpperCase (callType a));
          sheet = (if includesStr callTypeUpper (js ''MONITOREO'')
                   then createMonitoreoSheet (addWorksheet (js ''Monitoreo'')) a e
                   else createAnalysisSheet (addWorksheet (js ''Analisis'')) a e);
          workbook = \<lparr>creator = js ''Audit AI System'', created = newDate, sheets = [sheet]\<rparr>;
          cleanExecutiveId = sanitizeFilename (executiveId a);
          filename = js ''auditoria_'' @ cleanExecutiveId @ js ''_'' @ intToString dateNow @ js ''.xlsx''
      in (filename, writeBuffer workbook))"

section \<open>Auxiliary notions for the proofs\<close>

text \<open>A code unit is settled when no step of \<open>normalizeText\<close> changes it.\<close>

definition settled :: "nat \<Rightarrow> bool" where
  "settled c \<longleftrightarrow>
     lowerUnit c = c \<and> decomposition c = [c] \<and> combiningClass c = 0 \<and> \<not> isCombiningDiacritic c"

text \<open>A string is tidy when its only whitespace is single blanks, none of them doubled.\<close>

fun tidy :: "jsstring \<Rightarrow> bool" where
  "tidy [] = True"
| "tidy [c] = (isWhiteSpace c \<longrightarrow> c = 0x20)"
| "tidy (c # d # s) = ((isWhiteSpace c \<longrightarrow> c = 0x20 \<and> \<not> isWhiteSpace d) \<and> tidy (d # s))"

text \<open>
  What one attempt at an image yields, apart from the state: the tokens it adds and, when
  it succeeds, the system tag and the record it stores.
\<close>

definition attemptUsage :: "Vision \<Rightarrow> nat \<Rightarrow> path \<Rightarrow> nat \<Rightarrow> (nat \<times> nat) option" where
  "attemptUsage v i p n =
     (case imageFiles v p of
        None \<Rightarrow> None
      | Some b \<Rightarrow> (case service v i n of ApiError \<Rightarrow> None | ApiResponse u content \<Rightarrow> u))"

definition attemptResult :: "Vision \<Rightarrow> nat \<Rightarrow> path \<Rightarrow> nat \<Rightarrow> (jsstring \<times> EvidenceItem) option" where
  "attemptResult v i p n =
     (case imageFiles v p of
        None \<Rightarrow> None
      | Some b \<Rightarrow>
          (case service v i n of
             ApiError \<Rightarrow> None
           | ApiResponse u content \<Rightarrow>
               (case content of
                  None \<Rightarrow> None
                | Some c \<Rightarrow>
                    if c = [] then None
                    else (case parseContent v c of
                            None \<Rightarrow> None
                          | Some parsed \<Rightarrow>
                              if validResponse parsed
                              then Some (propertyKey (the (getProp parsed (js ''system''))),
                                         evidenceItem p parsed)
                              else None))))"

text \<open>The first of the three attempts that succeeds, with its number.\<close>

definition imageOutcome :: "Vision \<Rightarrow> nat \<Rightarrow> path \<Rightarrow> (nat \<times> jsstring \<times> EvidenceItem) option" where
  "imageOutcome v i p =
     (case attemptResult v i p 1 of
        Some r \<Rightarrow> Some (1, r)
      | None \<Rightarrow>
          (case attemptResult v i p 2 of
             Some r \<Rightarrow> Some (2, r)
           | None \<Rightarrow> (case attemptResult v i p 3 of Some r \<Rightarrow> Some (3, r) | None \<Rightarrow> None)))"

definition imageTrace :: "Vision \<Rightarrow> nat \<Rightarrow> path \<Rightarrow> Event list" where
  "imageTrace v i p =
     (case imageOutcome v i p of
        None \<Rightarrow> [Attempt i 1, Wait 1000, Attempt i 2, Wait 1000, Attempt i 3, GaveUp i]
      | Some (n, r) \<Rightarrow>
          if n = 1 then [Attempt i 1, Analyzed i 1]
          else if n = 2 then [Attempt i 1, Wait 1000, Attempt i 2, Analyzed i 2]
          else [Attempt i 1, Wait 1000, Attempt i 2, Wait 1000, Attempt i 3, Analyzed i 3])"

definition groupEvidence ::
  "(jsstring \<rightharpoonup> EvidenceItem list) \<Rightarrow> (jsstring \<times> EvidenceItem) list \<Rightarrow> (jsstring \<rightharpoonup> EvidenceItem list)" where
  "groupEvidence ev items =
     foldl (\<lambda>ev (system, item).
              ev(system \<mapsto> (case ev system of None \<Rightarrow> [] | Some xs \<Rightarrow> xs) @ [item])) ev items"

text \<open>A trace in which every attempt after the first comes right after a wait.\<close>

fun laterAttempt :: "Event \<Rightarrow> bool" where
  "laterAttempt (Attempt i n) = (n \<ge> 2)"
| "laterAttempt e = False"

fun waited :: "Event list \<Rightarrow> bool" where
  "waited (a # b # t) = ((laterAttempt b \<longrightarrow> a = Wait 1000) \<and> waited (b # t))"
| "waited t = True"

fun isAttemptOf :: "nat \<Rightarrow> Event \<Rightarrow> bool" where
  "isAttemptOf i (Attempt j n) = (i = j)"
| "isAttemptOf i e = False"

subsection \<open>Reconciliation, read off the list of scores\<close>






















subsection \<open>Sheets, cell by cell\<close>



definition touches :: "(Sheet \<Rightarrow> Sheet) \<Rightarrow> (nat \<times> nat) set \<Rightarrow> bool" where
  \<comment> \<open>the cells outside \<open>A\<close> stay as they are\<close>
  "touches f A \<longleftrightarrow> (\<forall>s a. a \<notin> A \<longrightarrow> cells (f s) a = cells s a)"


definition scoreStanding ::
  "DetailedScore option \<Rightarrow> Points \<Rightarrow> (bool \<times> bool \<times> bool) option" where
  \<comment> \<open>how the score of a topic, if it has one, stands against its points: whether it
      equals the maximum, whether it is zero, whether it is positive\<close>
  "scoreStanding found pts =
     map_option
       (\<lambda>sc. (score sc = (case pts of Pts n \<Rightarrow> n | NA \<Rightarrow> 0), score sc = 0, 0 < score sc))
       found"


section \<open>Facts about strings\<close>

lemma includesStr_sublist: "includesStr s sub \<longleftrightarrow> sublist sub s"
  by (induction s) (auto simp: sublist_Cons_right)

lemma dropWhile_keeps_sublist:
  assumes "sublist k s" "k \<noteq> []" "\<not> P (hd k)"
  shows "sublist k (dropWhile P s)"
proof -
  from assms(1) obtain p q where s: "s = p @ k @ q" by (auto simp: sublist_def)
  show ?thesis
  proof (cases "\<forall>x\<in>set p. P x")
    case True
    have "dropWhile P (k @ q) = k @ q" using assms(2,3) by (cases k) auto
    with True have "dropWhile P s = k @ q" by (simp add: s)
    then show ?thesis by (auto simp: sublist_def intro: exI[of _ "[]"])
  next
    case False
    then obtain x where "x \<in> set p" "\<not> P x" by blast
    then have "dropWhile P s = dropWhile P p @ k @ q" by (simp add: s dropWhile_append1)
    then show ?thesis by (auto simp: sublist_def)
  qed
qed

lemma sublist_dropWhile: "sublist (dropWhile P s) s"
  by (metis sublist_order.order_refl sublist_appendI takeWhile_dropWhile_id sublist_append_rightI suffix_def suffix_dropWhile suffix_imp_sublist)

lemma sublist_trim: "sublist (trim s) s"
proof -
  have "sublist (rev (trim s)) (rev s)"
    unfolding trim_def rev_rev_ident
    by (meson sublist_dropWhile sublist_order.order_trans sublist_rev_left sublist_rev)
  then show ?thesis by (simp add: sublist_rev)
qed

lemma includesStr_trim:
  assumes "k \<noteq> []" "\<not> isWhiteSpace (hd k)" "\<not> isWhiteSpace (last k)"
  shows "includesStr (trim s) k \<longleftrightarrow> includesStr s k"
proof
  assume "includesStr (trim s) k"
  then show "includesStr s k"
    using sublist_trim[of s] by (auto simp: includesStr_sublist intro: sublist_order.order_trans)
next
  assume "includesStr s k"
  then have a: "sublist k (dropWhile isWhiteSpace s)"
    using assms by (simp add: includesStr_sublist dropWhile_keeps_sublist)
  then have "sublist (rev k) (rev (dropWhile isWhiteSpace s))" by (simp add: sublist_rev)
  then have "sublist (rev k) (dropWhile isWhiteSpace (rev (dropWhile isWhiteSpace s)))"
    using assms by (intro dropWhile_keeps_sublist) (auto simp: hd_rev)
  then have "sublist k (trim s)"
    unfolding trim_def by (metis rev_rev_ident sublist_rev)
  then show "includesStr (trim s) k" by (simp add: includesStr_sublist)
qed

lemma getCriteriaForCallType_sublist:
  "getCriteriaForCallType s =
     (if sublist (js ''MONITOREO'') (toUpperCase s) then MONITOREO_CRITERIA
      else if sublist (js ''FRAUDE'') (toUpperCase s) then FRAUD_CRITERIA
      else if sublist (js ''TH CONFIRMA'') (toUpperCase s) \<or>
              sublist (js ''TH_CONFIRMA'') (toUpperCase s) then TH_CONFIRMA_CRITERIA
      else FRAUD_CRITERIA)"
proof -
  have 1: "includesStr (trim u) (js ''MONITOREO'') = sublist (js ''MONITOREO'') u" for u
    by (subst includesStr_trim) (simp_all add: js_def isWhiteSpace_def includesStr_sublist)
  have 2: "includesStr (trim u) (js ''FRAUDE'') = sublist (js ''FRAUDE'') u" for u
    by (subst includesStr_trim) (simp_all add: js_def isWhiteSpace_def includesStr_sublist)
  have 3: "includesStr (trim u) (js ''TH CONFIRMA'') = sublist (js ''TH CONFIRMA'') u" for u
    by (subst includesStr_trim) (simp_all add: js_def isWhiteSpace_def includesStr_sublist)
  have 4: "includesStr (trim u) (js ''TH_CONFIRMA'') = sublist (js ''TH_CONFIRMA'') u" for u
    by (subst includesStr_trim) (simp_all add: js_def isWhiteSpace_def includesStr_sublist)
  show ?thesis
    unfolding getCriteriaForCallType_def Let_def 1 2 3 4 by simp
qed

lemma upperUnits_whitespace: "isWhiteSpace c \<Longrightarrow> upperUnits c = [c]"
  by (auto simp: isWhiteSpace_def upperUnits_def)

lemma toUpperCase_whitespace: "list_all isWhiteSpace w \<Longrightarrow> toUpperCase w = w"
  by (induction w) (auto simp: toUpperCase_def upperUnits_whitespace)

lemma toUpperCase_append: "toUpperCase (a @ b) = toUpperCase a @ toUpperCase b"
  by (simp add: toUpperCase_def)

lemma dropWhile_append_ex: "\<exists>x\<in>set s. \<not> P x \<Longrightarrow> dropWhile P (s @ r) = dropWhile P s @ r"
  by (auto simp: dropWhile_append1)

lemma dropWhile_all: "list_all P w \<Longrightarrow> dropWhile P (w @ s) = dropWhile P s"
  by (induction w) auto

lemma trim_surrounding:
  assumes "list_all isWhiteSpace l" "list_all isWhiteSpace r"
  shows "trim (l @ s @ r) = trim s"
proof -
  have r': "list_all isWhiteSpace (rev r)" using assms(2) by (simp add: list_all_iff)
  show ?thesis
  proof (cases "list_all isWhiteSpace s")
    case True
    then have "\<forall>x\<in>set (l @ s @ r). isWhiteSpace x" using assms by (auto simp: list_all_iff)
    then have "dropWhile isWhiteSpace (l @ s @ r) = []"
      by (simp only: dropWhile_eq_Nil_conv)
    moreover have "dropWhile isWhiteSpace s = []"
      using True by (simp only: dropWhile_eq_Nil_conv list_all_iff)
    ultimately show ?thesis by (simp only: trim_def)
  next
    case False
    then have ne: "dropWhile isWhiteSpace s \<noteq> []" by (auto simp: list_all_iff)
    have "dropWhile isWhiteSpace (l @ s @ r) = dropWhile isWhiteSpace s @ r"
      using assms(1) False by (simp add: dropWhile_all dropWhile_append_ex list_all_iff)
    then have "rev (dropWhile isWhiteSpace (l @ s @ r)) = rev r @ rev (dropWhile isWhiteSpace s)"
      by simp
    then show ?thesis
      unfolding trim_def using r' by (simp add: dropWhile_all)
  qed
qed

lemma catalogs_differ: "TH_CONFIRMA_CRITERIA \<noteq> FRAUD_CRITERIA"
proof
  assume "TH_CONFIRMA_CRITERIA = FRAUD_CRITERIA"
  then have "map (\<lambda>b. map points (topics b)) TH_CONFIRMA_CRITERIA = map (\<lambda>b. map points (topics b)) FRAUD_CRITERIA"
    by simp
  then show False
    by (simp add: TH_CONFIRMA_CRITERIA_def FRAUD_CRITERIA_def)
qed

lemma foldl_push_filter:
  "foldl (\<lambda>acc x. if P x then acc @ [f x] else acc) acc0 xs = acc0 @ map f (filter P xs)"
  by (induction xs arbitrary: acc0) auto

subsection \<open>Normalisation on settled and tidy strings\<close>


lemma set_insertMark: "set (insertMark c s) = insert c (set s)"
  by (induction s) auto

lemma set_canonicalOrder: "set (canonicalOrder s) = set s"
  unfolding canonicalOrder_def by (induction s) (auto simp: set_insertMark)

lemma insertMark_starter: "combiningClass c = 0 \<Longrightarrow> insertMark c s = c # s"
  by (cases s) auto

lemma canonicalOrder_starters: "\<forall>c\<in>set s. combiningClass c = 0 \<Longrightarrow> canonicalOrder s = s"
  unfolding canonicalOrder_def by (induction s) (auto simp: insertMark_starter)

lemma lowerUnit_idem: "lowerUnit (lowerUnit c) = lowerUnit c"
  by (auto simp: lowerUnit_def)

lemma table_keys: "list_all (\<lambda>(k, ds). 0xC0 \<le> k) decompositionTable"
  by (simp add: decompositionTable_def)

lemma table_lower_entries:
  "list_all (\<lambda>(k, ds). lowerUnit k = k \<longrightarrow>
      list_all (\<lambda>d. isCombiningDiacritic d \<or> (0x61 \<le> d \<and> d \<le> 0x7A)) ds) decompositionTable"
  by (simp add: decompositionTable_def isCombiningDiacritic_def lowerUnit_def)

lemma decomposition_below_table: "c < 0xC0 \<Longrightarrow> decomposition c = [c]"
proof -
  assume c: "c < 0xC0"
  have "c \<notin> fst ` set decompositionTable"
    using table_keys c by (fastforce simp: list_all_iff)
  then have "map_of decompositionTable c = None" by (simp add: map_of_eq_None_iff)
  then show ?thesis by (simp add: decomposition_def)
qed

lemma ascii_lower_settled: "0x61 \<le> d \<Longrightarrow> d \<le> 0x7A \<Longrightarrow> settled d"
  by (simp add: settled_def decomposition_below_table lowerUnit_def combiningClass_def isCombiningDiacritic_def)

lemma decomposition_latin:
  assumes "c < 0x100 \<or> isCombiningDiacritic c" "d \<in> set (decomposition (lowerUnit c))"
  shows "settled d \<or> isCombiningDiacritic d"
proof (cases "map_of decompositionTable (lowerUnit c)")
  case None
  then have d: "d = lowerUnit c" using assms(2) by (simp add: decomposition_def)
  have "decomposition (lowerUnit c) = [lowerUnit c]" using None by (simp add: decomposition_def)
  moreover have "combiningClass (lowerUnit c) = 0 \<or> isCombiningDiacritic (lowerUnit c)"
    using assms(1) by (auto simp: lowerUnit_def combiningClass_def isCombiningDiacritic_def)
  ultimately show ?thesis by (auto simp: settled_def d lowerUnit_idem)
next
  case (Some ds)
  then have "(lowerUnit c, ds) \<in> set decompositionTable" by (rule map_of_SomeD)
  then have "\<forall>d\<in>set ds. isCombiningDiacritic d \<or> (0x61 \<le> d \<and> d \<le> 0x7A)"
    using table_lower_entries by (fastforce simp: list_all_iff lowerUnit_idem)
  moreover have "d \<in> set ds" using Some assms(2) by (simp add: decomposition_def)
  ultimately show ?thesis using ascii_lower_settled by blast
qed

text \<open>Strings of settled code units and what the first three steps do to them.\<close>

lemma toLowerCase_settled: "\<forall>c\<in>set s. settled c \<Longrightarrow> toLowerCase s = s"
  by (induction s) (auto simp: toLowerCase_def settled_def)

lemma decompose_settled: "\<forall>c\<in>set s. settled c \<Longrightarrow> concat (map decomposition s) = s"
  by (induction s) (auto simp: settled_def)

lemma normalizeNFD_settled: "\<forall>c\<in>set s. settled c \<Longrightarrow> normalizeNFD s = s"
  by (simp add: normalizeNFD_def decompose_settled canonicalOrder_starters settled_def)

lemma strip_settled: "\<forall>c\<in>set s. settled c \<Longrightarrow> filter (\<lambda>c. \<not> isCombiningDiacritic c) s = s"
  by (induction s) (auto simp: settled_def)

lemma stripped_settled:
  assumes "\<forall>c\<in>set s. c < 0x100 \<or> isCombiningDiacritic c"
  shows "\<forall>d\<in>set (filter (\<lambda>c. \<not> isCombiningDiacritic c) (normalizeNFD (toLowerCase s))). settled d"
proof
  fix d assume "d \<in> set (filter (\<lambda>c. \<not> isCombiningDiacritic c) (normalizeNFD (toLowerCase s)))"
  then have nd: "\<not> isCombiningDiacritic d" and "d \<in> set (concat (map decomposition (toLowerCase s)))"
    by (auto simp: normalizeNFD_def set_canonicalOrder)
  then obtain c where "c \<in> set s" "d \<in> set (decomposition (lowerUnit c))"
    by (auto simp: toLowerCase_def)
  then show "settled d" using assms decomposition_latin nd by blast
qed

text \<open>Whitespace.\<close>

lemma space_settled: "settled 0x20"
  by (simp add: settled_def decomposition_below_table lowerUnit_def combiningClass_def isCombiningDiacritic_def)

lemma set_replaceWhitespaceRuns: "set (replaceWhitespaceRuns s) \<subseteq> insert 0x20 (set s)"
proof (induction s rule: replaceWhitespaceRuns.induct)
  case 1
  then show ?case by simp
next
  case (2 c cs)
  then show ?case using set_dropWhileD[of _ isWhiteSpace cs] by (auto split: if_splits)
qed

lemma set_trim: "set (trim s) \<subseteq> set s"
  by (auto simp: trim_def dest!: set_dropWhileD)


lemma tidy_replace_id: "tidy s \<Longrightarrow> replaceWhitespaceRuns s = s"
proof (induction s rule: tidy.induct)
  case 1 then show ?case by simp
next
  case (2 c) then show ?case by auto
next
  case (3 c d s) then show ?case by auto
qed

lemma tidy_Cons_nonws: "\<not> isWhiteSpace c \<Longrightarrow> tidy (c # s) = tidy s"
  by (cases s) auto

lemma hd_dropWhile_nonws: "dropWhile isWhiteSpace s \<noteq> [] \<Longrightarrow> \<not> isWhiteSpace (hd (dropWhile isWhiteSpace s))"
  using hd_dropWhile by blast

lemma tidy_replaceWhitespaceRuns: "tidy (replaceWhitespaceRuns s)"
proof (induction s rule: replaceWhitespaceRuns.induct)
  case 1 then show ?case by simp
next
  case (2 c cs)
  show ?case
  proof (cases "isWhiteSpace c")
    case False
    with 2 show ?thesis by (simp add: tidy_Cons_nonws)
  next
    case True
    let ?r = "dropWhile isWhiteSpace cs"
    have ih: "tidy (replaceWhitespaceRuns ?r)" using 2 True by simp
    show ?thesis
    proof (cases ?r)
      case Nil
      have "replaceWhitespaceRuns ?r = []" by (simp only: Nil replaceWhitespaceRuns.simps)
      then have "replaceWhitespaceRuns (c # cs) = [0x20]"
        using True by (simp only: replaceWhitespaceRuns.simps if_True)
      then show ?thesis by (simp only: tidy.simps) simp
    next
      case (Cons e es)
      then have e: "\<not> isWhiteSpace e" using hd_dropWhile_nonws[of cs] by auto
      then have "replaceWhitespaceRuns ?r = e # replaceWhitespaceRuns es" using Cons by simp
      then show ?thesis using True ih e by simp
    qed
  qed
qed

lemma tidy_dropWhile: "tidy s \<Longrightarrow> tidy (dropWhile isWhiteSpace s)"
  by (induction s rule: tidy.induct) auto

lemma tidy_append_iff_snoc: "tidy (s @ [c]) \<Longrightarrow> tidy s"
  by (induction s rule: tidy.induct) (auto split: if_splits)

lemma tidy_butlast_ws: "tidy s \<Longrightarrow> tidy (rev (dropWhile isWhiteSpace (rev s)))"
proof (induction s rule: rev_induct)
  case Nil then show ?case by simp
next
  case (snoc x xs)
  then show ?case using tidy_append_iff_snoc by auto
qed

lemma tidy_trim: "tidy s \<Longrightarrow> tidy (trim s)"
  unfolding trim_def by (intro tidy_butlast_ws tidy_dropWhile)

lemma trim_idem: "trim (trim s) = trim s"
proof -
  let ?a = "dropWhile isWhiteSpace s"
  let ?b = "dropWhile isWhiteSpace (rev ?a)"
  have b: "?b \<noteq> [] \<Longrightarrow> \<not> isWhiteSpace (hd ?b)" using hd_dropWhile by blast
  have a: "?a \<noteq> [] \<Longrightarrow> \<not> isWhiteSpace (hd ?a)" using hd_dropWhile by blast
  show ?thesis
  proof (cases "?b = []")
    case True
    have "trim s = []" unfolding trim_def by (simp only: True rev.simps)
    then show ?thesis by (simp only: \<open>trim s = []\<close>) (simp add: trim_def)
  next
    case False
    have an: "?a \<noteq> []"
    proof
      assume "?a = []"
      then have "?b = []" by (simp only: rev.simps dropWhile.simps)
      with False show False by (simp only:)
    qed
    have "last ?b = hd ?a"
      using False an by (metis last_rev suffix_dropWhile suffix_def last_appendR)
    then have l: "\<not> isWhiteSpace (last ?b)" using a an by simp
    have 1: "dropWhile isWhiteSpace (rev ?b) = rev ?b"
      using False l by (cases "rev ?b") (auto simp: hd_rev)
    have 2: "dropWhile isWhiteSpace ?b = ?b"
      using False b by (cases ?b) auto
    show ?thesis unfolding trim_def by (simp add: 1 2)
  qed
qed

section \<open>Facts about the cache\<close>

lemma calculateFileHashes_readable:
  "\<forall>p\<in>set ps. fs p \<noteq> None \<Longrightarrow> calculateFileHashes H fs ps = Inr (map (\<lambda>p. H (the (fs p))) ps)"
  by (induction ps) (auto simp: calculateFileHash_def)

lemma calculateFileHashes_unreadable:
  "\<exists>p\<in>set ps. fs p = None \<Longrightarrow> \<exists>e. calculateFileHashes H fs ps = Inl e"
proof (induction ps)
  case Nil
  then show ?case by simp
next
  case (Cons p ps)
  show ?case
  proof (cases "fs p")
    case None
    then show ?thesis by (simp add: calculateFileHash_def)
  next
    case (Some b)
    with Cons.prems have "\<exists>q\<in>set ps. fs q = None" by auto
    then obtain e where "calculateFileHashes H fs ps = Inl e" using Cons.IH by auto
    with Some show ?thesis by (simp add: calculateFileHash_def)
  qed
qed

lemma image_mset_inj_on:
  "image_mset f A = image_mset f B \<Longrightarrow> inj_on f (set_mset A \<union> set_mset B) \<Longrightarrow> A = B"
  using image_mset_eq_image_mset_plusD[of f A B "{#}"] by auto

lemma calculateFileHashes_Inr:
  "calculateFileHashes H fs ps = Inr hs \<longleftrightarrow> (\<forall>p\<in>set ps. fs p \<noteq> None) \<and> hs = map (\<lambda>p. H (the (fs p))) ps"
proof (cases "\<forall>p\<in>set ps. fs p \<noteq> None")
  case True
  then show ?thesis by (auto simp: calculateFileHashes_readable)
next
  case False
  then obtain e where "calculateFileHashes H fs ps = Inl e"
    using calculateFileHashes_unreadable[of ps fs H] by auto
  with False show ?thesis by auto
qed

lemma generateCacheKey_Inr:
  "generateCacheKey H fs a ps = Inr k \<longleftrightarrow>
     fs a \<noteq> None \<and> (\<forall>p\<in>set ps. fs p \<noteq> None) \<and>
     k = H (H (the (fs a)) @ concat (sort (map (\<lambda>p. H (the (fs p))) ps)))"
proof (cases "fs a")
  case None
  then show ?thesis by (simp add: generateCacheKey_def calculateFileHash_def)
next
  case (Some b)
  show ?thesis
  proof (cases "calculateFileHashes H fs ps")
    case (Inl e)
    have "\<not> (\<forall>p\<in>set ps. fs p \<noteq> None)"
    proof
      assume "\<forall>p\<in>set ps. fs p \<noteq> None"
      then have "calculateFileHashes H fs ps = Inr (map (\<lambda>p. H (the (fs p))) ps)"
        by (rule calculateFileHashes_readable)
      with Inl show False by simp
    qed
    with Inl Some show ?thesis by (simp add: generateCacheKey_def calculateFileHash_def)
  next
    case (Inr hs)
    then have "(\<forall>p\<in>set ps. fs p \<noteq> None) \<and> hs = map (\<lambda>p. H (the (fs p))) ps"
      by (simp add: calculateFileHashes_Inr)
    with Inr Some show ?thesis
      by (auto simp: generateCacheKey_def calculateFileHash_def Let_def)
  qed
qed

lemma concat_blocks_inj:
  assumes "\<forall>x\<in>set xs. length x = n" "\<forall>y\<in>set ys. length y = n" "0 < n" "concat xs = concat ys"
  shows "xs = ys"
  using assms
proof (induction xs arbitrary: ys)
  case Nil
  then show ?case by (cases ys) auto
next
  case (Cons x xs)
  show ?case
  proof (cases ys)
    case Nil
    with Cons.prems show ?thesis by auto
  next
    case (Cons y ys')
    with Cons.prems have "x @ concat xs = y @ concat ys'" "length x = length y" by auto
    then have "x = y" "concat xs = concat ys'" by auto
    with Cons.IH[of ys'] Cons.prems Cons show ?thesis by auto
  qed
qed

lemma mset_eq_sort: "mset xs = mset ys \<Longrightarrow> sort xs = sort ys"
  by (rule properties_for_sort) simp_all

lemma sort_eq_mset: "sort xs = sort ys \<Longrightarrow> mset xs = mset ys"
  by (metis mset_sort)

lemma key_permutation:
  assumes "generateCacheKey H fs a ps = Inr k" "mset ps' = mset ps"
  shows "generateCacheKey H fs a ps' = Inr k"
proof -
  have s: "set ps' = set ps" using assms(2) by (rule mset_eq_setD)
  have "mset (map (\<lambda>p. H (the (fs p))) ps') = mset (map (\<lambda>p. H (the (fs p))) ps)"
    using assms(2) by simp
  then have "sort (map (\<lambda>p. H (the (fs p))) ps') = sort (map (\<lambda>p. H (the (fs p))) ps)"
    by (rule mset_eq_sort)
  with assms(1) s show ?thesis by (simp add: generateCacheKey_Inr)
qed

lemma key_sensitive:
  assumes k: "generateCacheKey H fs a ps = Inr k" and k': "generateCacheKey H fs' a' ps' = Inr k'"
    and n: "0 < n" and len: "\<forall>x. length (H x) = n"
    and inj: "inj_on H (hashedInputs H fs a ps \<union> hashedInputs H fs' a' ps')"
  shows "k = k' \<longleftrightarrow> fs a = fs' a' \<and> mset (map fs ps) = mset (map fs' ps')"
proof
  let ?hs = "map (\<lambda>p. H (the (fs p))) ps" and ?hs' = "map (\<lambda>p. H (the (fs' p))) ps'"
  let ?pre = "H (the (fs a)) @ concat (sort ?hs)" and ?pre' = "H (the (fs' a')) @ concat (sort ?hs')"
  from k have r: "fs a \<noteq> None" "\<forall>p\<in>set ps. fs p \<noteq> None" and kk: "k = H ?pre"
    by (simp_all add: generateCacheKey_Inr)
  from k' have r': "fs' a' \<noteq> None" "\<forall>p\<in>set ps'. fs' p \<noteq> None" and kk': "k' = H ?pre'"
    by (simp_all add: generateCacheKey_Inr)
  have mfs: "map fs ps = map (\<lambda>p. Some (the (fs p))) ps" using r by (intro map_cong) auto
  have mfs': "map fs' ps' = map (\<lambda>p. Some (the (fs' p))) ps'" using r' by (intro map_cong) auto
  {
    assume "k = k'"
    then have "H ?pre = H ?pre'" using kk kk' by simp
    moreover have "?pre \<in> hashedInputs H fs a ps \<union> hashedInputs H fs' a' ps'"
      "?pre' \<in> hashedInputs H fs a ps \<union> hashedInputs H fs' a' ps'"
      by (simp_all add: hashedInputs_def)
    ultimately have pre: "?pre = ?pre'" using inj by (meson inj_onD)
    have "length (H (the (fs a))) = length (H (the (fs' a')))" using len by simp
    with pre have ha: "H (the (fs a)) = H (the (fs' a'))" and c: "concat (sort ?hs) = concat (sort ?hs')"
      by auto
    have "the (fs a) \<in> hashedInputs H fs a ps \<union> hashedInputs H fs' a' ps'"
      "the (fs' a') \<in> hashedInputs H fs a ps \<union> hashedInputs H fs' a' ps'"
      by (simp_all add: hashedInputs_def)
    with ha inj have "the (fs a) = the (fs' a')" by (meson inj_onD)
    with r r' have A: "fs a = fs' a'" by (metis option.expand)
    have "sort ?hs = sort ?hs'"
      using c len n by (intro concat_blocks_inj[where n=n]) auto
    then have "mset ?hs = mset ?hs'" by (rule sort_eq_mset)
    then have "image_mset H (mset (map (\<lambda>p. the (fs p)) ps)) = image_mset H (mset (map (\<lambda>p. the (fs' p)) ps'))"
      by (simp add: multiset.map_comp comp_def)
    moreover have "inj_on H (set_mset (mset (map (\<lambda>p. the (fs p)) ps)) \<union> set_mset (mset (map (\<lambda>p. the (fs' p)) ps')))"
      using inj by (rule inj_on_subset) (auto simp: hashedInputs_def)
    ultimately have "mset (map (\<lambda>p. the (fs p)) ps) = mset (map (\<lambda>p. the (fs' p)) ps')"
      by (rule image_mset_inj_on)
    then have "image_mset Some (mset (map (\<lambda>p. the (fs p)) ps)) = image_mset Some (mset (map (\<lambda>p. the (fs' p)) ps'))"
      by simp
    then have "mset (map fs ps) = mset (map fs' ps')"
      unfolding mfs mfs' by (simp add: multiset.map_comp comp_def)
    with A show "fs a = fs' a' \<and> mset (map fs ps) = mset (map fs' ps')" by simp
  }
  {
    assume e: "fs a = fs' a' \<and> mset (map fs ps) = mset (map fs' ps')"
    then have "image_mset (\<lambda>x. H (the x)) (mset (map fs ps)) = image_mset (\<lambda>x. H (the x)) (mset (map fs' ps'))"
      by simp
    then have "mset ?hs = mset ?hs'" by (simp add: multiset.map_comp comp_def)
    then have "sort ?hs = sort ?hs'" by (rule mset_eq_sort)
    with e kk kk' show "k = k'" by simp
  }
qed

lemma parseInt_168: "parseInt (js ''168'') = Num 168"
proof -
  have d: "dropWhile isWhiteSpace (js ''168'') = js ''168''"
    by (simp add: js_def isWhiteSpace_def)
  have t: "takeWhile (isDigitOf 10) (js ''168'') = js ''168''"
    by (simp add: js_def isDigitOf_def digitValue_def)
  have v: "digitsValue 10 (js ''168'') = 168"
    by (simp add: js_def digitsValue_def digitValue_def)
  have p: "\<not> prefix [0x30, 0x78] (js ''168'')" "\<not> prefix [0x30, 0x58] (js ''168'')"
    "js ''168'' \<noteq> []" "hd (js ''168'') \<noteq> 0x2D" "hd (js ''168'') \<noteq> 0x2B"
    by (simp_all add: js_def)
  show ?thesis
    unfolding parseInt_def Let_def d using p by (simp add: t v)
qed

lemma maxAgeHours_default: "CACHE_MAX_AGE_HOURS w = None \<Longrightarrow> maxAgeHours w = Num 168"
  by (simp add: maxAgeHours_def envOr_def parseInt_168)

lemma hours_gt_168: "(168::rat) < of_int x / (1000 * 60 * 60) \<longleftrightarrow> 604800000 < x" for x :: int
proof -
  have "(168::rat) < of_int x / 3600000 \<longleftrightarrow> 168 * 3600000 < (of_int x :: rat)"
    by (simp add: pos_less_divide_eq)
  also have "\<dots> \<longleftrightarrow> (of_int 604800000 :: rat) < of_int x" by simp
  also have "\<dots> \<longleftrightarrow> 604800000 < x" by (simp only: of_int_less_iff)
  finally show ?thesis by simp
qed

lemma age_gt_168: "jsGreaterThan (ageInHours w entry) (Num 168) \<longleftrightarrow> now w - timestamp entry > 604800000"
  unfolding jsGreaterThan_def ageInHours_def jsnumber.case
  using hours_gt_168[of "now w - timestamp entry"] by (simp only: of_int_numeral)

lemma cacheGet_miss_iff:
  assumes "generateCacheKey H (files w) audio images = Inr key"
  shows "fst (cacheGet H w st audio images) = None \<longleftrightarrow>
         (case map_of (cacheIndex st) key of
            None \<Rightarrow> True
          | Some entry \<Rightarrow>
              \<not> existsSync (files w)
                  (path_join (envOr (RESULTS_DIR w) (js ''./results'')) (excelFilename entry))
              \<or> jsGreaterThan (ageInHours w entry) (maxAgeHours w))"
  using assms by (simp add: cacheGet_def Let_def split: option.splits)

lemma cacheGet_unreadable:
  assumes "generateCacheKey H (files w) audio images = Inl e"
  shows "cacheGet H w st audio images = (None, st)"
  using assms by (simp add: cacheGet_def)

lemma cacheGet_evicts:
  assumes "generateCacheKey H (files w) audio images = Inr key"
    and "map_of (cacheIndex st) key = Some entry"
    and "\<not> existsSync (files w)
                  (path_join (envOr (RESULTS_DIR w) (js ''./results'')) (excelFilename entry))
              \<or> jsGreaterThan (ageInHours w entry) (maxAgeHours w)"
  shows "map_of (cacheIndex (snd (cacheGet H w st audio images))) = (map_of (cacheIndex st))(key := None)"
  using assms by (auto simp: cacheGet_def Let_def saveCacheIndex_def delete_conv')

lemma cacheSet_entry:
  assumes "generateCacheKey H (files w) audio images = Inr key"
  shows "\<exists>entry. map_of (cacheIndex (cacheSet H w st audio images r xf ex ct)) key = Some entry \<and>
     entry_result entry = r \<and> excelFilename entry = xf \<and> timestamp entry = now w"
proof -
  from assms obtain ah hs where "calculateFileHash H (files w) audio = Inr ah"
    "calculateFileHashes H (files w) images = Inr hs"
    by (auto simp: generateCacheKey_def split: sum.splits)
  with assms show ?thesis
    by (simp add: cacheSet_def Let_def saveCacheIndex_def update_conv')
qed

lemma cacheGet_after_cacheSet:
  assumes "generateCacheKey H (files w) audio images = Inr key"
    and "generateCacheKey H (files w') audio' images' = Inr key"
    and "existsSync (files w') (path_join (envOr (RESULTS_DIR w') (js ''./results'')) xf)"
    and "\<not> jsGreaterThan (of_int (now w' - now w) / (1000 * 60 * 60)) (maxAgeHours w')"
  shows "fst (cacheGet H w' (cacheSet H w st audio images r xf ex ct) audio' images') = Some (r, xf)"
proof -
  obtain entry where e: "map_of (cacheIndex (cacheSet H w st audio images r xf ex ct)) key = Some entry"
     "entry_result entry = r" "excelFilename entry = xf" "timestamp entry = now w"
    using cacheSet_entry[OF assms(1), of st r xf ex ct] by (elim exE conjE)
  have age: "ageInHours w' entry = of_int (now w' - now w) / (1000 * 60 * 60)"
    by (simp only: ageInHours_def e(4))
  show ?thesis
    unfolding cacheGet_def Let_def assms(2) sum.case e(1) option.case e(2,3) age
    using assms(3,4) by simp

qed

lemma default_ttl:
  assumes a: "CACHE_MAX_AGE_HOURS w = None"
  shows "jsGreaterThan (ageInHours w e) (maxAgeHours w) \<longleftrightarrow>
           now w - timestamp e > 168 * (1000 * 60 * 60)"
proof -
  have "(168::int) * (1000 * 60 * 60) = 604800000" by simp
  then show ?thesis
    unfolding maxAgeHours_default[OF a] using age_gt_168[of w e] by (simp only:)
qed
section \<open>Facts about the visual evidence extractor\<close>

lemma analyzeOnce_eq:
  "analyzeOnce v i p n st =
     (case attemptResult v i p n of
        None \<Rightarrow> (False, countUsage (attemptUsage v i p n) st)
      | Some (k, it) \<Rightarrow> (True, pushEvidence k it (countUsage (attemptUsage v i p n) st)))"
  by (simp add: analyzeOnce_def attemptResult_def attemptUsage_def countUsage_def Let_def
      split: option.splits ApiResult.splits)

lemma trace_countUsage [simp]: "trace (countUsage u st) = trace st"
  by (simp add: countUsage_def split: option.splits prod.splits)

lemma evidence_countUsage [simp]: "evidence (countUsage u st) = evidence st"
  by (simp add: countUsage_def split: option.splits prod.splits)

lemma trace_pushEvidence [simp]: "trace (pushEvidence k it st) = trace st"
  by (simp add: pushEvidence_def)

lemma evidence_pushEvidence [simp]:
  "evidence (pushEvidence k it st) =
     (evidence st)(k \<mapsto> (case evidence st k of None \<Rightarrow> [] | Some xs \<Rightarrow> xs) @ [it])"
  by (simp add: pushEvidence_def)

lemma trace_logEvent [simp]: "trace (logEvent e st) = trace st @ [e]"
  by (simp add: logEvent_def)

lemma evidence_logEvent [simp]: "evidence (logEvent e st) = evidence st"
  by (simp add: logEvent_def)

lemma attemptLoop_step:
  "attempts < maxAttempts \<Longrightarrow>
   attemptLoop v i p attempts st =
     (case analyzeOnce v i p (Suc attempts) (logEvent (Attempt i (Suc attempts)) st) of
        (True, st') \<Rightarrow> logEvent (Analyzed i (Suc attempts)) st'
      | (False, st') \<Rightarrow>
          attemptLoop v i p (Suc attempts)
            (logEvent (if Suc attempts \<ge> maxAttempts then GaveUp i else Wait 1000) st'))"
  by (subst attemptLoop.simps) (simp split: prod.splits bool.splits)

lemma attemptLoop_stop: "\<not> attempts < maxAttempts \<Longrightarrow> attemptLoop v i p attempts st = st"
  by (subst attemptLoop.simps) simp

lemma attemptLoop_0:
  "attemptLoop v i p 0 st =
     (case attemptResult v i p 1 of
        Some (k, it) \<Rightarrow>
          logEvent (Analyzed i 1)
            (pushEvidence k it (countUsage (attemptUsage v i p 1) (logEvent (Attempt i 1) st)))
      | None \<Rightarrow>
          (let st1 = logEvent (Wait 1000)
                 (countUsage (attemptUsage v i p 1) (logEvent (Attempt i 1) st)) in
           case attemptResult v i p 2 of
             Some (k, it) \<Rightarrow>
               logEvent (Analyzed i 2)
                 (pushEvidence k it (countUsage (attemptUsage v i p 2) (logEvent (Attempt i 2) st1)))
           | None \<Rightarrow>
               (let st2 = logEvent (Wait 1000)
                      (countUsage (attemptUsage v i p 2) (logEvent (Attempt i 2) st1)) in
                case attemptResult v i p 3 of
                  Some (k, it) \<Rightarrow>
                    logEvent (Analyzed i 3)
                      (pushEvidence k it
                         (countUsage (attemptUsage v i p 3) (logEvent (Attempt i 3) st2)))
                | None \<Rightarrow>
                    logEvent (GaveUp i)
                      (countUsage (attemptUsage v i p 3) (logEvent (Attempt i 3) st2)))))"
proof -
  have m: "(0::nat) < maxAttempts" "Suc 0 < maxAttempts" "Suc (Suc 0) < maxAttempts"
    "\<not> Suc (Suc (Suc 0)) < maxAttempts"
    "\<not> Suc 0 \<ge> maxAttempts" "\<not> Suc (Suc 0) \<ge> maxAttempts" "Suc (Suc (Suc 0)) \<ge> maxAttempts"
    by (simp_all add: maxAttempts_def)
  show ?thesis
    unfolding attemptLoop_step[OF m(1)] attemptLoop_step[OF m(2)] attemptLoop_step[OF m(3)]
      attemptLoop_stop[OF m(4)] analyzeOnce_eq Let_def
    using m(5-7)
    by (simp add: numeral_2_eq_2 numeral_3_eq_3 split: option.splits prod.splits)
qed

lemma trace_attemptLoop: "trace (attemptLoop v i p 0 st) = trace st @ imageTrace v i p"
  unfolding attemptLoop_0 Let_def imageTrace_def imageOutcome_def
  by (simp split: option.splits prod.splits)

lemma evidence_attemptLoop:
  "evidence (attemptLoop v i p 0 st) =
     (case imageOutcome v i p of
        None \<Rightarrow> evidence st
      | Some (n, k, it) \<Rightarrow>
          (evidence st)(k \<mapsto> (case evidence st k of None \<Rightarrow> [] | Some xs \<Rightarrow> xs) @ [it]))"
  unfolding attemptLoop_0 Let_def imageOutcome_def
  by (simp split: option.splits prod.splits)

lemma fold_trace:
  "trace (foldl (\<lambda>st (i, p). attemptLoop v i p 0 st) st0 xs) =
     trace st0 @ concat (map (\<lambda>(i, p). imageTrace v i p) xs)"
  by (induction xs arbitrary: st0) (auto simp: trace_attemptLoop)

lemma groupEvidence_Cons:
  "groupEvidence ev ((k, it) # items) =
     groupEvidence (ev(k \<mapsto> (case ev k of None \<Rightarrow> [] | Some xs \<Rightarrow> xs) @ [it])) items"
  by (simp add: groupEvidence_def)

lemma fold_evidence:
  "evidence (foldl (\<lambda>st (i, p). attemptLoop v i p 0 st) st0 xs) =
     groupEvidence (evidence st0)
       (map snd (List.map_filter (\<lambda>(i, p). imageOutcome v i p) xs))"
proof (induction xs arbitrary: st0)
  case Nil
  then show ?case by (simp add: groupEvidence_def map_filter_simps)
next
  case (Cons x xs)
  obtain i p where x: "x = (i, p)" by (cases x)
  show ?case
  proof (cases "imageOutcome v i p")
    case None
    then show ?thesis by (simp add: x Cons map_filter_simps evidence_attemptLoop)
  next
    case (Some r)
    obtain n k it where r: "r = (n, k, it)" by (cases r)
    have e: "evidence (attemptLoop v i p 0 st0) =
        (evidence st0)(k \<mapsto> (case evidence st0 k of None \<Rightarrow> [] | Some xs \<Rightarrow> xs) @ [it])"
      by (simp add: evidence_attemptLoop Some r)
    have "evidence (foldl (\<lambda>st (i, p). attemptLoop v i p 0 st) st0 (x # xs)) =
        groupEvidence (evidence (attemptLoop v i p 0 st0))
          (map snd (List.map_filter (\<lambda>(i, p). imageOutcome v i p) xs))"
      by (simp add: x Cons.IH)
    also have "\<dots> = groupEvidence (evidence st0)
          ((k, it) # map snd (List.map_filter (\<lambda>(i, p). imageOutcome v i p) xs))"
      by (simp only: e groupEvidence_Cons)
    also have "(k, it) # map snd (List.map_filter (\<lambda>(i, p). imageOutcome v i p) xs) =
        map snd (List.map_filter (\<lambda>(i, p). imageOutcome v i p) (x # xs))"
      by (simp add: x map_filter_simps Some r)
    finally show ?thesis .
  qed
qed

lemma isAttemptOf_iff: "(\<exists>n. e = Attempt i n) = isAttemptOf i e"
  by (cases e) auto

lemma attempts_of_imageTrace:
  "length (filter (isAttemptOf i) (imageTrace v j p)) \<le> (if i = j then 3 else 0)"
  by (cases "imageOutcome v j p") (auto simp: imageTrace_def)

lemma sum_list_one_index:
  assumes "distinct (map fst xs)" "\<forall>x\<in>set xs. g x \<le> (if i = fst x then (3::nat) else 0)"
  shows "sum_list (map g xs) \<le> 3"
  using assms
proof (induction xs)
  case Nil
  then show ?case by simp
next
  case (Cons x xs)
  show ?case
  proof (cases "i = fst x")
    case True
    then have "\<forall>y\<in>set xs. i \<noteq> fst y" using Cons.prems(1) by auto
    then have "\<forall>y\<in>set xs. g y = 0" using Cons.prems(2) by auto
    then have s0: "sum_list (map g xs) = 0" by simp
    have gx: "g x \<le> 3" using Cons.prems(2) True by auto
    have e: "sum_list (map g (x # xs)) = g x + sum_list (map g xs)" by simp
    show ?thesis unfolding e using s0 gx by linarith
  next
    case False
    then have gx: "g x = 0" using Cons.prems(2) by auto
    have s3: "sum_list (map g xs) \<le> 3" using Cons by auto
    have e: "sum_list (map g (x # xs)) = g x + sum_list (map g xs)" by simp
    show ?thesis unfolding e using s3 gx by linarith
  qed
qed

lemma length_filter_concat:
  "length (filter P (concat xss)) = sum_list (map (\<lambda>xs. length (filter P xs)) xss)"
  by (induction xss) auto

lemma attempts_bounded:
  "length (filter (\<lambda>e. \<exists>n. e = Attempt i n)
     (concat (map (\<lambda>(j, p). imageTrace v j p) (zip [0..<length ps] ps)))) \<le> 3"
proof -
  let ?g = "\<lambda>x. length (filter (isAttemptOf i) (case x of (j, p) \<Rightarrow> imageTrace v j p))"
  have d: "distinct (map fst (zip [0..<length ps] ps))" by simp
  have b: "\<forall>x\<in>set (zip [0..<length ps] ps). ?g x \<le> (if i = fst x then 3 else 0)"
  proof
    fix x assume "x \<in> set (zip [0..<length ps] ps)"
    obtain j p where x: "x = (j, p)" by (cases x)
    show "?g x \<le> (if i = fst x then 3 else 0)"
      using attempts_of_imageTrace[of i v j p] by (simp add: x)
  qed
  have "sum_list (map ?g (zip [0..<length ps] ps)) \<le> 3"
    using d b by (rule sum_list_one_index)
  then show ?thesis
    unfolding isAttemptOf_iff length_filter_concat by (simp add: comp_def)
qed

text \<open>An attempt after the first comes right after a wait.\<close>

lemma waited_append:
  "waited s \<Longrightarrow> waited u \<Longrightarrow> u = [] \<or> \<not> laterAttempt (hd u) \<Longrightarrow> waited (s @ u)"
proof (induction s rule: waited.induct)
  case (1 a b t)
  then show ?case by simp
qed (cases u; simp)+

lemma waited_nth:
  "waited t \<Longrightarrow> Suc j < length t \<Longrightarrow> laterAttempt (t ! Suc j) \<Longrightarrow> t ! j = Wait 1000"
proof (induction t arbitrary: j rule: waited.induct)
  case (1 a b t)
  then show ?case by (cases j) auto
qed simp_all

lemma waited_imageTrace: "waited (imageTrace v i p)"
  by (simp add: imageTrace_def split: option.splits prod.splits)

lemma hd_imageTrace: "imageTrace v i p \<noteq> [] \<and> \<not> laterAttempt (hd (imageTrace v i p))"
  by (simp add: imageTrace_def split: option.splits prod.splits)

lemma waited_concat:
  "waited (concat (map (\<lambda>(i, p). imageTrace v i p) xs)) \<and>
   (concat (map (\<lambda>(i, p). imageTrace v i p) xs) = [] \<or>
    \<not> laterAttempt (hd (concat (map (\<lambda>(i, p). imageTrace v i p) xs))))"
proof (induction xs)
  case Nil
  then show ?case by simp
next
  case (Cons x xs)
  obtain i p where x: "x = (i, p)" by (cases x)
  have "waited (imageTrace v i p @ concat (map (\<lambda>(i, p). imageTrace v i p) xs))"
    using Cons by (intro waited_append waited_imageTrace) auto
  then show ?case using hd_imageTrace[of v i p] by (simp add: x)
qed

lemma attemptResult_iff:
  "attemptResult v i p n = Some (system, item) \<longleftrightarrow>
     (\<exists>b usage c parsed.
        imageFiles v p = Some b \<and> service v i n = ApiResponse usage (Some c) \<and> c \<noteq> [] \<and>
        parseContent v c = Some parsed \<and> parsed \<noteq> JNull \<and>
        truthyProp (getProp parsed (js ''system'')) \<and>
        truthyProp (getProp parsed (js ''data'')) \<and>
        propertyKey (the (getProp parsed (js ''system''))) \<notin> set objectPrototypeKeys \<and>
        system = propertyKey (the (getProp parsed (js ''system''))) \<and>
        item = evidenceItem p parsed)"
  by (auto simp: attemptResult_def validResponse_def
      split: option.splits ApiResult.splits if_splits)

lemma attemptResult_lacking:
  assumes "\<forall>usage c parsed.
             service v i n = ApiResponse usage (Some c) \<and> parseContent v c = Some parsed \<longrightarrow>
             \<not> truthyProp (getProp parsed (js ''system'')) \<or>
             \<not> truthyProp (getProp parsed (js ''data''))"
  shows "attemptResult v i p n = None"
proof (cases "attemptResult v i p n")
  case None
  then show ?thesis .
next
  case (Some r)
  obtain system item where "r = (system, item)" by (cases r)
  with Some have "attemptResult v i p n = Some (system, item)" by simp
  then show ?thesis
    unfolding attemptResult_iff using assms by blast
qed

lemma imageOutcome_attempt:
  assumes "imageOutcome v i p = Some (n, r)"
  shows "1 \<le> n \<and> n \<le> 3 \<and> attemptResult v i p n = Some r"
  using assms by (auto simp: imageOutcome_def split: option.splits)

lemma groupEvidence_source:
  assumes "groupEvidence ev items k = Some xs" and "x \<in> set xs"
  shows "(\<exists>ys. ev k = Some ys \<and> x \<in> set ys) \<or> (k, x) \<in> set items"
  using assms
proof (induction items arbitrary: ev)
  case Nil
  then show ?case by (simp add: groupEvidence_def)
next
  case (Cons a items)
  obtain k' it where a: "a = (k', it)" by (cases a)
  let ?ev = "ev(k' \<mapsto> (case ev k' of None \<Rightarrow> [] | Some xs \<Rightarrow> xs) @ [it])"
  have "groupEvidence ?ev items k = Some xs"
    using Cons.prems(1) by (simp add: a groupEvidence_Cons)
  from Cons.IH [OF this Cons.prems(2)]
  show ?case
    by (auto simp: a split: if_splits option.splits)
qed

lemma map_filter_mem:
  "y \<in> set (List.map_filter f xs) \<Longrightarrow> \<exists>x \<in> set xs. f x = Some y"
  by (induction xs) (auto simp: map_filter_simps split: option.splits)

lemma evidence_source:
  assumes "evidence (extractVisualEvidenceEnhanced v images) system = Some items"
      and "item \<in> set items"
  shows "\<exists>i n. i < length images \<and> 1 \<le> n \<and> n \<le> 3 \<and>
           attemptResult v i (images ! i) n = Some (system, item)"
proof -
  let ?xs = "zip [0..<length images] images"
  let ?items = "map snd (List.map_filter (\<lambda>(i, p). imageOutcome v i p) ?xs)"
  have "evidence (extractVisualEvidenceEnhanced v images) = groupEvidence Map.empty ?items"
    by (simp add: extractVisualEvidenceEnhanced_def fold_evidence initialState_def)
  with assms(1) have "groupEvidence Map.empty ?items system = Some items"
    by simp
  from groupEvidence_source [OF this assms(2)]
  have "(system, item) \<in> set ?items"
    by simp
  then obtain r where "r \<in> set (List.map_filter (\<lambda>(i, p). imageOutcome v i p) ?xs)"
    and r: "snd r = (system, item)"
    by auto
  then obtain x where x: "x \<in> set ?xs" "(\<lambda>(i, p). imageOutcome v i p) x = Some r"
    using map_filter_mem by fastforce
  obtain i p where xp: "x = (i, p)" by (cases x)
  obtain n where rn: "r = (n, system, item)" using r by (cases r) simp
  have ip: "(i, p) \<in> set ?xs" and o: "imageOutcome v i p = Some (n, system, item)"
    using x by (simp_all add: xp rn)
  from ip have "i < length images" "p = images ! i"
    by (auto simp: set_zip)
  with imageOutcome_attempt [OF o] show ?thesis by blast
qed

lemma imageOutcome_lacking:
  assumes "\<forall>n usage c parsed.
             1 \<le> n \<and> n \<le> 3 \<and>
             service v i n = ApiResponse usage (Some c) \<and> parseContent v c = Some parsed \<longrightarrow>
             \<not> truthyProp (getProp parsed (js ''system'')) \<or>
             \<not> truthyProp (getProp parsed (js ''data''))"
  shows "imageOutcome v i p = None"
proof -
  have "attemptResult v i p n = None" if "1 \<le> n" "n \<le> 3" for n
    by (rule attemptResult_lacking) (use assms that in blast)
  then have "attemptResult v i p 1 = None" "attemptResult v i p 2 = None"
    "attemptResult v i p 3 = None"
    by simp_all
  then show ?thesis by (simp add: imageOutcome_def)
qed

section \<open>Facts about the scoring orchestrator\<close>

lemma spec_fraud: "specMaxPossibleScore FRAUD_CRITERIA = 121"
  by (simp add: specMaxPossibleScore_def FRAUD_CRITERIA_def)

lemma spec_th: "specMaxPossibleScore TH_CONFIRMA_CRITERIA = 126"
  by (simp add: specMaxPossibleScore_def TH_CONFIRMA_CRITERIA_def)

lemma natToString_digit: "n < 10 \<Longrightarrow> natToString n = [0x30 + n]"
  by (subst natToString.simps) simp

lemma natToString_step:
  "\<not> n < 10 \<Longrightarrow> natToString n = natToString (n div 10) @ [0x30 + n mod 10]"
  by (subst natToString.simps) simp

lemma natToString_105: "natToString 105 = js ''105''"
  by (simp add: natToString_digit natToString_step js_def)

lemma monitoreo_computed_is_text:
  "computedMaxPossibleScore MONITOREO_CRITERIA = StrV (js ''105n/an/an/a'')"
proof -
  have "map t_maxScore (topicsToEvaluate MONITOREO_CRITERIA) =
      [NumV 20, NumV 8, NumV 15, NumV 7, NumV 3, NumV 7, NumV 10, NumV 5, NumV 10, NumV 5,
       NumV 10, NumV 5, StrV (js ''n/a''), StrV (js ''n/a''), StrV (js ''n/a'')]"
    by (simp add: topicsToEvaluate_def MONITOREO_CRITERIA_def pointsValue_def)
  then have "computedMaxPossibleScore MONITOREO_CRITERIA =
      foldl jsAdd (NumV 0)
        [NumV 20, NumV 8, NumV 15, NumV 7, NumV 3, NumV 7, NumV 10, NumV 5, NumV 10, NumV 5,
         NumV 10, NumV 5, StrV (js ''n/a''), StrV (js ''n/a''), StrV (js ''n/a'')]"
    by (simp add: computedMaxPossibleScore_def foldl_map[symmetric])
  also have "\<dots> = StrV (js ''105n/an/an/a'')"
    by (simp add: jsAdd_def valueToString_def intToString_def natToString_105) (simp add: js_def)
  finally show ?thesis .
qed

lemma spec_mon: "specMaxPossibleScore MONITOREO_CRITERIA = 105"
  by (simp add: specMaxPossibleScore_def MONITOREO_CRITERIA_def)

lemma foldl_jsAdd_numeric:
  "\<forall>t\<in>set ts. \<exists>n. f t = NumV n \<Longrightarrow>
   foldl (\<lambda>sum t. jsAdd sum (f t)) (NumV a) ts =
     NumV (a + sum_list (map (\<lambda>t. case f t of NumV n \<Rightarrow> n | StrV s \<Rightarrow> 0) ts))"
proof (induction ts arbitrary: a)
  case Nil
  then show ?case by simp
next
  case (Cons t ts)
  then obtain n where n: "f t = NumV n" by auto
  have "foldl (\<lambda>sum t. jsAdd sum (f t)) (NumV a) (t # ts) =
        foldl (\<lambda>sum t. jsAdd sum (f t)) (NumV (a + n)) ts"
    by (simp add: n jsAdd_def)
  also have "\<dots> = NumV (a + n + sum_list (map (\<lambda>t. case f t of NumV n \<Rightarrow> n | StrV s \<Rightarrow> 0) ts))"
    using Cons by simp
  finally show ?case by (simp add: n)
qed

lemma maxScores_topicsToEvaluate:
  "map t_maxScore (topicsToEvaluate criteria) =
     map (\<lambda>tp. pointsValue (points tp)) (filter applies (concat (map topics criteria)))"
  by (induction criteria) (simp_all add: topicsToEvaluate_def comp_def)

lemma computed_numeric:
  assumes "\<forall>b\<in>set criteria. \<forall>tp\<in>set (topics b). applies tp \<longrightarrow> points tp \<noteq> NA"
  shows "computedMaxPossibleScore criteria = NumV (specMaxPossibleScore criteria)"
proof -
  let ?tps = "filter applies (concat (map topics criteria))"
  have num: "\<forall>tp\<in>set ?tps. \<exists>n. pointsValue (points tp) = NumV n"
    using assms by (auto simp: pointsValue_def split: Points.splits)
  have "computedMaxPossibleScore criteria = foldl jsAdd (NumV 0) (map t_maxScore (topicsToEvaluate criteria))"
    by (simp add: computedMaxPossibleScore_def foldl_map)
  also have "\<dots> = foldl (\<lambda>sum tp. jsAdd sum (pointsValue (points tp))) (NumV 0) ?tps"
    by (simp add: maxScores_topicsToEvaluate foldl_map)
  also have "\<dots> = NumV (0 + sum_list (map (\<lambda>tp. case pointsValue (points tp) of NumV n \<Rightarrow> n | StrV s \<Rightarrow> 0) ?tps))"
    using num by (rule foldl_jsAdd_numeric)
  also have "(\<lambda>tp. case pointsValue (points tp) of NumV n \<Rightarrow> n | StrV s \<Rightarrow> 0) =
             (\<lambda>tp. case points tp of Pts n \<Rightarrow> n | NA \<Rightarrow> 0)"
    by (auto simp: pointsValue_def split: Points.splits)
  finally show ?thesis by (simp add: specMaxPossibleScore_def)
qed

lemma fraud_numeric: "\<forall>b\<in>set FRAUD_CRITERIA. \<forall>tp\<in>set (topics b). applies tp \<longrightarrow> points tp \<noteq> NA"
  by (simp add: FRAUD_CRITERIA_def)

lemma th_numeric: "\<forall>b\<in>set TH_CONFIRMA_CRITERIA. \<forall>tp\<in>set (topics b). applies tp \<longrightarrow> points tp \<noteq> NA"
  by (simp add: TH_CONFIRMA_CRITERIA_def)

lemma evaluate_Inr:
  assumes "evaluate v scorer auditInput transcript = Inr r"
  shows "\<exists>request tokens evaluation.
           req_topics request = topicsToEvaluate (getCriteriaForCallType (callType auditInput)) \<and>
           req_maxScore request = computedMaxPossibleScore (getCriteriaForCallType (callType auditInput)) \<and>
           scorer request = ScorerReply tokens (Some evaluation) \<and>
           totalScore r = total_score evaluation \<and>
           maxPossibleScore r = max_possible_score evaluation"
proof -
  let ?st = "extractVisualEvidenceEnhanced v (case imagePaths auditInput of None \<Rightarrow> [] | Some ps \<Rightarrow> ps)"
  let ?criteria = "getCriteriaForCallType (callType auditInput)"
  let ?request = "\<lparr>req_input = auditInput, req_visualEvidence = evidence ?st,
                      req_verbalEvidence = take 40 (extractVerbalEvidence transcript),
                      req_topics = topicsToEvaluate ?criteria,
                      req_maxScore = computedMaxPossibleScore ?criteria\<rparr>"
  show ?thesis
  proof (cases "scorer ?request")
    case ScorerError
    then have "evaluate v scorer auditInput transcript = Inl RemoteError"
      by (simp add: evaluate_def evaluateWithEnhancedMatching_def Let_def)
    with assms show ?thesis by simp
  next
    case (ScorerReply tokens content)
    show ?thesis
    proof (cases content)
      case None
      then have "evaluate v scorer auditInput transcript = Inl NoResponse"
        using ScorerReply by (simp add: evaluate_def evaluateWithEnhancedMatching_def Let_def)
      with assms show ?thesis by simp
    next
      case (Some evaluation)
      then have "totalScore r = total_score evaluation \<and> maxPossibleScore r = max_possible_score evaluation"
        using ScorerReply assms
        by (auto simp: evaluate_def evaluateWithEnhancedMatching_def Let_def)
      moreover have "scorer ?request = ScorerReply tokens (Some evaluation)"
        using ScorerReply Some by simp
      moreover have "req_topics ?request = topicsToEvaluate ?criteria"
        "req_maxScore ?request = computedMaxPossibleScore ?criteria" by simp_all
      ultimately show ?thesis by blast
    qed
  qed
qed
section \<open>Reconciliation of the scorer's labels: lemmas\<close>

subsection \<open>Association lists filled by successive updates\<close>




















subsection \<open>What the helpers return\<close>










lemma orText_nonempty: "d \<noteq> [] \<Longrightarrow> orText s d \<noteq> []"
  by (simp add: orText_def)


subsection \<open>The example reply, evaluated\<close>













section \<open>The report serializer: lemmas\<close>

subsection \<open>Cells after a step\<close>

lemma applyAll_Nil: "applyAll [] s = s"
  by (simp add: applyAll_def)

lemma applyAll_Cons: "applyAll (f # fs) s = applyAll fs (f s)"
  by (simp add: applyAll_def)

lemma applyAll_append: "applyAll (fs @ gs) s = applyAll gs (applyAll fs s)"
  by (simp add: applyAll_def)

lemma cells_setValue:
  "cells (setValue a v s) b = (if b = a then (cells s a)\<lparr>cell_value := Some v\<rparr> else cells s b)"
  by (simp add: setValue_def)

lemma cells_setFont:
  "cells (setFont a f s) b = (if b = a then (cells s a)\<lparr>cell_font := Some f\<rparr> else cells s b)"
  by (simp add: setFont_def)

lemma cells_setFill:
  "cells (setFill a c s) b = (if b = a then (cells s a)\<lparr>cell_fill := Some c\<rparr> else cells s b)"
  by (simp add: setFill_def)

lemma cells_setAlignment:
  "cells (setAlignment a al s) b =
     (if b = a then (cells s a)\<lparr>cell_alignment := Some al\<rparr> else cells s b)"
  by (simp add: setAlignment_def)

lemma cells_setBorder:
  "cells (setBorder a s) b = (if b = a then (cells s a)\<lparr>cell_border := True\<rparr> else cells s b)"
  by (simp add: setBorder_def)

lemma cells_setNote:
  "cells (setNote a n s) b = (if b = a then (cells s a)\<lparr>cell_note := Some n\<rparr> else cells s b)"
  by (simp add: setNote_def)

lemma cells_mergeCells: "cells (mergeCells a b s) = cells s"
  by (simp add: mergeCells_def)

lemma cells_setRowHeight: "cells (setRowHeight r h s) = cells s"
  by (simp add: setRowHeight_def)

lemma cells_setColWidth: "cells (setColWidth c w s) = cells s"
  by (simp add: setColWidth_def)

lemmas cells_set =
  cells_setValue cells_setFont cells_setFill cells_setAlignment cells_setBorder cells_setNote
  cells_mergeCells cells_setRowHeight cells_setColWidth

subsection \<open>Which cells a step writes\<close>



lemma touches_mono: "touches f A \<Longrightarrow> A \<subseteq> B \<Longrightarrow> touches f B"
  unfolding touches_def by blast


lemma touches_comp: "touches f A \<Longrightarrow> touches g A \<Longrightarrow> touches (\<lambda>s. g (f s)) A"
  by (simp add: touches_def)




subsection \<open>Steps that work cell by cell\<close>






subsection \<open>Loops that carry a counter\<close>









subsection \<open>The steps of the horizontal sheet\<close>












subsection \<open>The steps of the vertical sheet\<close>











subsection \<open>The cells of the horizontal sheet\<close>




subsection \<open>The cells of the vertical sheet\<close>








subsection \<open>One row, one cell\<close>

lemmas apply_simps = applyAll_Nil applyAll_Cons cells_set



lemma matrixCell_value:
  "cell_value (cells (fst (matrixCell m blk tp (s, c))) (5, c)) =
     Some (tv_value (getTopicValueWithReason m (blockName blk) (topic tp) tp))"
  by (simp add: matrixCell_def Let_def apply_simps)








lemma map_snd_enumerate: "map snd (List.enumerate n xs) = xs"
  by (induction xs arbitrary: n) simp_all










subsection \<open>The examples, evaluated\<close>








section \<open>The styles of the cells: lemmas\<close>


lemma scoreStanding_None: "scoreStanding f pts = None \<longleftrightarrow> f = None"
  by (simp add: scoreStanding_def)








lemma generateExcelReport_dateNow:
  "snd (generateExcelReport writeBuffer newDate dateNow a e) =
   snd (generateExcelReport writeBuffer newDate dateNow' a e)"
  by (simp add: generateExcelReport_def Let_def)






section \<open>C1: the denominator of the score\<close>

text \<open>
  Claim C1, as far as the code carries it. \<open>evaluateWithEnhancedMatching\<close> computes the
  sum of the points of the applicable topics of the selected catalog before any topic is
  evaluated, and writes it into the scoring request; for a catalog whose applicable topics
  all have numeric points, the FRAUD and TH CONFIRMA catalogs among them, that value is
  the sum that the specification describes. The \<open>maxPossibleScore\<close> of the result of
  \<open>evaluate\<close> is the \<open>max_possible_score\<close> field of the answer of the remote scorer, taken
  as it comes.
\<close>

theorem evaluate_maxPossibleScore_from_scorer:
  "(evaluate v scorer auditInput transcript = Inr r \<longrightarrow>
      (\<exists>request tokens evaluation.
           req_topics request = topicsToEvaluate (getCriteriaForCallType (callType auditInput)) \<and>
           req_maxScore request = computedMaxPossibleScore (getCriteriaForCallType (callType auditInput)) \<and>
           scorer request = ScorerReply tokens (Some evaluation) \<and>
           totalScore r = total_score evaluation \<and>
           maxPossibleScore r = max_possible_score evaluation))
   \<and> ((\<forall>b\<in>set criteria. \<forall>tp\<in>set (topics b). applies tp \<longrightarrow> points tp \<noteq> NA) \<longrightarrow>
        computedMaxPossibleScore criteria = NumV (specMaxPossibleScore criteria))
   \<and> computedMaxPossibleScore FRAUD_CRITERIA = NumV (specMaxPossibleScore FRAUD_CRITERIA)
   \<and> computedMaxPossibleScore TH_CONFIRMA_CRITERIA = NumV (specMaxPossibleScore TH_CONFIRMA_CRITERIA)"
  using evaluate_Inr[of v scorer auditInput transcript r] computed_numeric[of criteria]
    computed_numeric[OF fraud_numeric] computed_numeric[OF th_numeric]
  by (intro conjI impI) assumption+

theorem evaluate_maxPossibleScore_from_scorer_witness:
  "computedMaxPossibleScore (getCriteriaForCallType (js ''th confirma'')) = NumV 126"
proof -
  have c: "getCriteriaForCallType (js ''th confirma'') = TH_CONFIRMA_CRITERIA"
    by (simp add: getCriteriaForCallType_def js_def toUpperCase_def upperUnits_def trim_def
        isWhiteSpace_def)
  have "computedMaxPossibleScore TH_CONFIRMA_CRITERIA = NumV (specMaxPossibleScore TH_CONFIRMA_CRITERIA)"
    using th_numeric
      evaluate_maxPossibleScore_from_scorer
        [where criteria = TH_CONFIRMA_CRITERIA, THEN conjunct2, THEN conjunct1]
    by (rule rev_mp)
  then show ?thesis by (simp only: c spec_th)
qed

text \<open>
  The claim as stated fails: the remote scorer may answer with any denominator, and the
  result reports it. Here the catalog sums to 121 and the result reports 0.
\<close>

theorem evaluate_maxPossibleScore_counterexample:
  "map_sum id maxPossibleScore (evaluate exampleVision zeroScorer exampleInput exampleTranscript) = Inr 0 \<and>
   specMaxPossibleScore (getCriteriaForCallType (callType exampleInput)) = 121"
proof -
  have c: "getCriteriaForCallType (callType exampleInput) = FRAUD_CRITERIA"
    by (simp add: exampleInput_def getCriteriaForCallType_def js_def toUpperCase_def upperUnits_def
        trim_def isWhiteSpace_def)
  have "map_sum id maxPossibleScore (evaluate exampleVision zeroScorer exampleInput exampleTranscript) = Inr 0"
    by (simp add: evaluate_def evaluateWithEnhancedMatching_def zeroScorer_def Let_def)
  then show ?thesis by (simp add: c spec_fraud)
qed
section \<open>C2: the five strategies of the reconciliation\<close>


section \<open>C3: the report depends on the clock in one field, the styles on three facts\<close>



section \<open>C4: the cache key\<close>

text \<open>
  Claim C4. On readable files the cache key is the digest of the audio digest followed by
  the sorted image digests. It is therefore the same for every permutation of the list of
  image paths. Where the digest has no collision among the byte strings that the two
  computations hash (and digests have one fixed length, 64 for SHA-256 in hexadecimal),
  two keys are equal exactly when the audio contents are equal and the image contents are
  equal as multisets: a change of the audio, or of a byte of any file, changes the key,
  and the audio is kept apart from the images because it is hashed first.
\<close>

theorem generateCacheKey_content_addressed:
  "(fs audio = Some a \<and> map fs images = map Some bs \<longrightarrow>
      generateCacheKey H fs audio images = Inr (H (H a @ concat (sort (map H bs)))))
   \<and> (generateCacheKey H fs audio images = Inr k \<and> mset permuted = mset images \<longrightarrow>
      generateCacheKey H fs audio permuted = Inr k)
   \<and> (generateCacheKey H fs audio images = Inr k \<and>
      generateCacheKey H fs' audio' images' = Inr k' \<and>
      0 < n \<and> (\<forall>x. length (H x) = n) \<and>
      inj_on H (hashedInputs H fs audio images \<union> hashedInputs H fs' audio' images') \<longrightarrow>
      (k = k' \<longleftrightarrow> fs audio = fs' audio' \<and> mset (map fs images) = mset (map fs' images')))"
proof (intro conjI impI)
  assume h: "fs audio = Some a \<and> map fs images = map Some bs"
  then have "set (map fs images) = set (map Some bs)" by simp
  then have "fs ` set images = Some ` set bs" by simp
  then have r: "\<forall>p\<in>set images. fs p \<noteq> None" by force
  have "map the (map fs images) = map the (map Some bs)" using h by simp
  then have "map (\<lambda>p. the (fs p)) images = bs" by (simp add: comp_def)
  then have "map H (map (\<lambda>p. the (fs p)) images) = map H bs" by simp
  then have "map (\<lambda>p. H (the (fs p))) images = map H bs" by (simp add: comp_def)
  then show "generateCacheKey H fs audio images = Inr (H (H a @ concat (sort (map H bs))))"
    using h r by (simp add: generateCacheKey_Inr)
next
  assume "generateCacheKey H fs audio images = Inr k \<and> mset permuted = mset images"
  then show "generateCacheKey H fs audio permuted = Inr k"
    using key_permutation by blast
next
  assume "generateCacheKey H fs audio images = Inr k \<and>
      generateCacheKey H fs' audio' images' = Inr k' \<and>
      0 < n \<and> (\<forall>x. length (H x) = n) \<and>
      inj_on H (hashedInputs H fs audio images \<union> hashedInputs H fs' audio' images')"
  then show "k = k' \<longleftrightarrow> fs audio = fs' audio' \<and> mset (map fs images) = mset (map fs' images')"
    using key_sensitive[of H fs audio images k fs' audio' images' k' n] by blast
qed

theorem generateCacheKey_content_addressed_witness:
  "generateCacheKey toyDigest exampleFiles (js ''a.mp3'') [js ''2.png'', js ''1.png''] =
   generateCacheKey toyDigest exampleFiles (js ''a.mp3'') [js ''1.png'', js ''2.png''] \<and>
   generateCacheKey toyDigest (exampleFiles(js ''a.mp3'' \<mapsto> [7, 3])) (js ''a.mp3'') [js ''1.png'', js ''2.png''] \<noteq>
   generateCacheKey toyDigest exampleFiles (js ''a.mp3'') [js ''1.png'', js ''2.png'']"
proof -
  let ?a = "js ''a.mp3''" and ?p = "js ''1.png''" and ?q = "js ''2.png''"
  let ?fs' = "exampleFiles(?a \<mapsto> [7, 3])"
  have fa: "exampleFiles ?a = Some [7, 2]" and fp: "exampleFiles ?p = Some [3]" and fq: "exampleFiles ?q = Some [4]"
    by (simp_all add: exampleFiles_def js_def)
  have fa': "?fs' ?a = Some [7, 3]" and fp': "?fs' ?p = Some [3]" and fq': "?fs' ?q = Some [4]"
    by (simp_all add: exampleFiles_def js_def)
  obtain k where k: "generateCacheKey toyDigest exampleFiles ?a [?p, ?q] = Inr k"
    by (simp add: generateCacheKey_Inr fa fp fq)
  obtain k' where k': "generateCacheKey toyDigest ?fs' ?a [?p, ?q] = Inr k'"
    by (simp add: generateCacheKey_Inr fa' fp' fq' del: fun_upd_apply)
  have perm: "mset [?q, ?p] = mset [?p, ?q]" by simp
  have len: "\<forall>x. length (toyDigest x) = 1" by (simp add: toyDigest_def)
  have s1: "sort [toyDigest [3], toyDigest [4]] = [[4], [5]]"
    by (simp add: toyDigest_def)
  have hi: "hashedInputs toyDigest exampleFiles ?a [?p, ?q] \<union> hashedInputs toyDigest ?fs' ?a [?p, ?q]
      = {[7, 2], [3], [4], [7, 3], [2051, 4, 5], [2052, 4, 5]}"
    unfolding hashedInputs_def
    by (simp add: fa fp fq fa' fp' fq' s1 del: fun_upd_apply) (auto simp: toyDigest_def)
  have inj: "inj_on toyDigest (hashedInputs toyDigest exampleFiles ?a [?p, ?q] \<union> hashedInputs toyDigest ?fs' ?a [?p, ?q])"
    unfolding hi by (simp add: toyDigest_def)
  have ne: "exampleFiles ?a \<noteq> ?fs' ?a" by (simp add: fa fa' del: fun_upd_apply)
  from generateCacheKey_content_addressed
    [of exampleFiles ?a _ "[?p, ?q]" _ toyDigest k "[?q, ?p]" ?fs' ?a "[?p, ?q]" k' 1]
  have "generateCacheKey toyDigest exampleFiles ?a [?q, ?p] = Inr k" and "k \<noteq> k'"
    using k k' perm len inj ne by blast+
  then show ?thesis using k k' by simp
qed

section \<open>C5: cache lookup\<close>

text \<open>
  Claim C5. When the key of the media can be computed, \<open>get\<close> misses exactly when the
  index has no entry for the key, or the Excel file of the entry no longer exists in the
  results directory, or the age of the entry in hours exceeds the maximal age; in the last
  two cases the entry is removed from the index and every other entry is kept. With
  \<open>CACHE_MAX_AGE_HOURS\<close> unset the maximal age is 168 hours. After a \<open>set\<close>, a \<open>get\<close> for
  the same media returns the stored result and file name, provided the Excel file exists
  and the maximal age has not been exceeded.
\<close>

theorem cacheGet_miss_evict_roundtrip:
  "(generateCacheKey H (files w) audio images = Inr key \<longrightarrow>
      (fst (cacheGet H w st audio images) = None \<longleftrightarrow>
         (case map_of (cacheIndex st) key of
            None \<Rightarrow> True
          | Some entry \<Rightarrow>
              \<not> existsSync (files w)
                  (path_join (envOr (RESULTS_DIR w) (js ''./results'')) (excelFilename entry))
              \<or> jsGreaterThan (ageInHours w entry) (maxAgeHours w))))
   \<and> (generateCacheKey H (files w) audio images = Inr key \<and>
      map_of (cacheIndex st) key = Some stale \<and>
      (\<not> existsSync (files w)
            (path_join (envOr (RESULTS_DIR w) (js ''./results'')) (excelFilename stale))
        \<or> jsGreaterThan (ageInHours w stale) (maxAgeHours w)) \<longrightarrow>
      map_of (cacheIndex (snd (cacheGet H w st audio images))) =
        (map_of (cacheIndex st))(key := None))
   \<and> (CACHE_MAX_AGE_HOURS w = None \<longrightarrow>
        maxAgeHours w = Num 168 \<and>
        (jsGreaterThan (ageInHours w e) (maxAgeHours w) \<longleftrightarrow>
           now w - timestamp e > 168 * (1000 * 60 * 60)))
   \<and> (generateCacheKey H (files w) audio images = Inr key \<and>
      generateCacheKey H (files w') audio' images' = Inr key \<and>
      existsSync (files w') (path_join (envOr (RESULTS_DIR w') (js ''./results'')) xf) \<and>
      \<not> jsGreaterThan (of_int (now w' - now w) / (1000 * 60 * 60)) (maxAgeHours w') \<longrightarrow>
      fst (cacheGet H w' (cacheSet H w st audio images r xf ex ct) audio' images')
        = Some (r, xf))"
proof (intro conjI impI)
  assume "generateCacheKey H (files w) audio images = Inr key"
  then show "fst (cacheGet H w st audio images) = None \<longleftrightarrow>
         (case map_of (cacheIndex st) key of
            None \<Rightarrow> True
          | Some entry \<Rightarrow>
              \<not> existsSync (files w)
                  (path_join (envOr (RESULTS_DIR w) (js ''./results'')) (excelFilename entry))
              \<or> jsGreaterThan (ageInHours w entry) (maxAgeHours w))"
    by (rule cacheGet_miss_iff)
next
  assume "generateCacheKey H (files w) audio images = Inr key \<and>
      map_of (cacheIndex st) key = Some stale \<and>
      (\<not> existsSync (files w)
            (path_join (envOr (RESULTS_DIR w) (js ''./results'')) (excelFilename stale))
        \<or> jsGreaterThan (ageInHours w stale) (maxAgeHours w))"
  then show "map_of (cacheIndex (snd (cacheGet H w st audio images))) =
        (map_of (cacheIndex st))(key := None)"
    by (elim conjE) (rule cacheGet_evicts; assumption)
next
  assume a: "CACHE_MAX_AGE_HOURS w = None"
  then show "maxAgeHours w = Num 168" by (rule maxAgeHours_default)
  show "jsGreaterThan (ageInHours w e) (maxAgeHours w) \<longleftrightarrow>
           now w - timestamp e > 168 * (1000 * 60 * 60)"
    using a by (rule default_ttl)
next
  assume "generateCacheKey H (files w) audio images = Inr key \<and>
      generateCacheKey H (files w') audio' images' = Inr key \<and>
      existsSync (files w') (path_join (envOr (RESULTS_DIR w') (js ''./results'')) xf) \<and>
      \<not> jsGreaterThan (of_int (now w' - now w) / (1000 * 60 * 60)) (maxAgeHours w')"
  then show "fst (cacheGet H w' (cacheSet H w st audio images r xf ex ct) audio' images')
        = Some (r, xf)"
    by (elim conjE) (rule cacheGet_after_cacheSet; assumption)
qed

theorem cacheGet_miss_evict_roundtrip_witness:
  "fst (cacheGet toyDigest (exampleWorld\<lparr>now := 5000\<rparr>)
         (cacheSet toyDigest exampleWorld \<lparr>cacheIndex = [], indexFile = None\<rparr>
            (js ''a.mp3'') [js ''1.png'', js ''2.png''] (42::nat) (js ''r.xlsx'') (js ''E1'') (js ''INBOUND''))
         (js ''a.mp3'') [js ''2.png'', js ''1.png''])
     = Some (42, js ''r.xlsx'') \<and>
   fst (cacheGet toyDigest (exampleWorld\<lparr>files := exampleFiles\<rparr>)
         (cacheSet toyDigest exampleWorld \<lparr>cacheIndex = [], indexFile = None\<rparr>
            (js ''a.mp3'') [js ''1.png'', js ''2.png''] (42::nat) (js ''r.xlsx'') (js ''E1'') (js ''INBOUND''))
         (js ''a.mp3'') [js ''1.png'', js ''2.png''])
     = None"
proof -
  let ?a = "js ''a.mp3''" and ?p = "js ''1.png''" and ?q = "js ''2.png''"
  let ?st = "cacheSet toyDigest exampleWorld \<lparr>cacheIndex = [], indexFile = None\<rparr>
            ?a [?p, ?q] (42::nat) (js ''r.xlsx'') (js ''E1'') (js ''INBOUND'')"
  let ?w1 = "exampleWorld\<lparr>now := 5000\<rparr>" and ?w2 = "exampleWorld\<lparr>files := exampleFiles\<rparr>"
  have fa: "exampleFiles ?a = Some [7, 2]" and fp: "exampleFiles ?p = Some [3]" and fq: "exampleFiles ?q = Some [4]"
    by (simp_all add: exampleFiles_def js_def)
  have wa: "files exampleWorld ?a = Some [7, 2]" and wp: "files exampleWorld ?p = Some [3]"
    and wq: "files exampleWorld ?q = Some [4]"
    by (simp_all add: exampleWorld_def exampleFiles_def js_def)
  obtain k where k: "generateCacheKey toyDigest (files exampleWorld) ?a [?p, ?q] = Inr k"
    by (simp add: generateCacheKey_Inr wa wp wq)
  have k1: "generateCacheKey toyDigest (files ?w1) ?a [?q, ?p] = Inr k"
    using key_permutation[OF k, of "[?q, ?p]"] by simp
  have k2: "generateCacheKey toyDigest (files ?w2) ?a [?p, ?q] = Inr k"
    using k by (simp add: generateCacheKey_Inr wa wp wq fa fp fq)
  have x1: "existsSync (files ?w1) (path_join (envOr (RESULTS_DIR ?w1) (js ''./results'')) (js ''r.xlsx''))"
    by (simp add: existsSync_def exampleWorld_def envOr_def path_join_def js_def)
  have x2: "\<not> existsSync (files ?w2) (path_join (envOr (RESULTS_DIR ?w2) (js ''./results'')) (js ''r.xlsx''))"
    by (simp add: existsSync_def exampleWorld_def envOr_def path_join_def exampleFiles_def js_def)
  have m: "maxAgeHours ?w1 = Num 168"
    by (rule maxAgeHours_default) (simp add: exampleWorld_def)
  have fresh: "\<not> jsGreaterThan (of_int (now ?w1 - now exampleWorld) / (1000 * 60 * 60)) (maxAgeHours ?w1)"
    unfolding m by (simp add: exampleWorld_def jsGreaterThan_def)
  obtain entry where e: "map_of (cacheIndex ?st) k = Some entry" "excelFilename entry = js ''r.xlsx''"
    using cacheSet_entry[OF k, of "\<lparr>cacheIndex = [], indexFile = None\<rparr>" 42 "js ''r.xlsx''" "js ''E1''" "js ''INBOUND''"]
    by (elim exE conjE)
  note T4 = cacheGet_miss_evict_roundtrip[THEN conjunct2, THEN conjunct2, THEN conjunct2, rule_format]
  note T1 = cacheGet_miss_evict_roundtrip[THEN conjunct1, rule_format]
  have hit: "fst (cacheGet toyDigest ?w1 ?st ?a [?q, ?p]) = Some (42, js ''r.xlsx'')"
    by (rule T4[where key=k]) (intro conjI, rule k, rule k1, rule x1, rule fresh)
  have miss: "fst (cacheGet toyDigest ?w2 ?st ?a [?p, ?q]) = None"
    unfolding T1[OF k2] using x2 e by simp
  show ?thesis using hit miss by simp
qed

section \<open>C6: retries and skipping in the visual evidence extractor\<close>

text \<open>
  Claim C6. The extractor handles the images one after the other and never aborts. The
  events of an image are: a first attempt; after each failed attempt but the third, a wait
  of one second and a further attempt; after a failed third attempt, giving up. So there
  are at most three attempts per image, and every attempt after the first follows a wait.
  The evidence holds one record for each image that has a successful attempt among its
  three, grouped under the system tag of the answer, and none for the images given up.
  Attempt \<open>m\<close> at image \<open>k\<close> succeeds exactly when the file is read, the service answers
  with a content that is not empty and that parses, and the parsed answer has a truthy
  \<open>system\<close> and a truthy \<open>data\<close> (and can be stored under its tag). Hence every record
  found in the evidence under a tag comes from one of the three attempts at one of the
  images, whose parsed answer has both \<open>system\<close> and \<open>data\<close>, the tag being that \<open>system\<close>;
  and an image for which the parsed answer of each of the three attempts lacks \<open>system\<close>
  or \<open>data\<close> has no outcome: it is attempted three times and given up.
\<close>

theorem extractVisualEvidenceEnhanced_retry_skip:
  "trace (extractVisualEvidenceEnhanced v images) =
     concat (map (\<lambda>(i, p). imageTrace v i p) (zip [0..<length images] images))
   \<and> evidence (extractVisualEvidenceEnhanced v images) =
     groupEvidence Map.empty
       (map snd (List.map_filter (\<lambda>(i, p). imageOutcome v i p)
          (zip [0..<length images] images)))
   \<and> length (filter (\<lambda>e. \<exists>n. e = Attempt i n)
         (trace (extractVisualEvidenceEnhanced v images))) \<le> 3
   \<and> (Suc j < length (trace (extractVisualEvidenceEnhanced v images)) \<and>
        trace (extractVisualEvidenceEnhanced v images) ! Suc j = Attempt i' (Suc (Suc n)) \<longrightarrow>
        trace (extractVisualEvidenceEnhanced v images) ! j = Wait 1000)
   \<and> (attemptResult v k p m = Some (system, item) \<longleftrightarrow>
        (\<exists>b usage c parsed.
           imageFiles v p = Some b \<and> service v k m = ApiResponse usage (Some c) \<and> c \<noteq> [] \<and>
           parseContent v c = Some parsed \<and> parsed \<noteq> JNull \<and>
           truthyProp (getProp parsed (js ''system'')) \<and>
           truthyProp (getProp parsed (js ''data'')) \<and>
           propertyKey (the (getProp parsed (js ''system''))) \<notin> set objectPrototypeKeys \<and>
           system = propertyKey (the (getProp parsed (js ''system''))) \<and>
           item = evidenceItem p parsed))
   \<and> (evidence (extractVisualEvidenceEnhanced v images) tag = Some items \<and>
        record \<in> set items \<longrightarrow>
        (\<exists>i n b usage c parsed.
           i < length images \<and> 1 \<le> n \<and> n \<le> 3 \<and>
           imageFiles v (images ! i) = Some b \<and>
           service v i n = ApiResponse usage (Some c) \<and> c \<noteq> [] \<and>
           parseContent v c = Some parsed \<and>
           truthyProp (getProp parsed (js ''system'')) \<and>
           truthyProp (getProp parsed (js ''data'')) \<and>
           tag = propertyKey (the (getProp parsed (js ''system''))) \<and>
           record = evidenceItem (images ! i) parsed))
   \<and> ((\<forall>n usage c parsed.
          1 \<le> n \<and> n \<le> 3 \<and>
          service v i0 n = ApiResponse usage (Some c) \<and> parseContent v c = Some parsed \<longrightarrow>
          \<not> truthyProp (getProp parsed (js ''system'')) \<or>
          \<not> truthyProp (getProp parsed (js ''data''))) \<longrightarrow>
        imageOutcome v i0 p0 = None \<and>
        imageTrace v i0 p0 =
          [Attempt i0 1, Wait 1000, Attempt i0 2, Wait 1000, Attempt i0 3, GaveUp i0])"
proof -
  let ?xs = "zip [0..<length images] images"
  have t: "trace (extractVisualEvidenceEnhanced v images) =
     concat (map (\<lambda>(i, p). imageTrace v i p) ?xs)"
    by (simp add: extractVisualEvidenceEnhanced_def fold_trace initialState_def)
  have e: "evidence (extractVisualEvidenceEnhanced v images) =
     groupEvidence Map.empty (map snd (List.map_filter (\<lambda>(i, p). imageOutcome v i p) ?xs))"
    by (simp add: extractVisualEvidenceEnhanced_def fold_evidence initialState_def)
  have a: "length (filter (\<lambda>e. \<exists>n. e = Attempt i n)
         (trace (extractVisualEvidenceEnhanced v images))) \<le> 3"
    unfolding t by (rule attempts_bounded)
  have w: "Suc j < length (trace (extractVisualEvidenceEnhanced v images)) \<and>
        trace (extractVisualEvidenceEnhanced v images) ! Suc j = Attempt i' (Suc (Suc n)) \<longrightarrow>
        trace (extractVisualEvidenceEnhanced v images) ! j = Wait 1000"
  proof
    assume h: "Suc j < length (trace (extractVisualEvidenceEnhanced v images)) \<and>
        trace (extractVisualEvidenceEnhanced v images) ! Suc j = Attempt i' (Suc (Suc n))"
    have "waited (trace (extractVisualEvidenceEnhanced v images))"
      unfolding t using waited_concat by blast
    moreover have "laterAttempt (trace (extractVisualEvidenceEnhanced v images) ! Suc j)"
      using h by simp
    ultimately show "trace (extractVisualEvidenceEnhanced v images) ! j = Wait 1000"
      using h by (intro waited_nth) auto
  qed
  have r: "attemptResult v k p m = Some (system, item) \<longleftrightarrow>
        (\<exists>b usage c parsed.
           imageFiles v p = Some b \<and> service v k m = ApiResponse usage (Some c) \<and> c \<noteq> [] \<and>
           parseContent v c = Some parsed \<and> parsed \<noteq> JNull \<and>
           truthyProp (getProp parsed (js ''system'')) \<and>
           truthyProp (getProp parsed (js ''data'')) \<and>
           propertyKey (the (getProp parsed (js ''system''))) \<notin> set objectPrototypeKeys \<and>
           system = propertyKey (the (getProp parsed (js ''system''))) \<and>
           item = evidenceItem p parsed)"
    by (rule attemptResult_iff)
  have s: "evidence (extractVisualEvidenceEnhanced v images) tag = Some items \<and>
        record \<in> set items \<longrightarrow>
        (\<exists>i n b usage c parsed.
           i < length images \<and> 1 \<le> n \<and> n \<le> 3 \<and>
           imageFiles v (images ! i) = Some b \<and>
           service v i n = ApiResponse usage (Some c) \<and> c \<noteq> [] \<and>
           parseContent v c = Some parsed \<and>
           truthyProp (getProp parsed (js ''system'')) \<and>
           truthyProp (getProp parsed (js ''data'')) \<and>
           tag = propertyKey (the (getProp parsed (js ''system''))) \<and>
           record = evidenceItem (images ! i) parsed)"
  proof
    assume h: "evidence (extractVisualEvidenceEnhanced v images) tag = Some items \<and>
        record \<in> set items"
    then obtain i n where i: "i < length images" "1 \<le> n" "n \<le> 3"
      and ar: "attemptResult v i (images ! i) n = Some (tag, record)"
      using evidence_source by blast
    from ar obtain b usage c parsed where
      "imageFiles v (images ! i) = Some b" "service v i n = ApiResponse usage (Some c)" "c \<noteq> []"
      "parseContent v c = Some parsed"
      "truthyProp (getProp parsed (js ''system''))" "truthyProp (getProp parsed (js ''data''))"
      "tag = propertyKey (the (getProp parsed (js ''system'')))"
      "record = evidenceItem (images ! i) parsed"
      unfolding attemptResult_iff by blast
    with i show "\<exists>i n b usage c parsed.
           i < length images \<and> 1 \<le> n \<and> n \<le> 3 \<and>
           imageFiles v (images ! i) = Some b \<and>
           service v i n = ApiResponse usage (Some c) \<and> c \<noteq> [] \<and>
           parseContent v c = Some parsed \<and>
           truthyProp (getProp parsed (js ''system'')) \<and>
           truthyProp (getProp parsed (js ''data'')) \<and>
           tag = propertyKey (the (getProp parsed (js ''system''))) \<and>
           record = evidenceItem (images ! i) parsed"
      by blast
  qed
  have g: "(\<forall>n usage c parsed.
          1 \<le> n \<and> n \<le> 3 \<and>
          service v i0 n = ApiResponse usage (Some c) \<and> parseContent v c = Some parsed \<longrightarrow>
          \<not> truthyProp (getProp parsed (js ''system'')) \<or>
          \<not> truthyProp (getProp parsed (js ''data''))) \<longrightarrow>
        imageOutcome v i0 p0 = None \<and>
        imageTrace v i0 p0 =
          [Attempt i0 1, Wait 1000, Attempt i0 2, Wait 1000, Attempt i0 3, GaveUp i0]"
  proof
    assume "\<forall>n usage c parsed.
          1 \<le> n \<and> n \<le> 3 \<and>
          service v i0 n = ApiResponse usage (Some c) \<and> parseContent v c = Some parsed \<longrightarrow>
          \<not> truthyProp (getProp parsed (js ''system'')) \<or>
          \<not> truthyProp (getProp parsed (js ''data''))"
    then have "imageOutcome v i0 p0 = None"
      by (rule imageOutcome_lacking)
    then show "imageOutcome v i0 p0 = None \<and>
        imageTrace v i0 p0 =
          [Attempt i0 1, Wait 1000, Attempt i0 2, Wait 1000, Attempt i0 3, GaveUp i0]"
      by (simp add: imageTrace_def)
  qed
  show ?thesis using t e a w r s g by (intro conjI)
qed

theorem extractVisualEvidenceEnhanced_retry_skip_witness:
  "trace (extractVisualEvidenceEnhanced exampleVision [js ''0.png'', js ''1.png'', js ''2.png'']) =
     [Attempt 0 1, Analyzed 0 1,
      Attempt 1 1, Wait 1000, Attempt 1 2, Wait 1000, Attempt 1 3, GaveUp 1,
      Attempt 2 1, Wait 1000, Attempt 2 2, Analyzed 2 2] \<and>
   evidence (extractVisualEvidenceEnhanced exampleVision [js ''0.png'', js ''1.png'', js ''2.png''])
     (js ''FALCON'') =
     Some [\<lparr>imagePath = js ''0.png'', data = JObject [(js ''case_number'', JNumber 7)],
            findings = JArray [], confidence = DefaultConfidence, critical_fields = JObject []\<rparr>,
           \<lparr>imagePath = js ''2.png'', data = JObject [(js ''case_number'', JNumber 7)],
            findings = JArray [], confidence = DefaultConfidence, critical_fields = JObject []\<rparr>]"
proof -
  let ?ok = "JObject [(js ''system'', JString (js ''FALCON'')),
                      (js ''data'', JObject [(js ''case_number'', JNumber 7)])]"
  let ?item = "\<lambda>p. \<lparr>imagePath = p, data = JObject [(js ''case_number'', JNumber 7)],
            findings = JArray [], confidence = DefaultConfidence, critical_fields = JObject []\<rparr>"
  have g: "getProp ?ok (js ''system'') = Some (JString (js ''FALCON''))"
    "getProp ?ok (js ''data'') = Some (JObject [(js ''case_number'', JNumber 7)])"
    "getProp ?ok (js ''findings'') = None" "getProp ?ok (js ''confidence'') = None"
    "getProp ?ok (js ''critical_fields'') = None"
    by (simp_all add: js_def)
  have k: "js ''FALCON'' \<notin> set objectPrototypeKeys"
    by (simp add: objectPrototypeKeys_def js_def)
  have valid: "validResponse ?ok"
    unfolding validResponse_def g by (simp add: truthyProp_def k) (simp add: js_def)
  have item: "evidenceItem p ?ok = ?item p" for p
    unfolding evidenceItem_def g by (simp add: orDefault_def truthyProp_def)
  have f: "imageFiles exampleVision (js ''0.png'') = Some [1]"
    "imageFiles exampleVision (js ''1.png'') = Some [2]"
    "imageFiles exampleVision (js ''2.png'') = Some [3]"
    by (simp_all add: exampleVision_def js_def)
  have pc: "parseContent exampleVision (js ''ok'') = Some ?ok"
    "parseContent exampleVision (js ''garbage'') = None"
    by (simp_all add: exampleVision_def) (simp add: js_def)
  have s: "service exampleVision 0 n = ApiResponse (Some (10, 5)) (Some (js ''ok''))"
    "service exampleVision 1 n = ApiResponse (Some (10, 5)) (Some (js ''garbage''))"
    "service exampleVision 2 1 = ApiError"
    "service exampleVision 2 2 = ApiResponse None (Some (js ''ok''))" for n
    by (simp_all add: exampleVision_def)
  have ne: "js ''ok'' \<noteq> []" "js ''garbage'' \<noteq> []" by (simp_all add: js_def)
  have r0: "attemptResult exampleVision 0 (js ''0.png'') 1 = Some (js ''FALCON'', ?item (js ''0.png''))"
    unfolding attemptResult_def f s by (simp add: ne pc valid item g)
  have r1: "attemptResult exampleVision 1 (js ''1.png'') n = None" for n
    unfolding attemptResult_def f s by (simp add: ne pc)
  have r21: "attemptResult exampleVision 2 (js ''2.png'') 1 = None"
    unfolding attemptResult_def f s by simp
  have r22: "attemptResult exampleVision 2 (js ''2.png'') 2 = Some (js ''FALCON'', ?item (js ''2.png''))"
    unfolding attemptResult_def f s by (simp add: ne pc valid item g)
  have o0: "imageOutcome exampleVision 0 (js ''0.png'') = Some (1, js ''FALCON'', ?item (js ''0.png''))"
    unfolding imageOutcome_def r0 by simp
  have o1: "imageOutcome exampleVision 1 (js ''1.png'') = None"
    unfolding imageOutcome_def r1 by simp
  have o2: "imageOutcome exampleVision 2 (js ''2.png'') = Some (2, js ''FALCON'', ?item (js ''2.png''))"
    unfolding imageOutcome_def r21 r22 by simp
  have z: "zip [0..<length [js ''0.png'', js ''1.png'', js ''2.png'']] [js ''0.png'', js ''1.png'', js ''2.png'']
      = [(0, js ''0.png''), (1, js ''1.png''), (2, js ''2.png'')]"
    by (simp add: upt_rec)
  note T = extractVisualEvidenceEnhanced_retry_skip
    [of exampleVision "[js ''0.png'', js ''1.png'', js ''2.png'']"]
  have t: "trace (extractVisualEvidenceEnhanced exampleVision [js ''0.png'', js ''1.png'', js ''2.png'']) =
     [Attempt 0 1, Analyzed 0 1,
      Attempt 1 1, Wait 1000, Attempt 1 2, Wait 1000, Attempt 1 3, GaveUp 1,
      Attempt 2 1, Wait 1000, Attempt 2 2, Analyzed 2 2]"
    unfolding T[THEN conjunct1] z
    by (simp add: imageTrace_def o0[unfolded One_nat_def] o1[unfolded One_nat_def] o2[unfolded One_nat_def])
  have e: "evidence (extractVisualEvidenceEnhanced exampleVision [js ''0.png'', js ''1.png'', js ''2.png''])
     (js ''FALCON'') = Some [?item (js ''0.png''), ?item (js ''2.png'')]"
    unfolding T[THEN conjunct2, THEN conjunct1] z
    by (simp add: map_filter_simps o0[unfolded One_nat_def] o1[unfolded One_nat_def]
        o2[unfolded One_nat_def] groupEvidence_def)
  show ?thesis using t e by (intro conjI)
qed
section \<open>C7: topics, points and justifications in the two layouts\<close>





section \<open>C8: selection of the catalog\<close>

text \<open>
  Claim C8, as far as the code carries it. \<open>getCriteriaForCallType\<close> is a total function
  of its argument with no failing branch: every string, the empty one included, gets one
  of the three catalogs. The catalog is decided by the first keyword of MONITOREO, FRAUDE,
  TH CONFIRMA or TH_CONFIRMA that occurs as a contiguous substring of the upper-cased
  input, and is the FRAUD catalog when none occurs. The result depends on the input only
  through its upper-cased form (case-insensitive), and whitespace before and after the
  input is ignored. Whitespace inside the input is significant.
\<close>

theorem getCriteriaForCallType_total_priority:
  "getCriteriaForCallType s =
     (if sublist (js ''MONITOREO'') (toUpperCase s) then MONITOREO_CRITERIA
      else if sublist (js ''FRAUDE'') (toUpperCase s) then FRAUD_CRITERIA
      else if sublist (js ''TH CONFIRMA'') (toUpperCase s) \<or>
              sublist (js ''TH_CONFIRMA'') (toUpperCase s) then TH_CONFIRMA_CRITERIA
      else FRAUD_CRITERIA)
   \<and> (toUpperCase s = toUpperCase s' \<longrightarrow> getCriteriaForCallType s = getCriteriaForCallType s')
   \<and> (list_all isWhiteSpace l \<and> list_all isWhiteSpace r \<longrightarrow>
        getCriteriaForCallType (l @ s @ r) = getCriteriaForCallType s)"
proof (intro conjI impI)
  show "getCriteriaForCallType s =
     (if sublist (js ''MONITOREO'') (toUpperCase s) then MONITOREO_CRITERIA
      else if sublist (js ''FRAUDE'') (toUpperCase s) then FRAUD_CRITERIA
      else if sublist (js ''TH CONFIRMA'') (toUpperCase s) \<or>
              sublist (js ''TH_CONFIRMA'') (toUpperCase s) then TH_CONFIRMA_CRITERIA
      else FRAUD_CRITERIA)"
    by (rule getCriteriaForCallType_sublist)
next
  assume "toUpperCase s = toUpperCase s'"
  then show "getCriteriaForCallType s = getCriteriaForCallType s'"
    by (simp add: getCriteriaForCallType_def)
next
  assume a: "list_all isWhiteSpace l \<and> list_all isWhiteSpace r"
  then have "toUpperCase (l @ s @ r) = l @ toUpperCase s @ r"
    by (simp add: toUpperCase_append toUpperCase_whitespace)
  then show "getCriteriaForCallType (l @ s @ r) = getCriteriaForCallType s"
    using a by (simp add: getCriteriaForCallType_def trim_surrounding)
qed

theorem getCriteriaForCallType_total_priority_witness:
  "toUpperCase (js ''th_confirma'') = toUpperCase (js ''TH_Confirma'') \<and>
   list_all isWhiteSpace (js '' '') \<and> list_all isWhiteSpace [0x9] \<and>
   getCriteriaForCallType (js ''th_confirma'') = getCriteriaForCallType (js ''TH_Confirma'') \<and>
   getCriteriaForCallType (js '' '' @ js ''th_confirma'' @ [0x9]) =
     getCriteriaForCallType (js ''th_confirma'')"
proof -
  have u: "toUpperCase (js ''th_confirma'') = toUpperCase (js ''TH_Confirma'')"
    by (simp add: js_def toUpperCase_def upperUnits_def)
  have w: "list_all isWhiteSpace (js '' '') \<and> list_all isWhiteSpace [0x9]"
    by (simp add: js_def isWhiteSpace_def)
  show ?thesis
    using u w
      getCriteriaForCallType_total_priority
        [of "js ''th_confirma''" "js ''TH_Confirma''" "js '' ''" "[0x9]"]
    by blast
qed

text \<open>
  The claim as stated, with matching insensitive to whitespace, fails: two inputs that
  differ only in the length of a run of blanks get different catalogs.
\<close>

theorem getCriteriaForCallType_whitespace_counterexample:
  "replaceWhitespaceRuns (js ''TH  CONFIRMA'') = js ''TH CONFIRMA'' \<and>
   getCriteriaForCallType (js ''TH CONFIRMA'') = TH_CONFIRMA_CRITERIA \<and>
   getCriteriaForCallType (js ''TH  CONFIRMA'') = FRAUD_CRITERIA \<and>
   getCriteriaForCallType (js ''TH  CONFIRMA'') \<noteq> getCriteriaForCallType (js ''TH CONFIRMA'')"
proof -
  have 1: "replaceWhitespaceRuns (js ''TH  CONFIRMA'') = js ''TH CONFIRMA''"
    by (simp add: js_def isWhiteSpace_def)
  have 2: "getCriteriaForCallType (js ''TH CONFIRMA'') = TH_CONFIRMA_CRITERIA"
    by (simp add: getCriteriaForCallType_def js_def toUpperCase_def upperUnits_def trim_def
        isWhiteSpace_def)
  have 3: "getCriteriaForCallType (js ''TH  CONFIRMA'') = FRAUD_CRITERIA"
    by (simp add: getCriteriaForCallType_def js_def toUpperCase_def upperUnits_def trim_def
        isWhiteSpace_def)
  show ?thesis
    using catalogs_differ by (simp only: 1 2 3) simp
qed

section \<open>C9: the verbal evidence extractor\<close>

text \<open>
  Claim C9. \<open>extractVerbalEvidence\<close> is a function of the transcript alone. It keeps an
  utterance exactly when the lower-cased text contains one of the fixed keywords and the
  text is longer than 15 code units; the lines it returns are the formatted retained
  utterances, in the order of the transcript, and the retained utterances are a
  subsequence of the transcript.
\<close>

theorem extractVerbalEvidence_filter:
  "extractVerbalEvidence t =
     map evidenceLine
       (filter (\<lambda>u. (\<exists>kw \<in> set evidenceKeywords. includesStr (toLowerCase (utt_text u)) kw)
                     \<and> 15 < length (utt_text u)) (utterances t))
   \<and> subseq (filter (\<lambda>u. (\<exists>kw \<in> set evidenceKeywords. includesStr (toLowerCase (utt_text u)) kw)
                     \<and> 15 < length (utt_text u)) (utterances t)) (utterances t)"
proof -
  have "extractVerbalEvidence t =
     foldl (\<lambda>acc u. if (\<exists>kw \<in> set evidenceKeywords. includesStr (toLowerCase (utt_text u)) kw)
                     \<and> 15 < length (utt_text u) then acc @ [evidenceLine u] else acc) [] (utterances t)"
    by (simp add: extractVerbalEvidence_def Let_def list_ex_iff)
  then show ?thesis
    by (simp add: foldl_push_filter)
qed

theorem extractVerbalEvidence_filter_witness:
  "extractVerbalEvidence
     \<lparr>transcript_text = [],
      utterances =
        [\<lparr>utt_start = 65000, utt_end = 70000,
          utt_text = js ''Le CONFIRMO el bloqueo de su tarjeta'', utt_speaker = js ''A''\<rparr>,
         \<lparr>utt_start = 71000, utt_end = 72000,
          utt_text = js ''ok tarjeta'', utt_speaker = js ''B''\<rparr>,
         \<lparr>utt_start = 73000, utt_end = 75000,
          utt_text = js ''Buenas tardes y gracias'', utt_speaker = js ''A''\<rparr>],
      duration = None\<rparr>
   = [evidenceLine \<lparr>utt_start = 65000, utt_end = 70000,
          utt_text = js ''Le CONFIRMO el bloqueo de su tarjeta'', utt_speaker = js ''A''\<rparr>]"
proof -
  have k1: "\<exists>kw \<in> set evidenceKeywords.
      includesStr (toLowerCase (js ''Le CONFIRMO el bloqueo de su tarjeta'')) kw"
    by (simp add: js_def toLowerCase_def lowerUnit_def evidenceKeywords_def)
  have k3: "\<not> (\<exists>kw \<in> set evidenceKeywords.
      includesStr (toLowerCase (js ''Buenas tardes y gracias'')) kw)"
    by (simp add: js_def toLowerCase_def lowerUnit_def evidenceKeywords_def)
  have l1: "15 < length (js ''Le CONFIRMO el bloqueo de su tarjeta'')"
    and l2: "\<not> 15 < length (js ''ok tarjeta'')"
    by (simp_all add: js_def)
  show ?thesis
    by (simp only: conjunct1 [OF extractVerbalEvidence_filter] TranscriptResult.simps
        Utterance.simps filter.simps list.map k1 k3 l1 l2 simp_thms if_True if_False)
qed

section \<open>C10: idempotence of the text normalisation\<close>

text \<open>
  Claim C10, as far as the code carries it. On every string whose code units are Basic
  Latin or Latin-1 characters (below U+0100) or combining diacritical marks (U+0300 to
  U+036F), which covers every label of the catalogs, \<open>normalizeText\<close> is idempotent:
  normalising a normalised string changes nothing.
\<close>

theorem normalizeText_idempotent_latin:
  assumes "\<forall>c\<in>set s. c < 0x100 \<or> isCombiningDiacritic c"
  shows "normalizeText (normalizeText s) = normalizeText s"
proof -
  let ?t = "filter (\<lambda>c. \<not> isCombiningDiacritic c) (normalizeNFD (toLowerCase s))"
  let ?u = "normalizeText s"
  have u: "?u = trim (replaceWhitespaceRuns ?t)" by (simp add: normalizeText_def)
  have "\<forall>d\<in>set ?t. settled d" using assms by (rule stripped_settled)
  then have su: "\<forall>d\<in>set ?u. settled d"
    unfolding u using set_trim set_replaceWhitespaceRuns space_settled by blast
  have tu: "tidy ?u" unfolding u by (intro tidy_trim tidy_replaceWhitespaceRuns)
  have "normalizeText ?u = trim (replaceWhitespaceRuns ?u)"
    using su by (simp add: normalizeText_def[of ?u] toLowerCase_settled normalizeNFD_settled strip_settled)
  also have "\<dots> = trim ?u" using tu by (simp add: tidy_replace_id)
  also have "\<dots> = ?u" unfolding u by (rule trim_idem)
  finally show ?thesis .
qed

theorem normalizeText_idempotent_latin_witness:
  "normalizeText (normalizeText (js ''  Cierre   CORRECTO '' @ [0xC1, 0xF1, 0x41, 0x301])) =
   normalizeText (js ''  Cierre   CORRECTO '' @ [0xC1, 0xF1, 0x41, 0x301])"
proof -
  have h: "\<forall>c\<in>set (js ''  Cierre   CORRECTO '' @ [0xC1, 0xF1, 0x41, 0x301]).
      c < 0x100 \<or> isCombiningDiacritic c"
    by (simp add: js_def isCombiningDiacritic_def)
  show ?thesis
    using normalizeText_idempotent_latin [OF h] .
qed

text \<open>
  The claim as stated, for every string, fails. U+034F (combining grapheme joiner) lies in
  the range that \<open>normalizeText\<close> removes and has combining class 0, so it keeps the two
  marks around it from being reordered by the first normalisation; once it is removed, the
  second normalisation reorders them.
\<close>

theorem normalizeText_idempotent_counterexample:
  "normalizeText (normalizeText [0x61, 0x591, 0x34F, 0x5B0]) \<noteq>
   normalizeText [0x61, 0x591, 0x34F, 0x5B0]"
proof -
  have low1: "toLowerCase [0x61, 0x591, 0x34F, 0x5B0] = [0x61, 0x591, 0x34F, 0x5B0]"
    by (simp add: toLowerCase_def lowerUnit_def)
  have nfd1: "normalizeNFD [0x61, 0x591, 0x34F, 0x5B0] = [0x61, 0x591, 0x34F, 0x5B0]"
    by (simp add: normalizeNFD_def decomposition_def decompositionTable_def
        canonicalOrder_def combiningClass_def)
  have c1: "normalizeText [0x61, 0x591, 0x34F, 0x5B0] = [0x61, 0x591, 0x5B0]"
    by (simp add: normalizeText_def low1 nfd1 isCombiningDiacritic_def isWhiteSpace_def trim_def)
  have low2: "toLowerCase [0x61, 0x591, 0x5B0] = [0x61, 0x591, 0x5B0]"
    by (simp add: toLowerCase_def lowerUnit_def)
  have nfd2: "normalizeNFD [0x61, 0x591, 0x5B0] = [0x61, 0x5B0, 0x591]"
    by (simp add: normalizeNFD_def decomposition_def decompositionTable_def
        canonicalOrder_def combiningClass_def)
  have c2: "normalizeText [0x61, 0x591, 0x5B0] = [0x61, 0x5B0, 0x591]"
    by (simp add: normalizeText_def low2 nfd2 isCombiningDiacritic_def isWhiteSpace_def trim_def)
  show ?thesis
    by (simp only: c1 c2) simp
qed

end
